theory Spec2Isabelle
  imports Main "HOL-Library.Sublist"
begin

section \<open>Python strings and cells\<close>

text \<open>
  A Python \<open>str\<close> is a sequence of Unicode code points, so a string is modelled as the
  list of its code points. \<open>lit\<close> writes an ASCII literal of the source as such a list.
\<close>

type_synonym pystr = "nat list"

definition lit :: "string \<Rightarrow> pystr" where
  "lit s = map of_char s"

text \<open>
  The code points that \<open>str.strip()\<close> removes (those for which \<open>str.isspace\<close> holds):
  U+0009..U+000D, U+001C..U+0020, U+0085, U+00A0, U+1680, U+2000..U+200A, U+2028, U+2029,
  U+202F, U+205F, U+3000.
\<close>

definition py_isspace :: "nat \<Rightarrow> bool" where
  "py_isspace c \<longleftrightarrow>
     (9 \<le> c \<and> c \<le> 13) \<or> (28 \<le> c \<and> c \<le> 32) \<or> c = 133 \<or> c = 160 \<or> c = 5760 \<or>
     (8192 \<le> c \<and> c \<le> 8202) \<or> c = 8232 \<or> c = 8233 \<or> c = 8239 \<or> c = 8287 \<or> c = 12288"

definition py_strip :: "pystr \<Rightarrow> pystr" where
  "py_strip s = rev (dropWhile py_isspace (rev (dropWhile py_isspace s)))"

text \<open>
  \<open>str.lower()\<close>, code point by code point. The ASCII capitals and the Latin-1 capitals
  (U+00C0..U+00DE without the multiplication sign U+00D7) move 32 up. Beyond Latin-1 the
  five code points are listed whose lower case has a code point below U+0100; every other
  code point beyond U+00FF lower-cases to code points beyond U+00FF and is left as it
  is: the functions below never tell two code points beyond U+00FF apart.
\<close>

definition py_lower_cp :: "nat \<Rightarrow> pystr" where
  "py_lower_cp c =
     (if 65 \<le> c \<and> c \<le> 90 then [c + 32]
      else if 192 \<le> c \<and> c \<le> 222 \<and> c \<noteq> 215 then [c + 32]
      else if c = 304 then [105, 775]
      else if c = 376 then [255]
      else if c = 7838 then [223]
      else if c = 8490 then [107]
      else if c = 8491 then [229]
      else [c])"

definition py_lower :: "pystr \<Rightarrow> pystr" where
  "py_lower s = concat (map py_lower_cp s)"

text \<open>\<open>needle in hay\<close> on strings: \<open>needle\<close> occurs as a contiguous run of \<open>hay\<close>.\<close>

fun py_in :: "pystr \<Rightarrow> pystr \<Rightarrow> bool" where
  "py_in needle [] = (needle = [])"
| "py_in needle (c # cs) = (prefix needle (c # cs) \<or> py_in needle cs)"

text \<open>
  A cell of a text column: a string, \<open>None\<close> or the float \<open>nan\<close> that pandas puts in
  an empty cell. \<open>py_str\<close> is Python's \<open>str(x)\<close> (and \<open>astype(str)\<close> per element).
\<close>

datatype cell = PyNone | PyNaN | PyStr pystr

fun py_str :: "cell \<Rightarrow> pystr" where
  "py_str PyNone = lit ''None''"
| "py_str PyNaN = lit ''nan''"
| "py_str (PyStr s) = s"

section \<open>Key normalizer\<close>

text \<open>
  \<open>re.sub('[^a-z0-9]', '', s)\<close>: every code point outside \<open>a..z\<close> and \<open>0..9\<close> is deleted.
\<close>

definition az09 :: "nat \<Rightarrow> bool" where
  "az09 c \<longleftrightarrow> (97 \<le> c \<and> c \<le> 122) \<or> (48 \<le> c \<and> c \<le> 57)"

definition re_sub_az09 :: "pystr \<Rightarrow> pystr" where
  "re_sub_az09 s = filter az09 s"

text \<open>
  \<open>_normalizar_texto_para_chave\<close> of Drive_Sheets.py (Capacidade.py has the same body):
  \<open>re.sub('[^a-z0-9]', '', str(series).strip().lower())\<close>. The branch for a pandas
  Series applies the same three steps to every element.
\<close>

definition normalizar_texto_para_chave :: "cell \<Rightarrow> pystr" where
  "normalizar_texto_para_chave x = re_sub_az09 (py_lower (py_strip (py_str x)))"

text \<open>
  \<open>DataProcessor._normalizar_texto\<close> of the reconciliation script with the Qive report:
  \<open>series.astype(str).str.normalize('NFKD').str.encode('ascii', 'ignore').str.decode('utf-8')
  .str.strip().str.upper()\<close>, for one element of the series. The compatibility
  decomposition of a code point is a table of the Python library, taken as the parameter
  \<open>nfkd\<close>; \<open>encode('ascii', 'ignore')\<close> drops every code point from U+0080 on, so
  \<open>upper()\<close> only ever sees ASCII, where it moves \<open>a..z\<close> 32 down.
\<close>

definition py_upper_ascii :: "nat \<Rightarrow> nat" where
  "py_upper_ascii c = (if 97 \<le> c \<and> c \<le> 122 then c - 32 else c)"

definition normalizar_texto :: "(nat \<Rightarrow> pystr) \<Rightarrow> cell \<Rightarrow> pystr" where
  "normalizar_texto nfkd x =
     map py_upper_ascii (py_strip (filter (\<lambda>c. c < 128) (concat (map nfkd (py_str x)))))"

text \<open>
  The key columns are built from three text columns joined by \<open>'_'\<close>:
  \<open>_normalizar_texto_para_chave(a) + '_' + _normalizar_texto_para_chave(b) + '_' +
  _normalizar_texto_para_chave(c)\<close>. \<open>processar_dados_descargas\<close> builds
  \<open>chave_primaria\<close> from (nota, produto, Fonte Padronizada) and
  \<open>chave_placa_fonte_produto\<close> from (placa, produto, Fonte Padronizada);
  \<open>processar_dados_transportes\<close> builds \<open>chave_primaria\<close> from (nfe, produto, recebedor);
  the second stage of the matcher builds its lookup key from (cavalo, produto, recebedor).
\<close>

definition montar_chave :: "cell \<Rightarrow> cell \<Rightarrow> cell \<Rightarrow> pystr" where
  "montar_chave a b c =
     normalizar_texto_para_chave a @ lit ''_'' @ normalizar_texto_para_chave b @ lit ''_'' @
     normalizar_texto_para_chave c"

section \<open>Rows of the two data frames\<close>

text \<open>
  A date cell is \<open>None\<close> when pandas holds NaT, NaN or None there (\<open>pd.isna\<close>) and
  \<open>Some d\<close> for a timestamp \<open>d\<close>, an integer on the time line.
  A row of \<open>df_descargas\<close> as \<open>processar_dados_descargas\<close> leaves it: that function keeps
  only the rows whose \<open>data\<close> parsed, so \<open>data\<close> is a timestamp. The column
  \<open>data_de_descarga\<close> is not parsed; the matcher only asks whether it is missing and
  copies it, so \<open>Some d\<close> stands for whatever the cell holds.
  A row of \<open>df_transportes\<close> as \<open>processar_dados_transportes\<close> leaves it, with the
  columns the matcher reads or writes; \<open>data_de_carregamento\<close> was parsed with
  \<open>errors='coerce'\<close>, so a date that did not parse is NaT, \<open>None\<close> here.
\<close>

record descarga =
  d_chave_primaria :: pystr
  d_chave_placa_fonte_produto :: pystr
  d_data :: int
  d_data_de_descarga :: "int option"

datatype fonte = Nao_Atualizado | Etapa_1_Chave_Primaria | Etapa_2_Placa

record transporte =
  status :: cell
  nfe :: cell
  cavalo :: cell
  produto :: cell
  recebedor :: cell
  chave_primaria :: pystr
  data_de_carregamento :: "int option"
  data_chegada :: "int option"
  data_descarga :: "int option"
  fonte_atualizacao :: fonte

record contadores =
  etapa1_transito_para_aguardando :: nat
  etapa1_transito_para_descarregado :: nat
  etapa1_aguardando_para_descarregado :: nat
  etapa2_transito_para_aguardando :: nat
  etapa2_transito_para_descarregado :: nat
  etapa2_aguardando_para_descarregado :: nat

definition contadores_zero :: contadores where
  "contadores_zero =
     \<lparr>etapa1_transito_para_aguardando = 0, etapa1_transito_para_descarregado = 0,
      etapa1_aguardando_para_descarregado = 0, etapa2_transito_para_aguardando = 0,
      etapa2_transito_para_descarregado = 0, etapa2_aguardando_para_descarregado = 0\<rparr>"

section \<open>Index construction\<close>

text \<open>
  \<open>drop_duplicates(subset=[key], keep='last')\<close>: a row stays when no later row has its key;
  the order of the rows that stay is kept.
\<close>

fun drop_duplicates_last :: "('r \<Rightarrow> 'k) \<Rightarrow> 'r list \<Rightarrow> 'r list" where
  "drop_duplicates_last key [] = []"
| "drop_duplicates_last key (r # rs) =
     (if key r \<in> key ` set rs then drop_duplicates_last key rs
      else r # drop_duplicates_last key rs)"

text \<open>
  \<open>set_index(key).to_dict('index')\<close>: the dict from the key of a row to the row. It is
  only called on a frame without duplicate keys.
\<close>

definition to_dict_index :: "('r \<Rightarrow> 'k) \<Rightarrow> 'r list \<Rightarrow> ('k \<rightharpoonup> 'r)" where
  "to_dict_index key rs = map_of (map (\<lambda>r. (key r, r)) rs)"

text \<open>
  \<open>descargas_com_indice\<close>: every row with its \<open>original_index\<close>, the label of the row in
  \<open>df_descargas\<close>. The labels of a frame are distinct (Drive_Sheets.py resets the index
  before it filters), so the position of the row stands for its label.
\<close>

definition descargas_com_indice :: "descarga list \<Rightarrow> (nat \<times> descarga) list" where
  "descargas_com_indice ds = enumerate 0 ds"

definition mapa_chaves :: "descarga list \<Rightarrow> (pystr \<rightharpoonup> nat \<times> descarga)" where
  "mapa_chaves ds =
     to_dict_index (\<lambda>r. d_chave_primaria (snd r))
       (drop_duplicates_last (\<lambda>r. d_chave_primaria (snd r)) (descargas_com_indice ds))"

definition mapa_placa :: "descarga list \<Rightarrow> (pystr \<rightharpoonup> nat \<times> descarga)" where
  "mapa_placa ds =
     to_dict_index (\<lambda>r. d_chave_placa_fonte_produto (snd r))
       (drop_duplicates_last (\<lambda>r. d_chave_placa_fonte_produto (snd r)) (descargas_com_indice ds))"

section \<open>The matcher\<close>

definition transito :: pystr where
  "transito = lit ''tr'' @ [226] @ lit ''nsito''"

definition status_original :: "transporte \<Rightarrow> pystr" where
  "status_original t = py_lower (py_str (status t))"

text \<open>
  \<open>'aguardando descarga' if pd.isna(match.get('data_de_descarga')) else 'descarregado'\<close>
\<close>

definition novo_status :: "descarga \<Rightarrow> pystr" where
  "novo_status m =
     (if d_data_de_descarga m = None then lit ''aguardando descarga'' else lit ''descarregado'')"

text \<open>
  The body of the first loop for one row. The state is the counters and
  \<open>indices_descargas_usados\<close>; the row is returned as \<open>transportes_atualizado\<close> holds it
  after the iteration.
\<close>

definition etapa1_linha ::
  "(pystr \<rightharpoonup> nat \<times> descarga) \<Rightarrow> transporte \<Rightarrow> contadores \<times> nat set
     \<Rightarrow> transporte \<times> contadores \<times> nat set" where
  "etapa1_linha mapa t st =
     (case mapa (chave_primaria t) of
        None \<Rightarrow> (t, st)
      | Some (oi, m) \<Rightarrow>
          (let c = fst st;
               usados = insert oi (snd st);
               so = status_original t;
               novo = novo_status m
           in if novo \<noteq> so then
                (let t1 = t\<lparr>data_chegada := Some (d_data m),
                              fonte_atualizacao := Etapa_1_Chave_Primaria\<rparr>
                 in if py_in transito so \<and> novo = lit ''aguardando descarga'' then
                      (t1\<lparr>status := PyStr (lit ''AGUARDANDO DESCARGA'')\<rparr>,
                       c\<lparr>etapa1_transito_para_aguardando :=
                            etapa1_transito_para_aguardando c + 1\<rparr>, usados)
                    else if py_in transito so \<and> novo = lit ''descarregado'' then
                      (t1\<lparr>status := PyStr (lit ''DESCARREGADO''),
                           data_descarga := d_data_de_descarga m\<rparr>,
                       c\<lparr>etapa1_transito_para_descarregado :=
                            etapa1_transito_para_descarregado c + 1\<rparr>, usados)
                    else if py_in (lit ''aguardando'') so \<and> novo = lit ''descarregado'' then
                      (t1\<lparr>status := PyStr (lit ''DESCARREGADO''),
                           data_descarga := d_data_de_descarga m\<rparr>,
                       c\<lparr>etapa1_aguardando_para_descarregado :=
                            etapa1_aguardando_para_descarregado c + 1\<rparr>, usados)
                    else (t1, c, usados))
              else (t, c, usados)))"

fun etapa1 ::
  "(pystr \<rightharpoonup> nat \<times> descarga) \<Rightarrow> transporte list \<Rightarrow> contadores \<times> nat set
     \<Rightarrow> transporte list \<times> contadores \<times> nat set" where
  "etapa1 mapa [] st = ([], st)"
| "etapa1 mapa (t # ts) st =
     (case etapa1_linha mapa t st of
        (t', st') \<Rightarrow> (case etapa1 mapa ts st' of (ts', st'') \<Rightarrow> (t' # ts', st'')))"

definition chave_busca_placa :: "transporte \<Rightarrow> pystr" where
  "chave_busca_placa t = montar_chave (cavalo t) (produto t) (recebedor t)"

text \<open>
  The body of the second loop for one row:
  \<open>pd.notna(transporte['data_de_carregamento']) and
    pd.to_datetime(match['data']) >= transporte['data_de_carregamento']\<close> gates the match.
\<close>

definition etapa2_linha ::
  "(pystr \<rightharpoonup> nat \<times> descarga) \<Rightarrow> transporte \<Rightarrow> contadores \<times> nat set
     \<Rightarrow> transporte \<times> contadores \<times> nat set" where
  "etapa2_linha mapa t st =
     (case mapa (chave_busca_placa t) of
        None \<Rightarrow> (t, st)
      | Some (oi, m) \<Rightarrow>
          (if (case data_de_carregamento t of None \<Rightarrow> False | Some dc \<Rightarrow> d_data m \<ge> dc) then
             (let c = fst st;
                  usados = insert oi (snd st);
                  so = status_original t;
                  novo = novo_status m
              in if novo \<noteq> so then
                   (let t1 = t\<lparr>data_chegada := Some (d_data m),
                                 fonte_atualizacao := Etapa_2_Placa\<rparr>
                    in if py_in transito so \<and> novo = lit ''aguardando descarga'' then
                         (t1\<lparr>status := PyStr (lit ''AGUARDANDO DESCARGA'')\<rparr>,
                          c\<lparr>etapa2_transito_para_aguardando :=
                               etapa2_transito_para_aguardando c + 1\<rparr>, usados)
                       else if py_in transito so \<and> novo = lit ''descarregado'' then
                         (t1\<lparr>status := PyStr (lit ''DESCARREGADO''),
                              data_descarga := d_data_de_descarga m\<rparr>,
                          c\<lparr>etapa2_transito_para_descarregado :=
                               etapa2_transito_para_descarregado c + 1\<rparr>, usados)
                       else if py_in (lit ''aguardando'') so \<and> novo = lit ''descarregado'' then
                         (t1\<lparr>status := PyStr (lit ''DESCARREGADO''),
                              data_descarga := d_data_de_descarga m\<rparr>,
                          c\<lparr>etapa2_aguardando_para_descarregado :=
                               etapa2_aguardando_para_descarregado c + 1\<rparr>, usados)
                       else (t1, c, usados))
                 else (t, c, usados))
           else (t, st)))"

text \<open>
  The second loop runs over \<open>transportes_para_etapa_2\<close>, the rows that the first loop left
  unmarked (\<open>Nao_Atualizado\<close>), and writes into the same rows of \<open>transportes_atualizado\<close>.
\<close>

fun etapa2 ::
  "(pystr \<rightharpoonup> nat \<times> descarga) \<Rightarrow> transporte list \<Rightarrow> contadores \<times> nat set
     \<Rightarrow> transporte list \<times> contadores \<times> nat set" where
  "etapa2 mapa [] st = ([], st)"
| "etapa2 mapa (t # ts) st =
     (case (if fonte_atualizacao t = Nao_Atualizado then etapa2_linha mapa t st else (t, st)) of
        (t', st') \<Rightarrow> (case etapa2 mapa ts st' of (ts', st'') \<Rightarrow> (t' # ts', st'')))"

text \<open>
  \<open>cruzar_e_atualizar_transportes\<close> of Drive_Sheets.py. Every row starts at
  the marker \<open>Nao_Atualizado\<close>; with an empty frame on either side the function returns at once,
  with the empty dict for the counters (\<open>None\<close> here) and no index used.
\<close>

definition cruzar_e_atualizar_transportes ::
  "transporte list \<Rightarrow> descarga list \<Rightarrow> transporte list \<times> contadores option \<times> nat set" where
  "cruzar_e_atualizar_transportes df_transportes df_descargas =
     (let transportes_atualizado =
            map (\<lambda>t. t\<lparr>fonte_atualizacao := Nao_Atualizado\<rparr>) df_transportes
      in if transportes_atualizado = [] \<or> df_descargas = [] then
           (transportes_atualizado, None, {})
         else
           (case etapa1 (mapa_chaves df_descargas) transportes_atualizado (contadores_zero, {}) of
              (ts1, st1) \<Rightarrow>
                (case etapa2 (mapa_placa df_descargas) ts1 st1 of
                   (ts2, c2, usados) \<Rightarrow> (ts2, Some c2, usados))))"

text \<open>
  What the two loops do to one row, read off their bodies: the row is reset, goes through
  the body of the first loop, and goes through the body of the second loop when the first
  one left it unmarked. The bodies never read the counters or the used indices, so the
  state passed here is immaterial; \<open>cruzar_rows\<close> below proves that the frame returned
  by \<open>cruzar_e_atualizar_transportes\<close> is this function mapped over the input rows.
\<close>

definition linha_final :: "descarga list \<Rightarrow> transporte \<Rightarrow> transporte" where
  "linha_final ds t =
     (let t0 = t\<lparr>fonte_atualizacao := Nao_Atualizado\<rparr>;
          t1 = fst (etapa1_linha (mapa_chaves ds) t0 (contadores_zero, {}))
      in if fonte_atualizacao t1 = Nao_Atualizado
         then fst (etapa2_linha (mapa_placa ds) t1 (contadores_zero, {})) else t1)"

section \<open>The update loop of the Bsoft reconciliation\<close>

text \<open>
  Step 7 of \<open>main\<close> in the script that fills scheduled shipments from the Bsoft report:
  the loop over \<open>df_match\<close>, the inner join of the scheduled shipments with the invoices
  left over. A row of \<open>df_match\<close> carries the place of the shipment in its workbook and
  the columns of the invoice; the loop skips a row whose invoice number is already in
  \<open>nfs_ja_usadas\<close>, and otherwise calls \<open>update_excel_row\<close>, which swallows its errors,
  and adds the number to the set. The state is \<open>nfs_ja_usadas\<close>, the calls made so far
  and \<open>count\<close>.
\<close>

record updates =
  u_nfe :: pystr
  u_volume_l :: cell
  u_data_de_carregamento :: pystr
  u_horario_de_carregamento :: cell
  u_status :: pystr

record chamada =
  c_file_id :: pystr
  c_sheet_name :: pystr
  c_row_num :: int
  c_updates :: updates

record linha_match =
  ms_file_id_transp :: pystr
  ms_sheet_name_transp :: pystr
  excel_row_num_transp :: int
  numero :: pystr
  bsoft_vol :: cell
  bsoft_data :: pystr
  bsoft_hora :: cell

definition EM_TRANSITO :: pystr where
  "EM_TRANSITO = lit ''EM TR'' @ [194] @ lit ''NSITO''"

fun main_atualizacao ::
  "pystr \<Rightarrow> linha_match list \<Rightarrow> pystr set \<times> chamada list \<times> nat
     \<Rightarrow> pystr set \<times> chamada list \<times> nat" where
  "main_atualizacao bsoft_id [] st = st"
| "main_atualizacao bsoft_id (row # rows) (nfs_ja_usadas, chamadas, count) =
     (let nova_nfe = numero row
      in if ms_file_id_transp row = bsoft_id \<or> nova_nfe \<in> nfs_ja_usadas then
           main_atualizacao bsoft_id rows (nfs_ja_usadas, chamadas, count)
         else
           main_atualizacao bsoft_id rows
             (insert nova_nfe nfs_ja_usadas,
              chamadas @
                [\<lparr>c_file_id = ms_file_id_transp row, c_sheet_name = ms_sheet_name_transp row,
                  c_row_num = excel_row_num_transp row,
                  c_updates =
                    \<lparr>u_nfe = nova_nfe, u_volume_l = bsoft_vol row,
                     u_data_de_carregamento = bsoft_data row,
                     u_horario_de_carregamento = bsoft_hora row, u_status = EM_TRANSITO\<rparr>\<rparr>],
              count + 1))"

section \<open>Example rows\<close>

text \<open>
  The shipment and the invoice of the examples: invoice number \<open>"123"\<close>, product
  \<open>"HIDRATADO"\<close> on the shipment and \<open>"Hidratado "\<close> on the invoice, plate
  \<open>"ABC1234"\<close>, the same counterparty on both, with the keys as the two
  \<open>processar_dados\<close> functions build them. The status of the shipment and the unload
  date of the invoice are left open.
\<close>

definition em_transito :: pystr where
  "em_transito = lit ''Em Tr'' @ [226] @ lit ''nsito''"

definition ex_transporte :: "cell \<Rightarrow> transporte" where
  "ex_transporte s =
     \<lparr>status = s, nfe = PyStr (lit ''123''), cavalo = PyStr (lit ''ABC1234''),
      produto = PyStr (lit ''HIDRATADO''), recebedor = PyStr (lit ''Aruja''),
      chave_primaria =
        montar_chave (PyStr (lit ''123'')) (PyStr (lit ''HIDRATADO'')) (PyStr (lit ''Aruja'')),
      data_de_carregamento = Some 5, data_chegada = None, data_descarga = None,
      fonte_atualizacao = Nao_Atualizado\<rparr>"

definition ex_descarga :: "int option \<Rightarrow> descarga" where
  "ex_descarga ud =
     \<lparr>d_chave_primaria =
        montar_chave (PyStr (lit ''123'')) (PyStr (lit ''Hidratado '')) (PyStr (lit ''Aruja'')),
      d_chave_placa_fonte_produto =
        montar_chave (PyStr (lit ''ABC1234'')) (PyStr (lit ''Hidratado '')) (PyStr (lit ''Aruja'')),
      d_data = 10, d_data_de_descarga = ud\<rparr>"

text \<open>
  The same shipment before its invoice number is filled in, with a loading date to choose:
  its primary key matches no invoice, its plate key matches the invoice of the example.
\<close>

definition ex_sem_nfe :: "cell \<Rightarrow> int option \<Rightarrow> transporte" where
  "ex_sem_nfe s dc =
     (ex_transporte s)
       \<lparr>nfe := PyStr [],
        chave_primaria :=
          montar_chave (PyStr []) (PyStr (lit ''HIDRATADO'')) (PyStr (lit ''Aruja'')),
        data_de_carregamento := dc\<rparr>"

text \<open>
  A second invoice, number \<open>"456"\<close> on plate \<open>"XYZ9876"\<close>, and the shipments for it,
  with and without the invoice number filled in.
\<close>

definition ex_descarga_b :: "int option \<Rightarrow> descarga" where
  "ex_descarga_b ud =
     \<lparr>d_chave_primaria =
        montar_chave (PyStr (lit ''456'')) (PyStr (lit ''Hidratado '')) (PyStr (lit ''Aruja'')),
      d_chave_placa_fonte_produto =
        montar_chave (PyStr (lit ''XYZ9876'')) (PyStr (lit ''Hidratado '')) (PyStr (lit ''Aruja'')),
      d_data = 20, d_data_de_descarga = ud\<rparr>"

definition ex_transporte_b :: "cell \<Rightarrow> transporte" where
  "ex_transporte_b s =
     (ex_transporte s)
       \<lparr>nfe := PyStr (lit ''456''), cavalo := PyStr (lit ''XYZ9876''),
        chave_primaria :=
          montar_chave (PyStr (lit ''456'')) (PyStr (lit ''HIDRATADO'')) (PyStr (lit ''Aruja''))\<rparr>"

definition ex_sem_nfe_b :: "cell \<Rightarrow> int option \<Rightarrow> transporte" where
  "ex_sem_nfe_b s dc = (ex_sem_nfe s dc)\<lparr>cavalo := PyStr (lit ''XYZ9876'')\<rparr>"

text \<open>A row of \<open>df_match\<close> for the invoice \<open>"123"\<close> and the shipment in a given row.\<close>

definition ex_linha_match :: "int \<Rightarrow> linha_match" where
  "ex_linha_match r =
     \<lparr>ms_file_id_transp = lit ''F1'', ms_sheet_name_transp = lit ''Base'',
      excel_row_num_transp = r, numero = lit ''123'', bsoft_vol = PyStr (lit ''45000''),
      bsoft_data = lit ''04/11/2026'', bsoft_hora = PyStr (lit ''08:00'')\<rparr>"

section \<open>Properties of the key normalizer\<close>

lemmas normalizar_eval =
  normalizar_texto_para_chave_def lit_def re_sub_az09_def py_lower_def py_strip_def
  py_isspace_def py_lower_cp_def az09_def

lemma az09_lower_cp: "az09 c \<Longrightarrow> py_lower_cp c = [c]"
  by (auto simp: az09_def py_lower_cp_def)

lemma az09_not_space: "az09 c \<Longrightarrow> \<not> py_isspace c"
  by (auto simp: az09_def py_isspace_def)

lemma space_lower_cp: "py_isspace c \<Longrightarrow> py_lower_cp c = [c]"
  by (auto simp: py_isspace_def py_lower_cp_def)

lemma py_lower_append: "py_lower (xs @ ys) = py_lower xs @ py_lower ys"
  by (simp add: py_lower_def)

lemma py_lower_az09: "\<forall>c\<in>set s. az09 c \<Longrightarrow> py_lower s = s"
  by (induction s) (simp_all add: py_lower_def az09_lower_cp)

lemma filter_az09_id: "\<forall>c\<in>set s. az09 c \<Longrightarrow> filter az09 s = s"
  by (induction s) auto

text \<open>White space at either end is deleted by the regular expression anyway.\<close>

lemma filter_lower_dropWhile:
  "filter az09 (py_lower (dropWhile py_isspace s)) = filter az09 (py_lower s)"
  by (induction s) (auto simp: py_lower_def space_lower_cp az09_not_space)

lemma filter_lower_dropWhile_rev:
  "filter az09 (py_lower (rev (dropWhile py_isspace (rev s)))) = filter az09 (py_lower s)"
  by (induction s rule: rev_induct)
     (auto simp: py_lower_append py_lower_def space_lower_cp az09_not_space)

lemma filter_lower_spaces: "\<forall>c\<in>set w. py_isspace c \<Longrightarrow> filter az09 (py_lower w) = []"
  by (induction w) (auto simp: py_lower_def space_lower_cp az09_not_space)

lemma normalizar_eq: "normalizar_texto_para_chave x = filter az09 (py_lower (py_str x))"
  by (simp add: normalizar_texto_para_chave_def re_sub_az09_def py_strip_def
      filter_lower_dropWhile_rev filter_lower_dropWhile)

lemma normalizar_az09: "\<forall>c\<in>set (normalizar_texto_para_chave x). az09 c"
  by (simp add: normalizar_eq)

lemma normalizar_idem:
  "normalizar_texto_para_chave (PyStr (normalizar_texto_para_chave x)) =
   normalizar_texto_para_chave x"
proof -
  let ?n = "normalizar_texto_para_chave x"
  have a: "\<forall>c\<in>set ?n. az09 c" by (rule normalizar_az09)
  have "normalizar_texto_para_chave (PyStr ?n) = filter az09 (py_lower ?n)"
    by (simp add: normalizar_eq)
  also have "\<dots> = filter az09 ?n" using a by (simp add: py_lower_az09)
  also have "\<dots> = ?n" using a by (rule filter_az09_id)
  finally show ?thesis .
qed

lemma normalizar_ws:
  "\<forall>c\<in>set w1. py_isspace c \<Longrightarrow> \<forall>c\<in>set w2. py_isspace c \<Longrightarrow>
   normalizar_texto_para_chave (PyStr (w1 @ s @ w2)) = normalizar_texto_para_chave (PyStr s)"
  by (simp add: normalizar_eq py_lower_append filter_lower_spaces)

lemma normalizar_Hidratado:
  "normalizar_texto_para_chave (PyStr (lit ''Hidratado '')) = lit ''hidratado''"
  by (simp add: normalizar_eval)

lemma normalizar_HIDRATADO:
  "normalizar_texto_para_chave (PyStr (lit ''HIDRATADO'')) = lit ''hidratado''"
  by (simp add: normalizar_eval)

lemma normalizar_hidratado:
  "normalizar_texto_para_chave (PyStr (lit ''hidratado'')) = lit ''hidratado''"
  by (simp add: normalizar_eval)

lemma normalizar_texto_ascii:
  assumes "\<forall>c<128. nfkd c = [c]" and "\<forall>c\<in>set s. c < 128"
  shows "normalizar_texto nfkd (PyStr s) = map py_upper_ascii (py_strip s)"
proof -
  have "concat (map nfkd s) = s" using assms by (induction s) auto
  moreover have "filter (\<lambda>c. c < 128) s = s" using assms(2) by (induction s) auto
  ultimately show ?thesis by (simp add: normalizar_texto_def)
qed

lemma filter_lower_cp:
  "filter az09 (py_lower_cp c) =
     (if 65 \<le> c \<and> c \<le> 90 then [c + 32] else if az09 c then [c]
      else if c = 304 then [105] else if c = 8490 then [107] else [])"
  by (simp add: py_lower_cp_def az09_def)

lemma normalizar_por_caractere:
  "normalizar_texto_para_chave x =
     concat (map (\<lambda>c. if 65 \<le> c \<and> c \<le> 90 then [c + 32] else if az09 c then [c]
                       else if c = 304 then [105] else if c = 8490 then [107] else [])
       (py_str x))"
proof -
  have "filter az09 (py_lower s) =
     concat (map (\<lambda>c. if 65 \<le> c \<and> c \<le> 90 then [c + 32] else if az09 c then [c]
                       else if c = 304 then [105] else if c = 8490 then [107] else []) s)" for s
    by (induction s) (simp_all add: py_lower_def filter_lower_cp del: filter.simps)
  then show ?thesis by (simp add: normalizar_eq)
qed

lemma normalizar_nao_ascii:
  assumes "128 \<le> c" and "c \<noteq> 304" and "c \<noteq> 8490"
  shows "normalizar_texto_para_chave (PyStr (s @ [c] @ t)) =
         normalizar_texto_para_chave (PyStr (s @ t))"
proof -
  have "filter az09 (py_lower_cp c) = []"
    using assms by (simp add: filter_lower_cp az09_def)
  then show ?thesis by (simp add: normalizar_eq py_lower_append) (simp add: py_lower_def)
qed

lemma normalizar_texto_base:
  assumes "\<forall>c\<in>set s. filter (\<lambda>k. k < 128) (nfkd c) = [base c]"
  shows "normalizar_texto nfkd (PyStr s) = map py_upper_ascii (py_strip (map base s))"
proof -
  have "filter (\<lambda>k. k < 128) (concat (map nfkd s)) = map base s"
    using assms by (induction s) simp_all
  then show ?thesis by (simp add: normalizar_texto_def)
qed

lemma py_strip_subset: "k \<in> set (py_strip s) \<Longrightarrow> k \<in> set s"
  by (metis py_strip_def set_dropWhileD set_rev)

lemma normalizar_texto_ascii_upper:
  "\<forall>c\<in>set (normalizar_texto nfkd x). c < 128 \<and> \<not> (97 \<le> c \<and> c \<le> 122)"
proof
  fix c assume "c \<in> set (normalizar_texto nfkd x)"
  then obtain k where k: "k \<in> set (py_strip (filter (\<lambda>c. c < 128) (concat (map nfkd (py_str x)))))"
    and c: "c = py_upper_ascii k"
    by (auto simp: normalizar_texto_def)
  from k have "k \<in> set (filter (\<lambda>c. c < 128) (concat (map nfkd (py_str x))))"
    by (rule py_strip_subset)
  then have "k < 128" by simp
  with c show "c < 128 \<and> \<not> (97 \<le> c \<and> c \<le> 122)"
    by (auto simp: py_upper_ascii_def)
qed

text \<open>
  C8. The key normalizer is idempotent; two strings with the same lower-casing (strings
  that differ in letter case only) get the same key; white space added in front of or
  behind a string does not change its key; and \<open>"Hidratado "\<close>, \<open>"HIDRATADO"\<close> and
  \<open>"hidratado"\<close> get the same key.
\<close>

theorem normalizar_idempotent_case_space:
  "normalizar_texto_para_chave (PyStr (normalizar_texto_para_chave x)) =
     normalizar_texto_para_chave x
   \<and> (py_lower s = py_lower t \<longrightarrow>
        normalizar_texto_para_chave (PyStr s) = normalizar_texto_para_chave (PyStr t))
   \<and> ((\<forall>c\<in>set w1. py_isspace c) \<and> (\<forall>c\<in>set w2. py_isspace c) \<longrightarrow>
        normalizar_texto_para_chave (PyStr (w1 @ u @ w2)) = normalizar_texto_para_chave (PyStr u))
   \<and> normalizar_texto_para_chave (PyStr (lit ''Hidratado '')) =
       normalizar_texto_para_chave (PyStr (lit ''HIDRATADO''))
   \<and> normalizar_texto_para_chave (PyStr (lit ''HIDRATADO'')) =
       normalizar_texto_para_chave (PyStr (lit ''hidratado''))"
proof (intro conjI impI)
  show "normalizar_texto_para_chave (PyStr (normalizar_texto_para_chave x)) =
        normalizar_texto_para_chave x"
    by (rule normalizar_idem)
next
  assume "py_lower s = py_lower t"
  then show "normalizar_texto_para_chave (PyStr s) = normalizar_texto_para_chave (PyStr t)"
    by (simp add: normalizar_eq)
next
  assume "(\<forall>c\<in>set w1. py_isspace c) \<and> (\<forall>c\<in>set w2. py_isspace c)"
  then show "normalizar_texto_para_chave (PyStr (w1 @ u @ w2)) =
             normalizar_texto_para_chave (PyStr u)"
    by (simp add: normalizar_ws)
next
  show "normalizar_texto_para_chave (PyStr (lit ''Hidratado '')) =
        normalizar_texto_para_chave (PyStr (lit ''HIDRATADO''))"
    by (simp only: normalizar_Hidratado normalizar_HIDRATADO)
next
  show "normalizar_texto_para_chave (PyStr (lit ''HIDRATADO'')) =
        normalizar_texto_para_chave (PyStr (lit ''hidratado''))"
    by (simp only: normalizar_HIDRATADO normalizar_hidratado)
qed

theorem normalizar_idempotent_case_space_witness:
  "py_lower (lit ''Diesel'') = py_lower (lit ''DIESEL'')
   \<and> list_all py_isspace [32, 9] \<and> list_all py_isspace [160]
   \<and> normalizar_texto_para_chave (PyStr (lit ''Diesel'')) =
       normalizar_texto_para_chave (PyStr (lit ''DIESEL''))
   \<and> normalizar_texto_para_chave (PyStr ([32, 9] @ lit ''S10'' @ [160])) =
       normalizar_texto_para_chave (PyStr (lit ''S10''))
   \<and> normalizar_texto_para_chave (PyStr (normalizar_texto_para_chave (PyStr (lit ''S-10'')))) =
       normalizar_texto_para_chave (PyStr (lit ''S-10''))"
proof -
  have h1: "py_lower (lit ''Diesel'') = py_lower (lit ''DIESEL'')"
    by (simp add: normalizar_eval)
  have h2: "(\<forall>c\<in>set [32, 9]. py_isspace c) \<and> (\<forall>c\<in>set [160::nat]. py_isspace c)"
    by (simp add: py_isspace_def)
  have h3: "list_all py_isspace [32, 9] \<and> list_all py_isspace [160]"
    by (simp add: py_isspace_def)
  from h1 h2 h3
    normalizar_idempotent_case_space
      [of "PyStr (lit ''S-10'')" "lit ''Diesel''" "lit ''DIESEL''" "[32, 9]" "[160]" "lit ''S10''"]
  show ?thesis by blast
qed

text \<open>
  C2, as the code has it. The key normalizer of the matcher returns the string form of its
  input, lower-cased, with every code point outside \<open>a..z\<close> and \<open>0..9\<close> deleted: the key
  is lower-case ASCII letters and digits only, and the empty string gives the empty key.
  Code point by code point: an ASCII capital gives its small letter, a small ASCII letter
  or a digit gives itself, U+0130 gives \<open>i\<close>, U+212A gives \<open>k\<close>, and every other code
  point gives nothing. The normalizer never decomposes a character: a code point from
  U+0080 on, other than these two, can be taken out of the input without changing the
  key. So a precomposed accented letter disappears whole, while a combining accent
  disappears and leaves the letter before it. \<open>_normalizar_texto\<close> decomposes, drops
  what is not ASCII, strips and upper-cases, and keeps what is not a letter or digit. Its
  result has ASCII code points only, none of them a small letter; on an ASCII string
  (with a decomposition that leaves ASCII alone) it returns the stripped string with
  \<open>a..z\<close> in upper case; and if the decomposition of every code point of the input has
  exactly one ASCII code point, its base, the result is the stripped string of the
  bases, in upper case.
\<close>

theorem normalizar_lowercase_alnum:
  "normalizar_texto_para_chave x = filter az09 (py_lower (py_str x))
   \<and> (\<forall>c\<in>set (normalizar_texto_para_chave x). az09 c)
   \<and> normalizar_texto_para_chave (PyStr []) = []
   \<and> ((\<forall>c<128. nfkd c = [c]) \<and> (\<forall>c\<in>set s. c < 128) \<longrightarrow>
        normalizar_texto nfkd (PyStr s) = map py_upper_ascii (py_strip s))
   \<and> normalizar_texto_para_chave x =
        concat (map (\<lambda>c. if 65 \<le> c \<and> c \<le> 90 then [c + 32] else if az09 c then [c]
                          else if c = 304 then [105] else if c = 8490 then [107] else [])
          (py_str x))
   \<and> (128 \<le> k \<and> k \<noteq> 304 \<and> k \<noteq> 8490 \<longrightarrow>
        normalizar_texto_para_chave (PyStr (u @ [k] @ v)) =
        normalizar_texto_para_chave (PyStr (u @ v)))
   \<and> normalizar_texto_para_chave (PyStr (u @ [304] @ v)) =
        normalizar_texto_para_chave (PyStr (u @ [105] @ v))
   \<and> normalizar_texto_para_chave (PyStr (u @ [8490] @ v)) =
        normalizar_texto_para_chave (PyStr (u @ [107] @ v))
   \<and> ((\<forall>c\<in>set s. filter (\<lambda>k. k < 128) (nfkd c) = [base c]) \<longrightarrow>
        normalizar_texto nfkd (PyStr s) = map py_upper_ascii (py_strip (map base s)))
   \<and> (\<forall>c\<in>set (normalizar_texto nfkd x). c < 128 \<and> \<not> (97 \<le> c \<and> c \<le> 122))"
proof -
  have a: "normalizar_texto_para_chave x = filter az09 (py_lower (py_str x))"
    by (rule normalizar_eq)
  have b: "\<forall>c\<in>set (normalizar_texto_para_chave x). az09 c"
    by (rule normalizar_az09)
  have c: "normalizar_texto_para_chave (PyStr []) = []"
    by (simp add: normalizar_eq py_lower_def)
  have d: "(\<forall>c<128. nfkd c = [c]) \<and> (\<forall>c\<in>set s. c < 128) \<longrightarrow>
        normalizar_texto nfkd (PyStr s) = map py_upper_ascii (py_strip s)"
    by (simp add: normalizar_texto_ascii)
  have e: "normalizar_texto_para_chave x =
        concat (map (\<lambda>c. if 65 \<le> c \<and> c \<le> 90 then [c + 32] else if az09 c then [c]
                          else if c = 304 then [105] else if c = 8490 then [107] else [])
          (py_str x))"
    by (rule normalizar_por_caractere)
  have f: "128 \<le> k \<and> k \<noteq> 304 \<and> k \<noteq> 8490 \<longrightarrow>
        normalizar_texto_para_chave (PyStr (u @ [k] @ v)) =
        normalizar_texto_para_chave (PyStr (u @ v))"
    using normalizar_nao_ascii [of k u v] by blast
  have g: "normalizar_texto_para_chave (PyStr (u @ [304] @ v)) =
        normalizar_texto_para_chave (PyStr (u @ [105] @ v))"
    by (simp add: normalizar_por_caractere az09_def)
  have h: "normalizar_texto_para_chave (PyStr (u @ [8490] @ v)) =
        normalizar_texto_para_chave (PyStr (u @ [107] @ v))"
    by (simp add: normalizar_por_caractere az09_def)
  have i: "(\<forall>c\<in>set s. filter (\<lambda>k. k < 128) (nfkd c) = [base c]) \<longrightarrow>
        normalizar_texto nfkd (PyStr s) = map py_upper_ascii (py_strip (map base s))"
    by (simp add: normalizar_texto_base)
  have j: "\<forall>c\<in>set (normalizar_texto nfkd x). c < 128 \<and> \<not> (97 \<le> c \<and> c \<le> 122)"
    by (rule normalizar_texto_ascii_upper)
  from a b c d e f g h i j show ?thesis by (intro conjI)
qed

theorem normalizar_lowercase_alnum_witness:
  "list_all (\<lambda>c. c < 128) (lit ''a-b '')
   \<and> normalizar_texto (\<lambda>c. [c]) (PyStr (lit ''a-b '')) = lit ''A-B''
   \<and> normalizar_texto_para_chave (PyStr (lit ''A-b '')) = lit ''ab''
   \<and> list_all az09 (normalizar_texto_para_chave (PyStr (lit ''A-b '')))
   \<and> normalizar_texto_para_chave (PyStr (lit ''Aruja'' @ [769] @ [])) = lit ''aruja''
   \<and> normalizar_texto_para_chave (PyStr (lit ''Aruj'' @ [225] @ [])) = lit ''aruj''
   \<and> normalizar_texto_para_chave (PyStr ([] @ [304] @ [])) = lit ''i''
   \<and> normalizar_texto_para_chave (PyStr ([] @ [8490] @ [])) = lit ''k''
   \<and> list_all (\<lambda>c. filter (\<lambda>k. k < 128) ((\<lambda>c. if c = 225 then [97, 769] else [c]) c) =
                  [(\<lambda>c. if c = 225 then 97 else c) c]) [225::nat, 45, 98, 32]
   \<and> normalizar_texto (\<lambda>c. if c = 225 then [97, 769] else [c]) (PyStr [225, 45, 98, 32]) =
       lit ''A-B''
   \<and> list_all (\<lambda>c. c < 128 \<and> \<not> (97 \<le> c \<and> c \<le> 122))
       (normalizar_texto (\<lambda>c. if c = 225 then [97, 769] else [c]) (PyStr [225, 45, 98, 32]))"
proof -
  let ?n = "\<lambda>c::nat. if c = 225 then [97, 769] else [c::nat]"
  let ?b = "\<lambda>c::nat. if c = 225 then 97 else c"
  note T1 = normalizar_lowercase_alnum [where x = "PyStr (lit ''A-b '')" and nfkd = "\<lambda>c. [c]"
      and s = "lit ''a-b ''" and k = 769 and u = "lit ''Aruja''" and v = "[]"]
  note T2 = normalizar_lowercase_alnum [where x = "PyStr [225, 45, 98, 32]" and nfkd = ?n
      and s = "[225, 45, 98, 32]" and base = ?b and k = 225 and u = "lit ''Aruj''" and v = "[]"]
  note T3 = normalizar_lowercase_alnum [where u = "[]" and v = "[]"]
  note c2 = conjunct2
  have g: "list_all (\<lambda>c. c < 128) (lit ''a-b '')"
    by (simp add: lit_def)
  have hd: "(\<forall>c<128. (\<lambda>c. [c]) c = [c]) \<and> (\<forall>c\<in>set (lit ''a-b ''). c < 128)"
    by (simp add: lit_def)
  have hf1: "(128::nat) \<le> 769 \<and> (769::nat) \<noteq> 304 \<and> (769::nat) \<noteq> 8490" by simp
  have hf2: "(128::nat) \<le> 225 \<and> (225::nat) \<noteq> 304 \<and> (225::nat) \<noteq> 8490" by simp
  have hi: "\<forall>c\<in>set [225, 45, 98, 32]. filter (\<lambda>k. k < 128) (?n c) = [?b c]"
    by simp
  have li: "list_all (\<lambda>c. filter (\<lambda>k. k < 128) (?n c) = [?b c]) [225::nat, 45, 98, 32]"
    by simp
  note sd = T1 [THEN c2, THEN c2, THEN c2, THEN conjunct1, THEN mp, OF hd]
  note sa = T1 [THEN conjunct1]
  note sb = T1 [THEN c2, THEN conjunct1]
  note sf1 = T1 [THEN c2, THEN c2, THEN c2, THEN c2, THEN c2, THEN conjunct1, THEN mp, OF hf1]
  note sf2 = T2 [THEN c2, THEN c2, THEN c2, THEN c2, THEN c2, THEN conjunct1, THEN mp, OF hf2]
  note sg = T3 [THEN c2, THEN c2, THEN c2, THEN c2, THEN c2, THEN c2, THEN conjunct1]
  note sh = T3 [THEN c2, THEN c2, THEN c2, THEN c2, THEN c2, THEN c2, THEN c2, THEN conjunct1]
  note si = T2 [THEN c2, THEN c2, THEN c2, THEN c2, THEN c2, THEN c2, THEN c2, THEN c2,
      THEN conjunct1, THEN mp, OF hi]
  note sj = T2 [THEN c2, THEN c2, THEN c2, THEN c2, THEN c2, THEN c2, THEN c2, THEN c2, THEN c2]
  have e1: "normalizar_texto (\<lambda>c. [c]) (PyStr (lit ''a-b '')) = lit ''A-B''"
    unfolding sd by (simp add: py_upper_ascii_def py_strip_def py_isspace_def lit_def)
  have e2: "normalizar_texto_para_chave (PyStr (lit ''A-b '')) = lit ''ab''"
    unfolding sa by (simp add: normalizar_eval)
  have e3: "list_all az09 (normalizar_texto_para_chave (PyStr (lit ''A-b '')))"
    using sb unfolding list_all_iff .
  have e4: "normalizar_texto_para_chave (PyStr (lit ''Aruja'' @ [769] @ [])) = lit ''aruja''"
    unfolding sf1 by (simp add: normalizar_eval)
  have e5: "normalizar_texto_para_chave (PyStr (lit ''Aruj'' @ [225] @ [])) = lit ''aruj''"
    unfolding sf2 by (simp add: normalizar_eval)
  have e6: "normalizar_texto_para_chave (PyStr ([] @ [304] @ [])) = lit ''i''"
    unfolding sg by (simp add: normalizar_eval)
  have e7: "normalizar_texto_para_chave (PyStr ([] @ [8490] @ [])) = lit ''k''"
    unfolding sh by (simp add: normalizar_eval)
  have e8: "normalizar_texto ?n (PyStr [225, 45, 98, 32]) = lit ''A-B''"
    unfolding si by (simp add: py_upper_ascii_def py_strip_def py_isspace_def lit_def)
  have e9: "list_all (\<lambda>c. c < 128 \<and> \<not> (97 \<le> c \<and> c \<le> 122))
       (normalizar_texto ?n (PyStr [225, 45, 98, 32]))"
    using sj unfolding list_all_iff .
  from g e1 e2 e3 e4 e5 e6 e7 li e8 e9 show ?thesis by (intro conjI)
qed

text \<open>
  C2 as stated fails: the key of \<open>"Ab"\<close> is \<open>"ab"\<close>, not upper case; an accented letter
  (U+00C1) is deleted, not reduced to \<open>A\<close>; and \<open>None\<close> gives the key \<open>"none"\<close>, not
  the empty string.
\<close>

theorem normalizar_not_uppercase_counterexample:
  "normalizar_texto_para_chave (PyStr (lit ''Ab'')) = lit ''ab''
   \<and> normalizar_texto_para_chave (PyStr (lit ''Ab'')) \<noteq> lit ''AB''
   \<and> normalizar_texto_para_chave (PyStr [193]) = []
   \<and> normalizar_texto_para_chave PyNone = lit ''none''
   \<and> normalizar_texto_para_chave PyNone \<noteq> []"
  by (simp add: normalizar_eval)

section \<open>Properties of the index\<close>

lemma drop_duplicates_last_lookup:
  "map_of (map (\<lambda>r. (key r, r)) (drop_duplicates_last key rs)) k =
     (case filter (\<lambda>r. key r = k) rs of [] \<Rightarrow> None | c # cs \<Rightarrow> Some (last (c # cs)))"
proof (induction rs)
  case Nil
  show ?case by simp
next
  case (Cons r rs)
  show ?case
  proof (cases "key r = k")
    case False
    with Cons show ?thesis by simp
  next
    case True
    show ?thesis
    proof (cases "key r \<in> key ` set rs")
      case yes: True
      then have "filter (\<lambda>r. key r = k) rs \<noteq> []"
        using True by (auto simp: filter_empty_conv)
      with Cons True yes show ?thesis by (auto split: list.splits)
    next
      case no: False
      have "\<forall>x\<in>set rs. key x \<noteq> key r"
      proof
        fix x assume "x \<in> set rs"
        then have "key x \<in> key ` set rs" by (rule imageI)
        with no show "key x \<noteq> key r" by metis
      qed
      then have "filter (\<lambda>r. key r = k) rs = []"
        using True by (simp add: filter_empty_conv)
      with True no show ?thesis by simp
    qed
  qed
qed

lemma to_dict_index_last:
  "to_dict_index key (drop_duplicates_last key rs) k =
     (case filter (\<lambda>r. key r = k) rs of [] \<Rightarrow> None | c # cs \<Rightarrow> Some (last (c # cs)))"
  by (simp add: to_dict_index_def drop_duplicates_last_lookup)

lemma drop_duplicates_last_filter:
  "filter (\<lambda>r. key r = k) (drop_duplicates_last key rs) =
     (case filter (\<lambda>r. key r = k) rs of [] \<Rightarrow> [] | c # cs \<Rightarrow> [last (c # cs)])"
proof (induction rs)
  case Nil
  show ?case by simp
next
  case (Cons r rs)
  show ?case
  proof (cases "key r = k")
    case False
    with Cons show ?thesis by simp
  next
    case True
    show ?thesis
    proof (cases "key r \<in> key ` set rs")
      case yes: True
      then have "filter (\<lambda>r. key r = k) rs \<noteq> []"
        using True by (auto simp: filter_empty_conv)
      with Cons True yes show ?thesis by (auto split: list.splits)
    next
      case no: False
      have "\<forall>x\<in>set rs. key x \<noteq> key r"
      proof
        fix x assume "x \<in> set rs"
        then have "key x \<in> key ` set rs" by (rule imageI)
        with no show "key x \<noteq> key r" by metis
      qed
      then have "filter (\<lambda>r. key r = k) rs = []"
        using True by (simp add: filter_empty_conv)
      with Cons True no show ?thesis by simp
    qed
  qed
qed

lemma mapa_Some_D:
  assumes "to_dict_index key (drop_duplicates_last key rs) k = Some r"
  shows "r \<in> set rs \<and> key r = k"
proof -
  from assms obtain c cs where f: "filter (\<lambda>r. key r = k) rs = c # cs" and r: "r = last (c # cs)"
    by (auto simp: to_dict_index_last split: list.splits)
  have "last (c # cs) \<in> set (c # cs)" by (rule last_in_set) simp
  with f r have "r \<in> set (filter (\<lambda>r. key r = k) rs)" by simp
  then show ?thesis by simp
qed

section \<open>Properties of the two loops\<close>

lemma lit_ne: "lit ''aguardando descarga'' \<noteq> lit ''descarregado''"
  by (simp add: lit_def)

lemma transito_not_in_novo:
  "\<not> py_in transito (lit ''aguardando descarga'')" "\<not> py_in transito (lit ''descarregado'')"
  "\<not> py_in (lit ''aguardando'') (lit ''descarregado'')"
  by (simp_all add: lit_def transito_def)

lemma etapa1_linha_same:
  "mapa (chave_primaria t) = Some (oi, m) \<Longrightarrow> novo_status m = status_original t \<Longrightarrow>
   etapa1_linha mapa t (c, u) = (t, c, insert oi u)"
  by (simp add: etapa1_linha_def Let_def)

lemma etapa2_linha_same:
  "mapa (chave_busca_placa t) = Some (oi, m) \<Longrightarrow> data_de_carregamento t = Some dc \<Longrightarrow>
   dc \<le> d_data m \<Longrightarrow> novo_status m = status_original t \<Longrightarrow>
   etapa2_linha mapa t (c, u) = (t, c, insert oi u)"
  by (simp add: etapa2_linha_def Let_def)

lemma etapa2_linha_NaT: "data_de_carregamento t = None \<Longrightarrow> etapa2_linha mapa t st = (t, st)"
  by (simp add: etapa2_linha_def split: option.splits)

lemma etapa2_linha_early:
  "mapa (chave_busca_placa t) = Some (oi, m) \<Longrightarrow> data_de_carregamento t = Some dc \<Longrightarrow>
   d_data m < dc \<Longrightarrow> etapa2_linha mapa t st = (t, st)"
  by (simp add: etapa2_linha_def)

lemma etapa2_linha_changed:
  "etapa2_linha mapa t st \<noteq> (t, st) \<Longrightarrow>
   \<exists>oi m dc. mapa (chave_busca_placa t) = Some (oi, m) \<and> data_de_carregamento t = Some dc \<and>
     dc \<le> d_data m"
  by (auto simp: etapa2_linha_def split: option.splits if_splits)

lemma etapa1_linha_usados:
  "mapa (chave_primaria t) = Some (oi, m) \<Longrightarrow> snd (snd (etapa1_linha mapa t (c, u))) = insert oi u"
  by (simp add: etapa1_linha_def Let_def)

lemma etapa1_linha_fst: "fst (etapa1_linha mapa t st) = fst (etapa1_linha mapa t st')"
  by (simp add: etapa1_linha_def Let_def split: option.splits)

lemma etapa2_linha_fst: "fst (etapa2_linha mapa t st) = fst (etapa2_linha mapa t st')"
  by (simp add: etapa2_linha_def Let_def split: option.splits)

lemma etapa1_rows: "fst (etapa1 mapa ts st) = map (\<lambda>t. fst (etapa1_linha mapa t (contadores_zero, {}))) ts"
proof (induction ts arbitrary: st)
  case Nil show ?case by simp
next
  case (Cons t ts)
  obtain t' st' where a: "etapa1_linha mapa t st = (t', st')" by (cases "etapa1_linha mapa t st")
  obtain ts' st'' where b: "etapa1 mapa ts st' = (ts', st'')" by (cases "etapa1 mapa ts st'")
  have "t' = fst (etapa1_linha mapa t (contadores_zero, {}))"
    using a etapa1_linha_fst [of mapa t st "(contadores_zero, {})"] by simp
  moreover have "ts' = map (\<lambda>t. fst (etapa1_linha mapa t (contadores_zero, {}))) ts"
    using Cons [of st'] b by simp
  ultimately show ?case using a b by simp
qed

lemma etapa2_rows:
  "fst (etapa2 mapa ts st) =
     map (\<lambda>t. if fonte_atualizacao t = Nao_Atualizado
               then fst (etapa2_linha mapa t (contadores_zero, {})) else t) ts"
proof (induction ts arbitrary: st)
  case Nil show ?case by simp
next
  case (Cons t ts)
  let ?r = "if fonte_atualizacao t = Nao_Atualizado then etapa2_linha mapa t st else (t, st)"
  obtain t' st' where a: "?r = (t', st')" by (cases ?r)
  obtain ts' st'' where b: "etapa2 mapa ts st' = (ts', st'')" by (cases "etapa2 mapa ts st'")
  have "t' = (if fonte_atualizacao t = Nao_Atualizado
               then fst (etapa2_linha mapa t (contadores_zero, {})) else t)"
    using a etapa2_linha_fst [of mapa t st "(contadores_zero, {})"] by (auto split: if_splits)
  moreover have "ts' = map (\<lambda>t. if fonte_atualizacao t = Nao_Atualizado
               then fst (etapa2_linha mapa t (contadores_zero, {})) else t) ts"
    using Cons [of st'] b by simp
  ultimately show ?case using a b by simp
qed

lemma etapa1_linha_row:
  "fst (etapa1_linha mapa t st) = t \<or>
   fonte_atualizacao (fst (etapa1_linha mapa t st)) = Etapa_1_Chave_Primaria"
  by (simp add: etapa1_linha_def Let_def split: option.splits)

lemma mapa_chaves_Nil: "mapa_chaves [] k = None"
  by (simp add: mapa_chaves_def to_dict_index_def descargas_com_indice_def)

lemma mapa_placa_Nil: "mapa_placa [] k = None"
  by (simp add: mapa_placa_def to_dict_index_def descargas_com_indice_def)

lemma linha_final_Nil: "linha_final [] t = t\<lparr>fonte_atualizacao := Nao_Atualizado\<rparr>"
  by (simp add: linha_final_def etapa1_linha_def etapa2_linha_def mapa_chaves_Nil mapa_placa_Nil)

lemma cruzar_rows:
  "fst (cruzar_e_atualizar_transportes ts ds) = map (linha_final ds) ts"
proof (cases "ts = [] \<or> ds = []")
  case True
  then show ?thesis
    by (auto simp: cruzar_e_atualizar_transportes_def linha_final_Nil)
next
  case False
  let ?ta = "map (\<lambda>t. t\<lparr>fonte_atualizacao := Nao_Atualizado\<rparr>) ts"
  obtain ts1 st1 where a: "etapa1 (mapa_chaves ds) ?ta (contadores_zero, {}) = (ts1, st1)"
    by (cases "etapa1 (mapa_chaves ds) ?ta (contadores_zero, {})")
  obtain ts2 c2 u2 where b: "etapa2 (mapa_placa ds) ts1 st1 = (ts2, c2, u2)"
    by (cases "etapa2 (mapa_placa ds) ts1 st1")
  have r1: "ts1 = map (\<lambda>t. fst (etapa1_linha (mapa_chaves ds) t (contadores_zero, {}))) ?ta"
    using etapa1_rows [of "mapa_chaves ds" ?ta "(contadores_zero, {})"] a by simp
  have r2: "ts2 = map (\<lambda>t. if fonte_atualizacao t = Nao_Atualizado
               then fst (etapa2_linha (mapa_placa ds) t (contadores_zero, {})) else t) ts1"
    using etapa2_rows [of "mapa_placa ds" ts1 st1] b by simp
  have "fst (cruzar_e_atualizar_transportes ts ds) = ts2"
    using False a b by (simp add: cruzar_e_atualizar_transportes_def)
  also have "\<dots> = map (linha_final ds) ts"
    unfolding r2 r1 by (simp add: linha_final_def Let_def comp_def)
  finally show ?thesis .
qed

lemma cruzar_length: "length (fst (cruzar_e_atualizar_transportes ts ds)) = length ts"
  by (simp add: cruzar_rows)

lemma cruzar_nth:
  "i < length ts \<Longrightarrow> fst (cruzar_e_atualizar_transportes ts ds) ! i = linha_final ds (ts ! i)"
  by (simp add: cruzar_rows)

lemma etapa1_linha_keeps:
  "data_de_carregamento (fst (etapa1_linha mapa t st)) = data_de_carregamento t"
  "chave_busca_placa (fst (etapa1_linha mapa t st)) = chave_busca_placa t"
  by (simp_all add: etapa1_linha_def Let_def chave_busca_placa_def split: option.splits)

lemma linha_final_NaT:
  assumes "data_de_carregamento t = None"
  shows "fonte_atualizacao (linha_final ds t) \<noteq> Etapa_2_Placa"
proof -
  let ?t0 = "t\<lparr>fonte_atualizacao := Nao_Atualizado\<rparr>"
  let ?t1 = "fst (etapa1_linha (mapa_chaves ds) ?t0 (contadores_zero, {}))"
  have d: "data_de_carregamento ?t1 = None" using assms by (simp add: etapa1_linha_keeps)
  have "fst (etapa2_linha (mapa_placa ds) ?t1 (contadores_zero, {})) = ?t1"
    using d by (simp add: etapa2_linha_NaT)
  then show ?thesis
    using etapa1_linha_row [of "mapa_chaves ds" ?t0 "(contadores_zero, {})"]
    by (auto simp: linha_final_def Let_def)
qed

lemma linha_final_etapa2:
  assumes "fonte_atualizacao (linha_final ds t) = Etapa_2_Placa"
  shows "\<exists>oi m dc. mapa_placa ds (chave_busca_placa t) = Some (oi, m) \<and>
           data_de_carregamento t = Some dc \<and> dc \<le> d_data m"
proof -
  let ?t0 = "t\<lparr>fonte_atualizacao := Nao_Atualizado\<rparr>"
  let ?z = "(contadores_zero, {}) :: contadores \<times> nat set"
  let ?t1 = "fst (etapa1_linha (mapa_chaves ds) ?t0 ?z)"
  have n: "fonte_atualizacao ?t1 = Nao_Atualizado"
    using assms etapa1_linha_row [of "mapa_chaves ds" ?t0 ?z]
    by (auto simp: linha_final_def Let_def split: if_splits)
  then have e: "fonte_atualizacao (fst (etapa2_linha (mapa_placa ds) ?t1 ?z)) = Etapa_2_Placa"
    using assms by (simp add: linha_final_def Let_def)
  with n have "etapa2_linha (mapa_placa ds) ?t1 ?z \<noteq> (?t1, ?z)" by auto
  then obtain oi m dc where
    "mapa_placa ds (chave_busca_placa ?t1) = Some (oi, m)"
    "data_de_carregamento ?t1 = Some dc" "dc \<le> d_data m"
    using etapa2_linha_changed by blast
  moreover have "chave_busca_placa ?t1 = chave_busca_placa t"
    unfolding etapa1_linha_keeps by (simp add: chave_busca_placa_def)
  moreover have "data_de_carregamento ?t1 = data_de_carregamento t"
    unfolding etapa1_linha_keeps by simp
  ultimately show ?thesis by metis
qed

section \<open>The used indices\<close>

lemma etapa1_linha_mono: "snd st \<subseteq> snd (snd (etapa1_linha mapa t st))"
  by (cases st) (auto simp: etapa1_linha_def Let_def split: option.splits)

lemma etapa2_linha_mono: "snd st \<subseteq> snd (snd (etapa2_linha mapa t st))"
  by (cases st) (auto simp: etapa2_linha_def Let_def split: option.splits)

lemma etapa1_mono: "snd st \<subseteq> snd (snd (etapa1 mapa ts st))"
proof (induction ts arbitrary: st)
  case Nil show ?case by simp
next
  case (Cons t ts)
  obtain t' st' where a: "etapa1_linha mapa t st = (t', st')" by (cases "etapa1_linha mapa t st")
  obtain ts' st'' where b: "etapa1 mapa ts st' = (ts', st'')" by (cases "etapa1 mapa ts st'")
  have "snd st \<subseteq> snd st'" using etapa1_linha_mono [of st mapa t] a by simp
  moreover have "snd st' \<subseteq> snd st''" using Cons [of st'] b by simp
  ultimately show ?case using a b by auto
qed

lemma etapa2_mono: "snd st \<subseteq> snd (snd (etapa2 mapa ts st))"
proof (induction ts arbitrary: st)
  case Nil show ?case by simp
next
  case (Cons t ts)
  let ?r = "if fonte_atualizacao t = Nao_Atualizado then etapa2_linha mapa t st else (t, st)"
  obtain t' st' where a: "?r = (t', st')" by (cases ?r)
  obtain ts' st'' where b: "etapa2 mapa ts st' = (ts', st'')" by (cases "etapa2 mapa ts st'")
  have "snd st \<subseteq> snd st'" using etapa2_linha_mono [of st mapa t] a by (auto split: if_splits)
  moreover have "snd st' \<subseteq> snd st''" using Cons [of st'] b by simp
  ultimately show ?case using a b by auto
qed

lemma etapa1_usados:
  "t \<in> set ts \<Longrightarrow> mapa (chave_primaria t) = Some (oi, m) \<Longrightarrow>
   oi \<in> snd (snd (etapa1 mapa ts st))"
proof (induction ts arbitrary: st)
  case Nil then show ?case by simp
next
  case (Cons x ts)
  obtain x' st' where a: "etapa1_linha mapa x st = (x', st')" by (cases "etapa1_linha mapa x st")
  obtain ts' st'' where b: "etapa1 mapa ts st' = (ts', st'')" by (cases "etapa1 mapa ts st'")
  show ?case
  proof (cases "t = x")
    case True
    have "oi \<in> snd st'"
      using etapa1_linha_usados [of mapa x oi m "fst st" "snd st"] Cons.prems(2) True a by simp
    moreover have "snd st' \<subseteq> snd st''" using etapa1_mono [of st' mapa ts] b by simp
    ultimately show ?thesis using a b by auto
  next
    case False
    with Cons.prems have "t \<in> set ts" by simp
    then have "oi \<in> snd (snd (etapa1 mapa ts st'))" using Cons.IH Cons.prems(2) by blast
    then show ?thesis using a b by simp
  qed
qed

lemma cruzar_usados:
  assumes "S \<in> set ts" and "ds \<noteq> []" and "mapa_chaves ds (chave_primaria S) = Some (oi, m)"
  shows "oi \<in> snd (snd (cruzar_e_atualizar_transportes ts ds))"
proof -
  let ?ta = "map (\<lambda>t. t\<lparr>fonte_atualizacao := Nao_Atualizado\<rparr>) ts"
  let ?S = "S\<lparr>fonte_atualizacao := Nao_Atualizado\<rparr>"
  obtain ts1 st1 where a: "etapa1 (mapa_chaves ds) ?ta (contadores_zero, {}) = (ts1, st1)"
    by (cases "etapa1 (mapa_chaves ds) ?ta (contadores_zero, {})")
  obtain ts2 c2 u2 where b: "etapa2 (mapa_placa ds) ts1 st1 = (ts2, c2, u2)"
    by (cases "etapa2 (mapa_placa ds) ts1 st1")
  have "?S \<in> set ?ta" using assms(1) by auto
  moreover have "mapa_chaves ds (chave_primaria ?S) = Some (oi, m)" using assms(3) by simp
  ultimately have "oi \<in> snd (snd (etapa1 (mapa_chaves ds) ?ta (contadores_zero, {})))"
    by (rule etapa1_usados)
  then have "oi \<in> snd st1" using a by simp
  moreover have "snd st1 \<subseteq> u2" using etapa2_mono [of st1 "mapa_placa ds" ts1] b by simp
  ultimately have "oi \<in> u2" by auto
  moreover have "ts \<noteq> []" using assms(1) by auto
  ultimately show ?thesis using a b assms(2) by (simp add: cruzar_e_atualizar_transportes_def)
qed

lemma mapa_chaves_Some_D:
  assumes "mapa_chaves ds k = Some (oi, m)"
  shows "oi < length ds \<and> ds ! oi = m \<and> d_chave_primaria m = k"
proof -
  from assms have "(oi, m) \<in> set (descargas_com_indice ds) \<and> d_chave_primaria (snd (oi, m)) = k"
    unfolding mapa_chaves_def by (rule mapa_Some_D)
  then show ?thesis by (auto simp: descargas_com_indice_def in_set_enumerate_eq)
qed

lemma mapa_placa_Some_D:
  assumes "mapa_placa ds k = Some (oi, m)"
  shows "oi < length ds \<and> ds ! oi = m \<and> d_chave_placa_fonte_produto m = k"
proof -
  from assms have "(oi, m) \<in> set (descargas_com_indice ds) \<and>
      d_chave_placa_fonte_produto (snd (oi, m)) = k"
    unfolding mapa_placa_def by (rule mapa_Some_D)
  then show ?thesis by (auto simp: descargas_com_indice_def in_set_enumerate_eq)
qed

lemma mapa_chaves_hit:
  assumes "I \<in> set ds"
  shows "\<exists>oi m. mapa_chaves ds (d_chave_primaria I) = Some (oi, m) \<and>
           filter (\<lambda>r. d_chave_primaria (snd r) = d_chave_primaria I) (descargas_com_indice ds) \<noteq> [] \<and>
           (oi, m) = last (filter (\<lambda>r. d_chave_primaria (snd r) = d_chave_primaria I)
                       (descargas_com_indice ds))"
proof -
  let ?f = "filter (\<lambda>r. d_chave_primaria (snd r) = d_chave_primaria I) (descargas_com_indice ds)"
  from assms obtain i where "i < length ds" "ds ! i = I" by (auto simp: in_set_conv_nth)
  then have "(i, I) \<in> set (descargas_com_indice ds)"
    by (simp add: descargas_com_indice_def in_set_enumerate_eq)
  then have "(i, I) \<in> set ?f" by simp
  then have ne: "?f \<noteq> []" by (metis empty_iff empty_set)
  then obtain c cs where f: "?f = c # cs" by (cases ?f) auto
  have "mapa_chaves ds (d_chave_primaria I) = Some (last ?f)"
    unfolding mapa_chaves_def to_dict_index_last using f by simp
  with ne show ?thesis by (cases "last ?f") auto
qed

section \<open>Status transitions\<close>

lemma so_ne_novo:
  "py_in transito so \<Longrightarrow> lit ''aguardando descarga'' \<noteq> so"
  "py_in transito so \<Longrightarrow> lit ''descarregado'' \<noteq> so"
  "py_in (lit ''aguardando'') so \<Longrightarrow> lit ''descarregado'' \<noteq> so"
  using transito_not_in_novo by auto

lemma etapa1_linha_aguardando:
  "mapa (chave_primaria t) = Some (oi, m) \<Longrightarrow> py_in transito (status_original t) \<Longrightarrow>
   d_data_de_descarga m = None \<Longrightarrow>
   fst (etapa1_linha mapa t st) =
     t\<lparr>data_chegada := Some (d_data m), fonte_atualizacao := Etapa_1_Chave_Primaria,
       status := PyStr (lit ''AGUARDANDO DESCARGA'')\<rparr>"
  by (simp add: etapa1_linha_def Let_def novo_status_def so_ne_novo)

lemma etapa1_linha_descarregado:
  "mapa (chave_primaria t) = Some (oi, m) \<Longrightarrow>
   py_in transito (status_original t) \<or> py_in (lit ''aguardando'') (status_original t) \<Longrightarrow>
   d_data_de_descarga m = Some ud \<Longrightarrow>
   fst (etapa1_linha mapa t st) =
     t\<lparr>data_chegada := Some (d_data m), fonte_atualizacao := Etapa_1_Chave_Primaria,
       status := PyStr (lit ''DESCARREGADO''), data_descarga := Some ud\<rparr>"
  using lit_ne by (auto simp: etapa1_linha_def Let_def novo_status_def so_ne_novo)

lemma etapa1_linha_outro:
  "\<not> py_in transito (status_original t) \<Longrightarrow>
   d_data_de_descarga m = None \<or> \<not> py_in (lit ''aguardando'') (status_original t) \<Longrightarrow>
   mapa (chave_primaria t) = Some (oi, m) \<Longrightarrow>
   status (fst (etapa1_linha mapa t st)) = status t \<and>
   data_descarga (fst (etapa1_linha mapa t st)) = data_descarga t"
  using lit_ne by (auto simp: etapa1_linha_def Let_def novo_status_def)

lemma etapa2_linha_aguardando:
  "mapa (chave_busca_placa t) = Some (oi, m) \<Longrightarrow> data_de_carregamento t = Some dc \<Longrightarrow>
   dc \<le> d_data m \<Longrightarrow> py_in transito (status_original t) \<Longrightarrow>
   d_data_de_descarga m = None \<Longrightarrow>
   fst (etapa2_linha mapa t st) =
     t\<lparr>data_chegada := Some (d_data m), fonte_atualizacao := Etapa_2_Placa,
       status := PyStr (lit ''AGUARDANDO DESCARGA'')\<rparr>"
  by (simp add: etapa2_linha_def Let_def novo_status_def so_ne_novo)

lemma etapa2_linha_descarregado:
  "mapa (chave_busca_placa t) = Some (oi, m) \<Longrightarrow> data_de_carregamento t = Some dc \<Longrightarrow>
   dc \<le> d_data m \<Longrightarrow>
   py_in transito (status_original t) \<or> py_in (lit ''aguardando'') (status_original t) \<Longrightarrow>
   d_data_de_descarga m = Some ud \<Longrightarrow>
   fst (etapa2_linha mapa t st) =
     t\<lparr>data_chegada := Some (d_data m), fonte_atualizacao := Etapa_2_Placa,
       status := PyStr (lit ''DESCARREGADO''), data_descarga := Some ud\<rparr>"
  using lit_ne by (auto simp: etapa2_linha_def Let_def novo_status_def so_ne_novo)

lemma etapa2_linha_outro:
  "\<not> py_in transito (status_original t) \<Longrightarrow>
   d_data_de_descarga m = None \<or> \<not> py_in (lit ''aguardando'') (status_original t) \<Longrightarrow>
   mapa (chave_busca_placa t) = Some (oi, m) \<Longrightarrow>
   status (fst (etapa2_linha mapa t st)) = status t \<and>
   data_descarga (fst (etapa2_linha mapa t st)) = data_descarga t"
  using lit_ne by (auto simp: etapa2_linha_def Let_def novo_status_def)

lemma etapa1_linha_status:
  "status (fst (etapa1_linha mapa t st)) \<noteq> status t \<Longrightarrow>
   (status (fst (etapa1_linha mapa t st)) = PyStr (lit ''AGUARDANDO DESCARGA'') \<and>
      py_in transito (status_original t)) \<or>
   (status (fst (etapa1_linha mapa t st)) = PyStr (lit ''DESCARREGADO'') \<and>
      (py_in transito (status_original t) \<or> py_in (lit ''aguardando'') (status_original t)))"
  by (auto simp: etapa1_linha_def Let_def split: option.splits if_splits)

lemma etapa2_linha_status:
  "status (fst (etapa2_linha mapa t st)) \<noteq> status t \<Longrightarrow>
   (status (fst (etapa2_linha mapa t st)) = PyStr (lit ''AGUARDANDO DESCARGA'') \<and>
      py_in transito (status_original t)) \<or>
   (status (fst (etapa2_linha mapa t st)) = PyStr (lit ''DESCARREGADO'') \<and>
      (py_in transito (status_original t) \<or> py_in (lit ''aguardando'') (status_original t)))"
  by (auto simp: etapa2_linha_def Let_def split: option.splits if_splits)

lemma linha_final_status:
  assumes "status (linha_final ds t) \<noteq> status t"
  shows "(status (linha_final ds t) = PyStr (lit ''AGUARDANDO DESCARGA'') \<and>
      py_in transito (status_original t)) \<or>
   (status (linha_final ds t) = PyStr (lit ''DESCARREGADO'') \<and>
      (py_in transito (status_original t) \<or> py_in (lit ''aguardando'') (status_original t)))"
proof -
  let ?t0 = "t\<lparr>fonte_atualizacao := Nao_Atualizado\<rparr>"
  let ?z = "(contadores_zero, {}) :: contadores \<times> nat set"
  let ?t1 = "fst (etapa1_linha (mapa_chaves ds) ?t0 ?z)"
  have s0: "status ?t0 = status t" "status_original ?t0 = status_original t"
    by (simp_all add: status_original_def)
  show ?thesis
  proof (cases "fonte_atualizacao ?t1 = Nao_Atualizado")
    case True
    then have e: "?t1 = ?t0" using etapa1_linha_row [of "mapa_chaves ds" ?t0 ?z] by auto
    from True have l: "linha_final ds t = fst (etapa2_linha (mapa_placa ds) ?t1 ?z)"
      by (simp add: linha_final_def Let_def)
    from assms have "status (fst (etapa2_linha (mapa_placa ds) ?t0 ?z)) \<noteq> status ?t0"
      unfolding l e by simp
    from etapa2_linha_status [OF this] show ?thesis unfolding l e s0 .
  next
    case False
    then have l: "linha_final ds t = ?t1" by (simp add: linha_final_def Let_def)
    from assms have "status ?t1 \<noteq> status ?t0" unfolding l by simp
    from etapa1_linha_status [OF this] show ?thesis unfolding l s0 .
  qed
qed

section \<open>A run, row by row\<close>

lemma etapa2_linha_row:
  "fst (etapa2_linha mapa t st) = t \<or>
   fonte_atualizacao (fst (etapa2_linha mapa t st)) = Etapa_2_Placa"
  by (simp add: etapa2_linha_def Let_def split: option.splits)

lemma etapa2_linha_usados:
  "mapa (chave_busca_placa t) = Some (oi, m) \<Longrightarrow> data_de_carregamento t = Some dc \<Longrightarrow>
   dc \<le> d_data m \<Longrightarrow> snd (snd (etapa2_linha mapa t (c, u))) = insert oi u"
  by (simp add: etapa2_linha_def Let_def)

lemma etapa2_usados:
  "t \<in> set ts \<Longrightarrow> fonte_atualizacao t = Nao_Atualizado \<Longrightarrow>
   mapa (chave_busca_placa t) = Some (oi, m) \<Longrightarrow> data_de_carregamento t = Some dc \<Longrightarrow>
   dc \<le> d_data m \<Longrightarrow> oi \<in> snd (snd (etapa2 mapa ts st))"
proof (induction ts arbitrary: st)
  case Nil then show ?case by simp
next
  case (Cons x ts)
  let ?r = "if fonte_atualizacao x = Nao_Atualizado then etapa2_linha mapa x st else (x, st)"
  obtain x' st' where a: "?r = (x', st')" by (cases ?r)
  obtain ts' st'' where b: "etapa2 mapa ts st' = (ts', st'')" by (cases "etapa2 mapa ts st'")
  show ?case
  proof (cases "t = x")
    case True
    have "oi \<in> snd (snd (etapa2_linha mapa x (fst st, snd st)))"
      using etapa2_linha_usados [of mapa x oi m dc "fst st" "snd st"] Cons.prems True by simp
    then have "oi \<in> snd st'" using a Cons.prems(2) True by simp
    moreover have "snd st' \<subseteq> snd st''" using etapa2_mono [of st' mapa ts] b by simp
    ultimately show ?thesis using a b by auto
  next
    case False
    with Cons.prems have "t \<in> set ts" by simp
    then have "oi \<in> snd (snd (etapa2 mapa ts st'))"
      using Cons.IH Cons.prems by blast
    then show ?thesis using a b by simp
  qed
qed

text \<open>Where the used indices come from.\<close>

lemma etapa1_linha_origem:
  "oi \<in> snd (snd (etapa1_linha mapa t st)) \<Longrightarrow>
   oi \<in> snd st \<or> (\<exists>m. mapa (chave_primaria t) = Some (oi, m))"
  by (cases st) (auto simp: etapa1_linha_def Let_def split: option.splits if_splits)

lemma etapa2_linha_origem:
  "oi \<in> snd (snd (etapa2_linha mapa t st)) \<Longrightarrow>
   oi \<in> snd st \<or> (\<exists>m dc. mapa (chave_busca_placa t) = Some (oi, m) \<and>
      data_de_carregamento t = Some dc \<and> dc \<le> d_data m)"
  by (cases st) (auto simp: etapa2_linha_def Let_def split: option.splits if_splits)

lemma etapa1_origem:
  "oi \<in> snd (snd (etapa1 mapa ts st)) \<Longrightarrow>
   oi \<in> snd st \<or> (\<exists>t\<in>set ts. \<exists>m. mapa (chave_primaria t) = Some (oi, m))"
proof (induction ts arbitrary: st)
  case Nil then show ?case by simp
next
  case (Cons x ts)
  obtain x' st' where a: "etapa1_linha mapa x st = (x', st')" by (cases "etapa1_linha mapa x st")
  obtain ts' st'' where b: "etapa1 mapa ts st' = (ts', st'')" by (cases "etapa1 mapa ts st'")
  from Cons.prems a b have "oi \<in> snd (snd (etapa1 mapa ts st'))" by simp
  from Cons.IH [OF this]
  have "oi \<in> snd st' \<or> (\<exists>t\<in>set ts. \<exists>m. mapa (chave_primaria t) = Some (oi, m))" .
  moreover have "oi \<in> snd st' \<Longrightarrow> oi \<in> snd st \<or> (\<exists>m. mapa (chave_primaria x) = Some (oi, m))"
    using etapa1_linha_origem [of oi mapa x st] a by simp
  ultimately show ?case by auto
qed

lemma etapa2_origem:
  "oi \<in> snd (snd (etapa2 mapa ts st)) \<Longrightarrow>
   oi \<in> snd st \<or> (\<exists>t\<in>set ts. fonte_atualizacao t = Nao_Atualizado \<and>
      (\<exists>m dc. mapa (chave_busca_placa t) = Some (oi, m) \<and>
         data_de_carregamento t = Some dc \<and> dc \<le> d_data m))"
proof (induction ts arbitrary: st)
  case Nil then show ?case by simp
next
  case (Cons x ts)
  let ?r = "if fonte_atualizacao x = Nao_Atualizado then etapa2_linha mapa x st else (x, st)"
  obtain x' st' where a: "?r = (x', st')" by (cases ?r)
  obtain ts' st'' where b: "etapa2 mapa ts st' = (ts', st'')" by (cases "etapa2 mapa ts st'")
  from Cons.prems a b have "oi \<in> snd (snd (etapa2 mapa ts st'))" by simp
  from Cons.IH [OF this]
  have "oi \<in> snd st' \<or> (\<exists>t\<in>set ts. fonte_atualizacao t = Nao_Atualizado \<and>
      (\<exists>m dc. mapa (chave_busca_placa t) = Some (oi, m) \<and>
         data_de_carregamento t = Some dc \<and> dc \<le> d_data m))" .
  moreover have "oi \<in> snd st' \<Longrightarrow> oi \<in> snd st \<or> (fonte_atualizacao x = Nao_Atualizado \<and>
      (\<exists>m dc. mapa (chave_busca_placa x) = Some (oi, m) \<and>
         data_de_carregamento x = Some dc \<and> dc \<le> d_data m))"
    using etapa2_linha_origem [of oi mapa x st] a by (auto split: if_splits)
  ultimately show ?case by auto
qed

lemma etapa1_linha_deixa:
  "(case mapa (chave_primaria t) of None \<Rightarrow> True
    | Some (oi', m') \<Rightarrow> novo_status m' = status_original t) \<Longrightarrow>
   fst (etapa1_linha mapa t st) = t"
  by (auto simp: etapa1_linha_def Let_def split: option.splits)

lemma etapa1_linha_E1_D:
  "fonte_atualizacao t = Nao_Atualizado \<Longrightarrow>
   fonte_atualizacao (fst (etapa1_linha mapa t st)) = Etapa_1_Chave_Primaria \<Longrightarrow>
   \<exists>oi m. mapa (chave_primaria t) = Some (oi, m) \<and> novo_status m \<noteq> status_original t \<and>
     data_chegada (fst (etapa1_linha mapa t st)) = Some (d_data m)"
  by (auto simp: etapa1_linha_def Let_def split: option.splits if_splits)

lemma etapa2_linha_E2_D:
  "fonte_atualizacao t = Nao_Atualizado \<Longrightarrow>
   fonte_atualizacao (fst (etapa2_linha mapa t st)) = Etapa_2_Placa \<Longrightarrow>
   \<exists>oi m dc. mapa (chave_busca_placa t) = Some (oi, m) \<and> data_de_carregamento t = Some dc \<and>
     dc \<le> d_data m \<and> novo_status m \<noteq> status_original t \<and>
     data_chegada (fst (etapa2_linha mapa t st)) = Some (d_data m)"
  by (auto simp: etapa2_linha_def Let_def split: option.splits if_splits)

lemma reset_keeps:
  "chave_primaria (t\<lparr>fonte_atualizacao := Nao_Atualizado\<rparr>) = chave_primaria t"
  "chave_busca_placa (t\<lparr>fonte_atualizacao := Nao_Atualizado\<rparr>) = chave_busca_placa t"
  "status_original (t\<lparr>fonte_atualizacao := Nao_Atualizado\<rparr>) = status_original t"
  "data_de_carregamento (t\<lparr>fonte_atualizacao := Nao_Atualizado\<rparr>) = data_de_carregamento t"
  "status (t\<lparr>fonte_atualizacao := Nao_Atualizado\<rparr>) = status t"
  by (simp_all add: chave_busca_placa_def status_original_def)

lemma linha_final_stage1:
  assumes "mapa_chaves ds (chave_primaria t) = Some (oi, m)"
    and "novo_status m \<noteq> status_original t"
  shows "linha_final ds t =
         fst (etapa1_linha (mapa_chaves ds) (t\<lparr>fonte_atualizacao := Nao_Atualizado\<rparr>)
                (contadores_zero, {}))"
proof -
  let ?t0 = "t\<lparr>fonte_atualizacao := Nao_Atualizado\<rparr>"
  have "fonte_atualizacao (fst (etapa1_linha (mapa_chaves ds) ?t0 (contadores_zero, {}))) =
        Etapa_1_Chave_Primaria"
    using assms by (simp add: etapa1_linha_def Let_def status_original_def)
  then show ?thesis by (simp add: linha_final_def Let_def)
qed

lemma linha_final_stage2:
  assumes "case mapa_chaves ds (chave_primaria t) of None \<Rightarrow> True
           | Some (oi', m') \<Rightarrow> novo_status m' = status_original t"
  shows "linha_final ds t =
         fst (etapa2_linha (mapa_placa ds) (t\<lparr>fonte_atualizacao := Nao_Atualizado\<rparr>)
                (contadores_zero, {}))"
proof -
  let ?t0 = "t\<lparr>fonte_atualizacao := Nao_Atualizado\<rparr>"
  have "fst (etapa1_linha (mapa_chaves ds) ?t0 (contadores_zero, {})) = ?t0"
    using assms
    by (auto simp: etapa1_linha_def Let_def status_original_def split: option.splits)
  then show ?thesis by (simp add: linha_final_def Let_def)
qed

lemma linha_final_E1:
  assumes "fonte_atualizacao (linha_final ds t) = Etapa_1_Chave_Primaria"
  shows "\<exists>oi m. mapa_chaves ds (chave_primaria t) = Some (oi, m) \<and>
           novo_status m \<noteq> status_original t \<and>
           data_chegada (linha_final ds t) = Some (d_data m)"
proof -
  let ?t0 = "t\<lparr>fonte_atualizacao := Nao_Atualizado\<rparr>"
  let ?z = "(contadores_zero, {}) :: contadores \<times> nat set"
  let ?t1 = "fst (etapa1_linha (mapa_chaves ds) ?t0 ?z)"
  have "fonte_atualizacao ?t1 \<noteq> Nao_Atualizado"
  proof
    assume n: "fonte_atualizacao ?t1 = Nao_Atualizado"
    then have "linha_final ds t = fst (etapa2_linha (mapa_placa ds) ?t1 ?z)"
      by (simp add: linha_final_def Let_def)
    with assms n etapa2_linha_row [of "mapa_placa ds" ?t1 ?z] show False by auto
  qed
  then have l: "linha_final ds t = ?t1" by (simp add: linha_final_def Let_def)
  with assms have "fonte_atualizacao ?t1 = Etapa_1_Chave_Primaria" by simp
  from etapa1_linha_E1_D [OF _ this]
  have "\<exists>oi m. mapa_chaves ds (chave_primaria ?t0) = Some (oi, m) \<and>
          novo_status m \<noteq> status_original ?t0 \<and> data_chegada ?t1 = Some (d_data m)"
    by simp
  then show ?thesis by (simp add: l reset_keeps)
qed

lemma linha_final_E2:
  assumes "fonte_atualizacao (linha_final ds t) = Etapa_2_Placa"
  shows "\<exists>oi m dc. mapa_placa ds (chave_busca_placa t) = Some (oi, m) \<and>
           data_de_carregamento t = Some dc \<and> dc \<le> d_data m \<and>
           novo_status m \<noteq> status_original t \<and>
           data_chegada (linha_final ds t) = Some (d_data m)"
proof -
  let ?t0 = "t\<lparr>fonte_atualizacao := Nao_Atualizado\<rparr>"
  let ?z = "(contadores_zero, {}) :: contadores \<times> nat set"
  let ?t1 = "fst (etapa1_linha (mapa_chaves ds) ?t0 ?z)"
  have n: "fonte_atualizacao ?t1 = Nao_Atualizado"
    using assms etapa1_linha_row [of "mapa_chaves ds" ?t0 ?z]
    by (auto simp: linha_final_def Let_def split: if_splits)
  then have e: "?t1 = ?t0" using etapa1_linha_row [of "mapa_chaves ds" ?t0 ?z] by auto
  have l: "linha_final ds t = fst (etapa2_linha (mapa_placa ds) ?t0 ?z)"
    by (simp add: linha_final_def Let_def e)
  with assms have "fonte_atualizacao (fst (etapa2_linha (mapa_placa ds) ?t0 ?z)) = Etapa_2_Placa"
    by simp
  from etapa2_linha_E2_D [OF _ this]
  have "\<exists>oi m dc. mapa_placa ds (chave_busca_placa ?t0) = Some (oi, m) \<and>
          data_de_carregamento ?t0 = Some dc \<and> dc \<le> d_data m \<and>
          novo_status m \<noteq> status_original ?t0 \<and>
          data_chegada (fst (etapa2_linha (mapa_placa ds) ?t0 ?z)) = Some (d_data m)"
    by simp
  then show ?thesis by (simp add: l reset_keeps)
qed

lemma cruzar_usados_etapa2:
  assumes i: "i < length ts"
    and s1: "case mapa_chaves ds (chave_primaria (ts ! i)) of None \<Rightarrow> True
             | Some (oi', m') \<Rightarrow> novo_status m' = status_original (ts ! i)"
    and m: "mapa_placa ds (chave_busca_placa (ts ! i)) = Some (oi, m)"
    and d: "data_de_carregamento (ts ! i) = Some dc" and g: "dc \<le> d_data m"
  shows "oi \<in> snd (snd (cruzar_e_atualizar_transportes ts ds))"
proof -
  let ?ta = "map (\<lambda>t. t\<lparr>fonte_atualizacao := Nao_Atualizado\<rparr>) ts"
  let ?t0 = "(ts ! i)\<lparr>fonte_atualizacao := Nao_Atualizado\<rparr>"
  let ?z = "(contadores_zero, {}) :: contadores \<times> nat set"
  obtain ts1 st1 where a: "etapa1 (mapa_chaves ds) ?ta ?z = (ts1, st1)"
    by (cases "etapa1 (mapa_chaves ds) ?ta ?z")
  obtain ts2 c2 u2 where b: "etapa2 (mapa_placa ds) ts1 st1 = (ts2, c2, u2)"
    by (cases "etapa2 (mapa_placa ds) ts1 st1")
  have ne: "ds \<noteq> []" using m by (auto simp: mapa_placa_Nil)
  have nt: "ts \<noteq> []" using i by auto
  have r1: "ts1 = map (\<lambda>t. fst (etapa1_linha (mapa_chaves ds) t ?z)) ?ta"
    using etapa1_rows [of "mapa_chaves ds" ?ta ?z] a by simp
  have "fst (etapa1_linha (mapa_chaves ds) ?t0 ?z) = ?t0"
    using s1 by (auto simp: etapa1_linha_def Let_def status_original_def split: option.splits)
  then have "ts1 ! i = ?t0" using i by (simp add: r1)
  moreover have "i < length ts1" using i by (simp add: r1)
  ultimately have "?t0 \<in> set ts1" by (metis nth_mem)
  moreover have "fonte_atualizacao ?t0 = Nao_Atualizado" by simp
  moreover have "mapa_placa ds (chave_busca_placa ?t0) = Some (oi, m)"
    using m by (simp add: reset_keeps)
  moreover have "data_de_carregamento ?t0 = Some dc" using d by simp
  ultimately have "oi \<in> snd (snd (etapa2 (mapa_placa ds) ts1 st1))"
    using g by (rule etapa2_usados)
  then have "oi \<in> u2" using b by simp
  then show ?thesis using a b ne nt by (simp add: cruzar_e_atualizar_transportes_def)
qed

lemma cruzar_origem:
  assumes "oi \<in> snd (snd (cruzar_e_atualizar_transportes ts ds))"
  shows "\<exists>t\<in>set ts. (\<exists>m. mapa_chaves ds (chave_primaria t) = Some (oi, m)) \<or>
           (\<exists>m dc. mapa_placa ds (chave_busca_placa t) = Some (oi, m) \<and>
              data_de_carregamento t = Some dc \<and> dc \<le> d_data m)"
proof (cases "ts = [] \<or> ds = []")
  case True
  with assms show ?thesis by (auto simp: cruzar_e_atualizar_transportes_def)
next
  case False
  let ?ta = "map (\<lambda>t. t\<lparr>fonte_atualizacao := Nao_Atualizado\<rparr>) ts"
  let ?z = "(contadores_zero, {}) :: contadores \<times> nat set"
  obtain ts1 st1 where a: "etapa1 (mapa_chaves ds) ?ta ?z = (ts1, st1)"
    by (cases "etapa1 (mapa_chaves ds) ?ta ?z")
  obtain ts2 c2 u2 where b: "etapa2 (mapa_placa ds) ts1 st1 = (ts2, c2, u2)"
    by (cases "etapa2 (mapa_placa ds) ts1 st1")
  have r1: "ts1 = map (\<lambda>t. fst (etapa1_linha (mapa_chaves ds) t ?z)) ?ta"
    using etapa1_rows [of "mapa_chaves ds" ?ta ?z] a by simp
  from assms False a b have "oi \<in> snd (snd (etapa2 (mapa_placa ds) ts1 st1))"
    by (simp add: cruzar_e_atualizar_transportes_def)
  from etapa2_origem [OF this]
  consider (one) "oi \<in> snd st1"
    | (two) t1 m dc where "t1 \<in> set ts1" "mapa_placa ds (chave_busca_placa t1) = Some (oi, m)"
        "data_de_carregamento t1 = Some dc" "dc \<le> d_data m"
    by blast
  then show ?thesis
  proof cases
    case one
    then have "oi \<in> snd (snd (etapa1 (mapa_chaves ds) ?ta ?z))" using a by simp
    from etapa1_origem [OF this]
    have "\<exists>t0\<in>set ?ta. \<exists>m. mapa_chaves ds (chave_primaria t0) = Some (oi, m)"
      by simp
    then have "\<exists>t\<in>set ts. \<exists>m. mapa_chaves ds (chave_primaria t) = Some (oi, m)"
      by simp
    then show ?thesis by blast
  next
    case two
    from two(1) obtain t where t: "t \<in> set ts"
      and e: "t1 = fst (etapa1_linha (mapa_chaves ds) (t\<lparr>fonte_atualizacao := Nao_Atualizado\<rparr>) ?z)"
      unfolding r1 by auto
    have "chave_busca_placa t1 = chave_busca_placa t"
      unfolding e etapa1_linha_keeps by (simp add: reset_keeps)
    moreover have "data_de_carregamento t1 = data_de_carregamento t"
      unfolding e etapa1_linha_keeps by simp
    ultimately have "mapa_placa ds (chave_busca_placa t) = Some (oi, m)"
      "data_de_carregamento t = Some dc"
      using two by simp_all
    with t two(4) show ?thesis by blast
  qed
qed

lemma etapa1_nth:
  "i < length ts \<Longrightarrow>
   fst (etapa1 mapa ts st) ! i = fst (etapa1_linha mapa (ts ! i) (contadores_zero, {}))"
  by (simp add: etapa1_rows)

lemma run_mesmo_status_etapa1:
  assumes i: "i < length ts"
    and m: "mapa_chaves ds (chave_primaria (ts ! i)) = Some (oi, m)"
    and n: "novo_status m = status_original (ts ! i)"
  shows "oi \<in> snd (snd (cruzar_e_atualizar_transportes ts ds)) \<and>
     fst (etapa1 (mapa_chaves ds) (map (\<lambda>t. t\<lparr>fonte_atualizacao := Nao_Atualizado\<rparr>) ts)
            (contadores_zero, {})) ! i = (ts ! i)\<lparr>fonte_atualizacao := Nao_Atualizado\<rparr> \<and>
     fst (cruzar_e_atualizar_transportes ts ds) ! i =
       fst (etapa2_linha (mapa_placa ds) ((ts ! i)\<lparr>fonte_atualizacao := Nao_Atualizado\<rparr>)
              (contadores_zero, {}))"
proof -
  let ?t0 = "(ts ! i)\<lparr>fonte_atualizacao := Nao_Atualizado\<rparr>"
  let ?z = "(contadores_zero, {}) :: contadores \<times> nat set"
  have ne: "ds \<noteq> []" using m by (auto simp: mapa_chaves_Nil)
  have "ts ! i \<in> set ts" using i by simp
  then have u: "oi \<in> snd (snd (cruzar_e_atualizar_transportes ts ds))"
    using ne m by (rule cruzar_usados)
  have c: "case mapa_chaves ds (chave_primaria (ts ! i)) of None \<Rightarrow> True
           | Some (oi', m') \<Rightarrow> novo_status m' = status_original (ts ! i)"
    using m n by simp
  have "fst (etapa1_linha (mapa_chaves ds) ?t0 ?z) = ?t0"
    using m n by (simp add: etapa1_linha_def Let_def status_original_def)
  then have e: "fst (etapa1 (mapa_chaves ds) (map (\<lambda>t. t\<lparr>fonte_atualizacao := Nao_Atualizado\<rparr>) ts)
            ?z) ! i = ?t0"
    using i by (simp add: etapa1_nth)
  have f: "fst (cruzar_e_atualizar_transportes ts ds) ! i = fst (etapa2_linha (mapa_placa ds) ?t0 ?z)"
    using i linha_final_stage2 [OF c] by (simp add: cruzar_nth)
  from u e f show ?thesis by simp
qed

lemma run_mesmo_status_etapa2:
  assumes i: "i < length ts"
    and c: "case mapa_chaves ds (chave_primaria (ts ! i)) of None \<Rightarrow> True
           | Some (oi', m') \<Rightarrow> novo_status m' = status_original (ts ! i)"
    and m: "mapa_placa ds (chave_busca_placa (ts ! i)) = Some (oi, m)"
    and d: "data_de_carregamento (ts ! i) = Some dc" and g: "dc \<le> d_data m"
    and n: "novo_status m = status_original (ts ! i)"
  shows "oi \<in> snd (snd (cruzar_e_atualizar_transportes ts ds)) \<and>
     fst (cruzar_e_atualizar_transportes ts ds) ! i =
       (ts ! i)\<lparr>fonte_atualizacao := Nao_Atualizado\<rparr>"
proof -
  let ?t0 = "(ts ! i)\<lparr>fonte_atualizacao := Nao_Atualizado\<rparr>"
  let ?z = "(contadores_zero, {}) :: contadores \<times> nat set"
  have u: "oi \<in> snd (snd (cruzar_e_atualizar_transportes ts ds))"
    using i c m d g by (rule cruzar_usados_etapa2)
  have "etapa2_linha (mapa_placa ds) ?t0 (contadores_zero, {}) = (?t0, contadores_zero, insert oi {})"
    using m d g n by (intro etapa2_linha_same [where dc = dc and m = m]) (simp_all add: reset_keeps)
  then have "fst (etapa2_linha (mapa_placa ds) ?t0 ?z) = ?t0" by simp
  then have "fst (cruzar_e_atualizar_transportes ts ds) ! i = ?t0"
    using i linha_final_stage2 [OF c] by (simp add: cruzar_nth)
  with u show ?thesis by simp
qed

lemma etapa1_linha_outro_row:
  "mapa (chave_primaria t) = Some (oi, m) \<Longrightarrow> \<not> py_in transito (status_original t) \<Longrightarrow>
   d_data_de_descarga m = None \<or> \<not> py_in (lit ''aguardando'') (status_original t) \<Longrightarrow>
   novo_status m \<noteq> status_original t \<Longrightarrow>
   fst (etapa1_linha mapa t st) =
     t\<lparr>data_chegada := Some (d_data m), fonte_atualizacao := Etapa_1_Chave_Primaria\<rparr>"
  using lit_ne by (auto simp: etapa1_linha_def Let_def novo_status_def)

lemma etapa2_linha_outro_row:
  "mapa (chave_busca_placa t) = Some (oi, m) \<Longrightarrow> data_de_carregamento t = Some dc \<Longrightarrow>
   dc \<le> d_data m \<Longrightarrow> \<not> py_in transito (status_original t) \<Longrightarrow>
   d_data_de_descarga m = None \<or> \<not> py_in (lit ''aguardando'') (status_original t) \<Longrightarrow>
   novo_status m \<noteq> status_original t \<Longrightarrow>
   fst (etapa2_linha mapa t st) =
     t\<lparr>data_chegada := Some (d_data m), fonte_atualizacao := Etapa_2_Placa\<rparr>"
  using lit_ne by (auto simp: etapa2_linha_def Let_def novo_status_def)

lemma novo_ne_so:
  "py_in transito (status_original t) \<Longrightarrow> novo_status m \<noteq> status_original t"
  "py_in (lit ''aguardando'') (status_original t) \<Longrightarrow> d_data_de_descarga m = Some ud \<Longrightarrow>
   novo_status m \<noteq> status_original t"
  using so_ne_novo [of "status_original t"] by (auto simp: novo_status_def)

lemma run_status_etapa1:
  assumes i: "i < length ts"
    and m: "mapa_chaves ds (chave_primaria (ts ! i)) = Some (oi, m)"
  shows "(py_in transito (status_original (ts ! i)) \<and> d_data_de_descarga m = None \<longrightarrow>
       fst (cruzar_e_atualizar_transportes ts ds) ! i =
         (ts ! i)\<lparr>data_chegada := Some (d_data m), fonte_atualizacao := Etapa_1_Chave_Primaria,
                  status := PyStr (lit ''AGUARDANDO DESCARGA'')\<rparr>)
    \<and> ((py_in transito (status_original (ts ! i)) \<or>
         py_in (lit ''aguardando'') (status_original (ts ! i))) \<and>
        d_data_de_descarga m = Some ud \<longrightarrow>
       fst (cruzar_e_atualizar_transportes ts ds) ! i =
         (ts ! i)\<lparr>data_chegada := Some (d_data m), fonte_atualizacao := Etapa_1_Chave_Primaria,
                  status := PyStr (lit ''DESCARREGADO''), data_descarga := Some ud\<rparr>)
    \<and> (\<not> py_in transito (status_original (ts ! i)) \<and>
        (d_data_de_descarga m = None \<or> \<not> py_in (lit ''aguardando'') (status_original (ts ! i))) \<and>
        novo_status m \<noteq> status_original (ts ! i) \<longrightarrow>
       fst (cruzar_e_atualizar_transportes ts ds) ! i =
         (ts ! i)\<lparr>data_chegada := Some (d_data m),
                  fonte_atualizacao := Etapa_1_Chave_Primaria\<rparr>)"
proof -
  let ?r = "ts ! i"
  let ?t0 = "?r\<lparr>fonte_atualizacao := Nao_Atualizado\<rparr>"
  let ?z = "(contadores_zero, {}) :: contadores \<times> nat set"
  have o: "fst (cruzar_e_atualizar_transportes ts ds) ! i = linha_final ds ?r"
    using i by (simp add: cruzar_nth)
  have m0: "mapa_chaves ds (chave_primaria ?t0) = Some (oi, m)" using m by simp
  have s0: "status_original ?t0 = status_original ?r" by (simp add: reset_keeps)
  have l: "novo_status m \<noteq> status_original ?r \<Longrightarrow>
           linha_final ds ?r = fst (etapa1_linha (mapa_chaves ds) ?t0 ?z)"
    using m by (rule linha_final_stage1)
  have a: "py_in transito (status_original ?r) \<and> d_data_de_descarga m = None \<longrightarrow>
       fst (cruzar_e_atualizar_transportes ts ds) ! i =
         ?r\<lparr>data_chegada := Some (d_data m), fonte_atualizacao := Etapa_1_Chave_Primaria,
                  status := PyStr (lit ''AGUARDANDO DESCARGA'')\<rparr>"
  proof
    assume h: "py_in transito (status_original ?r) \<and> d_data_de_descarga m = None"
    then have "novo_status m \<noteq> status_original ?r" by (simp add: novo_ne_so)
    from l [OF this] have "linha_final ds ?r = fst (etapa1_linha (mapa_chaves ds) ?t0 ?z)" .
    also have "\<dots> = ?t0\<lparr>data_chegada := Some (d_data m),
        fonte_atualizacao := Etapa_1_Chave_Primaria,
        status := PyStr (lit ''AGUARDANDO DESCARGA'')\<rparr>"
      using h m0 etapa1_linha_aguardando [of "mapa_chaves ds" ?t0 oi m ?z] by (simp add: s0)
    finally show "fst (cruzar_e_atualizar_transportes ts ds) ! i =
         ?r\<lparr>data_chegada := Some (d_data m), fonte_atualizacao := Etapa_1_Chave_Primaria,
                  status := PyStr (lit ''AGUARDANDO DESCARGA'')\<rparr>"
      unfolding o by simp
  qed
  have b: "(py_in transito (status_original ?r) \<or>
         py_in (lit ''aguardando'') (status_original ?r)) \<and>
        d_data_de_descarga m = Some ud \<longrightarrow>
       fst (cruzar_e_atualizar_transportes ts ds) ! i =
         ?r\<lparr>data_chegada := Some (d_data m), fonte_atualizacao := Etapa_1_Chave_Primaria,
                  status := PyStr (lit ''DESCARREGADO''), data_descarga := Some ud\<rparr>"
  proof
    assume h: "(py_in transito (status_original ?r) \<or>
         py_in (lit ''aguardando'') (status_original ?r)) \<and> d_data_de_descarga m = Some ud"
    then have "novo_status m \<noteq> status_original ?r" using novo_ne_so(1) [of ?r m] novo_ne_so(2) [of ?r m ud] by blast
    from l [OF this] have "linha_final ds ?r = fst (etapa1_linha (mapa_chaves ds) ?t0 ?z)" .
    also have "\<dots> = ?t0\<lparr>data_chegada := Some (d_data m),
        fonte_atualizacao := Etapa_1_Chave_Primaria,
        status := PyStr (lit ''DESCARREGADO''), data_descarga := Some ud\<rparr>"
      using h m0 etapa1_linha_descarregado [of "mapa_chaves ds" ?t0 oi m ud ?z] by (simp add: s0)
    finally show "fst (cruzar_e_atualizar_transportes ts ds) ! i =
         ?r\<lparr>data_chegada := Some (d_data m), fonte_atualizacao := Etapa_1_Chave_Primaria,
                  status := PyStr (lit ''DESCARREGADO''), data_descarga := Some ud\<rparr>"
      unfolding o by simp
  qed
  have c: "\<not> py_in transito (status_original ?r) \<and>
        (d_data_de_descarga m = None \<or> \<not> py_in (lit ''aguardando'') (status_original ?r)) \<and>
        novo_status m \<noteq> status_original ?r \<longrightarrow>
       fst (cruzar_e_atualizar_transportes ts ds) ! i =
         ?r\<lparr>data_chegada := Some (d_data m),
                  fonte_atualizacao := Etapa_1_Chave_Primaria\<rparr>"
  proof
    assume h: "\<not> py_in transito (status_original ?r) \<and>
        (d_data_de_descarga m = None \<or> \<not> py_in (lit ''aguardando'') (status_original ?r)) \<and>
        novo_status m \<noteq> status_original ?r"
    then have "novo_status m \<noteq> status_original ?r" by simp
    from l [OF this] have "linha_final ds ?r = fst (etapa1_linha (mapa_chaves ds) ?t0 ?z)" .
    also have "\<dots> = ?t0\<lparr>data_chegada := Some (d_data m),
        fonte_atualizacao := Etapa_1_Chave_Primaria\<rparr>"
      using h m0 etapa1_linha_outro_row [of "mapa_chaves ds" ?t0 oi m ?z] by (simp add: s0)
    finally show "fst (cruzar_e_atualizar_transportes ts ds) ! i =
         ?r\<lparr>data_chegada := Some (d_data m),
                  fonte_atualizacao := Etapa_1_Chave_Primaria\<rparr>"
      unfolding o by simp
  qed
  from a b c show ?thesis by (intro conjI)
qed


lemma run_status_etapa2:
  assumes i: "i < length ts"
    and c: "case mapa_chaves ds (chave_primaria (ts ! i)) of None \<Rightarrow> True
            | Some (oi', m') \<Rightarrow> novo_status m' = status_original (ts ! i)"
    and m: "mapa_placa ds (chave_busca_placa (ts ! i)) = Some (oi, m)"
    and d: "data_de_carregamento (ts ! i) = Some dc" and g: "dc \<le> d_data m"
  shows "(py_in transito (status_original (ts ! i)) \<and> d_data_de_descarga m = None \<longrightarrow>
       fst (cruzar_e_atualizar_transportes ts ds) ! i =
         (ts ! i)\<lparr>data_chegada := Some (d_data m), fonte_atualizacao := Etapa_2_Placa,
                  status := PyStr (lit ''AGUARDANDO DESCARGA'')\<rparr>)
    \<and> ((py_in transito (status_original (ts ! i)) \<or>
         py_in (lit ''aguardando'') (status_original (ts ! i))) \<and>
        d_data_de_descarga m = Some ud \<longrightarrow>
       fst (cruzar_e_atualizar_transportes ts ds) ! i =
         (ts ! i)\<lparr>data_chegada := Some (d_data m), fonte_atualizacao := Etapa_2_Placa,
                  status := PyStr (lit ''DESCARREGADO''), data_descarga := Some ud\<rparr>)
    \<and> (\<not> py_in transito (status_original (ts ! i)) \<and>
        (d_data_de_descarga m = None \<or> \<not> py_in (lit ''aguardando'') (status_original (ts ! i))) \<and>
        novo_status m \<noteq> status_original (ts ! i) \<longrightarrow>
       fst (cruzar_e_atualizar_transportes ts ds) ! i =
         (ts ! i)\<lparr>data_chegada := Some (d_data m), fonte_atualizacao := Etapa_2_Placa\<rparr>)"
proof -
  let ?r = "ts ! i"
  let ?t0 = "?r\<lparr>fonte_atualizacao := Nao_Atualizado\<rparr>"
  let ?z = "(contadores_zero, {}) :: contadores \<times> nat set"
  have o: "fst (cruzar_e_atualizar_transportes ts ds) ! i = linha_final ds ?r"
    using i by (simp add: cruzar_nth)
  have m0: "mapa_placa ds (chave_busca_placa ?t0) = Some (oi, m)"
    using m by (simp add: reset_keeps)
  have d0: "data_de_carregamento ?t0 = Some dc" using d by simp
  have s0: "status_original ?t0 = status_original ?r" by (simp add: reset_keeps)
  have l: "linha_final ds ?r = fst (etapa2_linha (mapa_placa ds) ?t0 ?z)"
    using c by (rule linha_final_stage2)
  have a: "py_in transito (status_original ?r) \<and> d_data_de_descarga m = None \<longrightarrow>
       fst (cruzar_e_atualizar_transportes ts ds) ! i =
         ?r\<lparr>data_chegada := Some (d_data m), fonte_atualizacao := Etapa_2_Placa,
                  status := PyStr (lit ''AGUARDANDO DESCARGA'')\<rparr>"
  proof
    assume h: "py_in transito (status_original ?r) \<and> d_data_de_descarga m = None"
    have "fst (etapa2_linha (mapa_placa ds) ?t0 ?z) = ?t0\<lparr>data_chegada := Some (d_data m),
        fonte_atualizacao := Etapa_2_Placa, status := PyStr (lit ''AGUARDANDO DESCARGA'')\<rparr>"
      using h m0 d0 g etapa2_linha_aguardando [of "mapa_placa ds" ?t0 oi m dc ?z]
      by (simp add: s0)
    then show "fst (cruzar_e_atualizar_transportes ts ds) ! i =
         ?r\<lparr>data_chegada := Some (d_data m), fonte_atualizacao := Etapa_2_Placa,
                  status := PyStr (lit ''AGUARDANDO DESCARGA'')\<rparr>"
      unfolding o l by simp
  qed
  have b: "(py_in transito (status_original ?r) \<or>
         py_in (lit ''aguardando'') (status_original ?r)) \<and>
        d_data_de_descarga m = Some ud \<longrightarrow>
       fst (cruzar_e_atualizar_transportes ts ds) ! i =
         ?r\<lparr>data_chegada := Some (d_data m), fonte_atualizacao := Etapa_2_Placa,
                  status := PyStr (lit ''DESCARREGADO''), data_descarga := Some ud\<rparr>"
  proof
    assume h: "(py_in transito (status_original ?r) \<or>
         py_in (lit ''aguardando'') (status_original ?r)) \<and> d_data_de_descarga m = Some ud"
    have "fst (etapa2_linha (mapa_placa ds) ?t0 ?z) = ?t0\<lparr>data_chegada := Some (d_data m),
        fonte_atualizacao := Etapa_2_Placa,
        status := PyStr (lit ''DESCARREGADO''), data_descarga := Some ud\<rparr>"
      using h m0 d0 g etapa2_linha_descarregado [of "mapa_placa ds" ?t0 oi m dc ud ?z]
      by (simp add: s0)
    then show "fst (cruzar_e_atualizar_transportes ts ds) ! i =
         ?r\<lparr>data_chegada := Some (d_data m), fonte_atualizacao := Etapa_2_Placa,
                  status := PyStr (lit ''DESCARREGADO''), data_descarga := Some ud\<rparr>"
      unfolding o l by simp
  qed
  have c': "\<not> py_in transito (status_original ?r) \<and>
        (d_data_de_descarga m = None \<or> \<not> py_in (lit ''aguardando'') (status_original ?r)) \<and>
        novo_status m \<noteq> status_original ?r \<longrightarrow>
       fst (cruzar_e_atualizar_transportes ts ds) ! i =
         ?r\<lparr>data_chegada := Some (d_data m), fonte_atualizacao := Etapa_2_Placa\<rparr>"
  proof
    assume h: "\<not> py_in transito (status_original ?r) \<and>
        (d_data_de_descarga m = None \<or> \<not> py_in (lit ''aguardando'') (status_original ?r)) \<and>
        novo_status m \<noteq> status_original ?r"
    have "fst (etapa2_linha (mapa_placa ds) ?t0 ?z) = ?t0\<lparr>data_chegada := Some (d_data m),
        fonte_atualizacao := Etapa_2_Placa\<rparr>"
      using h m0 d0 g etapa2_linha_outro_row [of "mapa_placa ds" ?t0 oi m dc ?z]
      by (simp add: s0)
    then show "fst (cruzar_e_atualizar_transportes ts ds) ! i =
         ?r\<lparr>data_chegada := Some (d_data m), fonte_atualizacao := Etapa_2_Placa\<rparr>"
      unfolding o l by simp
  qed
  from a b c' show ?thesis by (intro conjI)
qed

lemma run_sem_match:
  assumes i: "i < length ts"
    and c: "case mapa_chaves ds (chave_primaria (ts ! i)) of None \<Rightarrow> True
            | Some (oi', m') \<Rightarrow> novo_status m' = status_original (ts ! i)"
    and n: "case mapa_placa ds (chave_busca_placa (ts ! i)) of None \<Rightarrow> True
            | Some (oi', m') \<Rightarrow>
                (case data_de_carregamento (ts ! i) of None \<Rightarrow> True
                 | Some dc' \<Rightarrow> d_data m' < dc') \<or>
                novo_status m' = status_original (ts ! i)"
  shows "fst (cruzar_e_atualizar_transportes ts ds) ! i =
         (ts ! i)\<lparr>fonte_atualizacao := Nao_Atualizado\<rparr>"
proof -
  let ?r = "ts ! i"
  let ?t0 = "?r\<lparr>fonte_atualizacao := Nao_Atualizado\<rparr>"
  let ?z = "(contadores_zero, {}) :: contadores \<times> nat set"
  have "fst (etapa2_linha (mapa_placa ds) ?t0 ?z) = ?t0"
    using n
    by (auto simp: etapa2_linha_def Let_def reset_keeps status_original_def
        split: option.splits)
  then show ?thesis
    using i linha_final_stage2 [OF c] by (simp add: cruzar_nth)
qed

lemma status_conforme_descarga_corpo:
  "(mapa (chave_primaria t) = Some (oi, m) \<longrightarrow>
      (py_in transito (status_original t) \<and> d_data_de_descarga m = None \<longrightarrow>
         fst (etapa1_linha mapa t st) =
           t\<lparr>data_chegada := Some (d_data m), fonte_atualizacao := Etapa_1_Chave_Primaria,
             status := PyStr (lit ''AGUARDANDO DESCARGA'')\<rparr>)
    \<and> ((py_in transito (status_original t) \<or> py_in (lit ''aguardando'') (status_original t)) \<and>
        d_data_de_descarga m = Some ud \<longrightarrow>
         fst (etapa1_linha mapa t st) =
           t\<lparr>data_chegada := Some (d_data m), fonte_atualizacao := Etapa_1_Chave_Primaria,
             status := PyStr (lit ''DESCARREGADO''), data_descarga := Some ud\<rparr>)
    \<and> (\<not> py_in transito (status_original t) \<and>
        (d_data_de_descarga m = None \<or> \<not> py_in (lit ''aguardando'') (status_original t)) \<longrightarrow>
         status (fst (etapa1_linha mapa t st)) = status t \<and>
         data_descarga (fst (etapa1_linha mapa t st)) = data_descarga t))
   \<and> (mapa (chave_busca_placa t) = Some (oi, m) \<and> data_de_carregamento t = Some dc \<and>
       dc \<le> d_data m \<longrightarrow>
      (py_in transito (status_original t) \<and> d_data_de_descarga m = None \<longrightarrow>
         fst (etapa2_linha mapa t st) =
           t\<lparr>data_chegada := Some (d_data m), fonte_atualizacao := Etapa_2_Placa,
             status := PyStr (lit ''AGUARDANDO DESCARGA'')\<rparr>)
    \<and> ((py_in transito (status_original t) \<or> py_in (lit ''aguardando'') (status_original t)) \<and>
        d_data_de_descarga m = Some ud \<longrightarrow>
         fst (etapa2_linha mapa t st) =
           t\<lparr>data_chegada := Some (d_data m), fonte_atualizacao := Etapa_2_Placa,
             status := PyStr (lit ''DESCARREGADO''), data_descarga := Some ud\<rparr>)
    \<and> (\<not> py_in transito (status_original t) \<and>
        (d_data_de_descarga m = None \<or> \<not> py_in (lit ''aguardando'') (status_original t)) \<longrightarrow>
         status (fst (etapa2_linha mapa t st)) = status t \<and>
         data_descarga (fst (etapa2_linha mapa t st)) = data_descarga t))"
proof (intro conjI impI)
  assume h: "mapa (chave_primaria t) = Some (oi, m)"
  {
    assume "py_in transito (status_original t) \<and> d_data_de_descarga m = None"
    with h show "fst (etapa1_linha mapa t st) =
           t\<lparr>data_chegada := Some (d_data m), fonte_atualizacao := Etapa_1_Chave_Primaria,
             status := PyStr (lit ''AGUARDANDO DESCARGA'')\<rparr>"
      by (simp add: etapa1_linha_aguardando)
  next
    assume "(py_in transito (status_original t) \<or> py_in (lit ''aguardando'') (status_original t)) \<and>
        d_data_de_descarga m = Some ud"
    with h show "fst (etapa1_linha mapa t st) =
           t\<lparr>data_chegada := Some (d_data m), fonte_atualizacao := Etapa_1_Chave_Primaria,
             status := PyStr (lit ''DESCARREGADO''), data_descarga := Some ud\<rparr>"
      using etapa1_linha_descarregado [of mapa t oi m ud st] by blast
  next
    assume a: "\<not> py_in transito (status_original t) \<and>
        (d_data_de_descarga m = None \<or> \<not> py_in (lit ''aguardando'') (status_original t))"
    with h show "status (fst (etapa1_linha mapa t st)) = status t"
      using etapa1_linha_outro [of t m mapa oi st] by blast
    from a h show "data_descarga (fst (etapa1_linha mapa t st)) = data_descarga t"
      using etapa1_linha_outro [of t m mapa oi st] by blast
  }
next
  assume h: "mapa (chave_busca_placa t) = Some (oi, m) \<and> data_de_carregamento t = Some dc \<and>
       dc \<le> d_data m"
  {
    assume "py_in transito (status_original t) \<and> d_data_de_descarga m = None"
    with h show "fst (etapa2_linha mapa t st) =
           t\<lparr>data_chegada := Some (d_data m), fonte_atualizacao := Etapa_2_Placa,
             status := PyStr (lit ''AGUARDANDO DESCARGA'')\<rparr>"
      by (simp add: etapa2_linha_aguardando)
  next
    assume "(py_in transito (status_original t) \<or> py_in (lit ''aguardando'') (status_original t)) \<and>
        d_data_de_descarga m = Some ud"
    with h show "fst (etapa2_linha mapa t st) =
           t\<lparr>data_chegada := Some (d_data m), fonte_atualizacao := Etapa_2_Placa,
             status := PyStr (lit ''DESCARREGADO''), data_descarga := Some ud\<rparr>"
      using etapa2_linha_descarregado [of mapa t oi m dc ud st] by blast
  next
    assume a: "\<not> py_in transito (status_original t) \<and>
        (d_data_de_descarga m = None \<or> \<not> py_in (lit ''aguardando'') (status_original t))"
    with h show "status (fst (etapa2_linha mapa t st)) = status t"
      using etapa2_linha_outro [of t m mapa oi st] by blast
    from a h show "data_descarga (fst (etapa2_linha mapa t st)) = data_descarga t"
      using etapa2_linha_outro [of t m mapa oi st] by blast
  }
qed


lemma linha_final_E2_deixa:
  assumes "fonte_atualizacao (linha_final ds t) = Etapa_2_Placa"
  shows "case mapa_chaves ds (chave_primaria t) of None \<Rightarrow> True
         | Some (oi', m') \<Rightarrow> novo_status m' = status_original t"
proof (cases "mapa_chaves ds (chave_primaria t)")
  case None
  then show ?thesis by simp
next
  case (Some p)
  obtain oi' m' where p: "p = (oi', m')" by (cases p)
  have "novo_status m' = status_original t"
  proof (rule ccontr)
    assume n: "novo_status m' \<noteq> status_original t"
    let ?t0 = "t\<lparr>fonte_atualizacao := Nao_Atualizado\<rparr>"
    let ?z = "(contadores_zero, {}) :: contadores \<times> nat set"
    have m: "mapa_chaves ds (chave_primaria t) = Some (oi', m')" using Some p by simp
    have l: "linha_final ds t = fst (etapa1_linha (mapa_chaves ds) ?t0 ?z)"
      using m n by (rule linha_final_stage1)
    have "fonte_atualizacao (fst (etapa1_linha (mapa_chaves ds) ?t0 ?z)) = Etapa_1_Chave_Primaria"
      using m n by (simp add: etapa1_linha_def Let_def status_original_def)
    with assms l show False by simp
  qed
  with Some p show ?thesis by simp
qed

lemma run_marcada_etapa1:
  assumes i: "i < length ts"
    and f: "fonte_atualizacao (fst (cruzar_e_atualizar_transportes ts ds) ! i) =
            Etapa_1_Chave_Primaria"
  shows "\<exists>oi m. mapa_chaves ds (chave_primaria (ts ! i)) = Some (oi, m) \<and>
           oi < length ds \<and> ds ! oi = m \<and> d_chave_primaria m = chave_primaria (ts ! i) \<and>
           data_chegada (fst (cruzar_e_atualizar_transportes ts ds) ! i) = Some (d_data m) \<and>
           oi \<in> snd (snd (cruzar_e_atualizar_transportes ts ds))"
proof -
  have o: "fst (cruzar_e_atualizar_transportes ts ds) ! i = linha_final ds (ts ! i)"
    using i by (simp add: cruzar_nth)
  from f have "fonte_atualizacao (linha_final ds (ts ! i)) = Etapa_1_Chave_Primaria"
    unfolding o .
  from linha_final_E1 [OF this] obtain oi m where
    m: "mapa_chaves ds (chave_primaria (ts ! i)) = Some (oi, m)" and
    d: "data_chegada (linha_final ds (ts ! i)) = Some (d_data m)"
    by blast
  have ne: "ds \<noteq> []" using m by (auto simp: mapa_chaves_Nil)
  have "ts ! i \<in> set ts" using i by simp
  then have u: "oi \<in> snd (snd (cruzar_e_atualizar_transportes ts ds))"
    using ne m by (rule cruzar_usados)
  from mapa_chaves_Some_D [OF m] m d u show ?thesis unfolding o by blast
qed

lemma run_marcada_etapa2:
  assumes i: "i < length ts"
    and f: "fonte_atualizacao (fst (cruzar_e_atualizar_transportes ts ds) ! i) = Etapa_2_Placa"
  shows "\<exists>oi m dc. mapa_placa ds (chave_busca_placa (ts ! i)) = Some (oi, m) \<and>
           oi < length ds \<and> ds ! oi = m \<and>
           d_chave_placa_fonte_produto m = chave_busca_placa (ts ! i) \<and>
           data_de_carregamento (ts ! i) = Some dc \<and> dc \<le> d_data m \<and>
           data_chegada (fst (cruzar_e_atualizar_transportes ts ds) ! i) = Some (d_data m) \<and>
           oi \<in> snd (snd (cruzar_e_atualizar_transportes ts ds))"
proof -
  have o: "fst (cruzar_e_atualizar_transportes ts ds) ! i = linha_final ds (ts ! i)"
    using i by (simp add: cruzar_nth)
  from f have e: "fonte_atualizacao (linha_final ds (ts ! i)) = Etapa_2_Placa"
    unfolding o .
  from linha_final_E2 [OF e] obtain oi m dc where
    m: "mapa_placa ds (chave_busca_placa (ts ! i)) = Some (oi, m)" and
    c: "data_de_carregamento (ts ! i) = Some dc" and g: "dc \<le> d_data m" and
    d: "data_chegada (linha_final ds (ts ! i)) = Some (d_data m)"
    by blast
  have s1: "case mapa_chaves ds (chave_primaria (ts ! i)) of None \<Rightarrow> True
            | Some (oi', m') \<Rightarrow> novo_status m' = status_original (ts ! i)"
    using e by (rule linha_final_E2_deixa)
  have u: "oi \<in> snd (snd (cruzar_e_atualizar_transportes ts ds))"
    using i s1 m c g by (rule cruzar_usados_etapa2)
  from mapa_placa_Some_D [OF m] m c g d u show ?thesis unfolding o by blast
qed

lemma run_chaves_diferentes_etapa1:
  assumes i: "i < length ts" and j: "j < length ts"
    and fi: "fonte_atualizacao (fst (cruzar_e_atualizar_transportes ts ds) ! i) =
             Etapa_1_Chave_Primaria"
    and fj: "fonte_atualizacao (fst (cruzar_e_atualizar_transportes ts ds) ! j) =
             Etapa_1_Chave_Primaria"
    and k: "chave_primaria (ts ! i) \<noteq> chave_primaria (ts ! j)"
  shows "\<exists>oi oj mi mj. mapa_chaves ds (chave_primaria (ts ! i)) = Some (oi, mi) \<and>
           mapa_chaves ds (chave_primaria (ts ! j)) = Some (oj, mj) \<and> oi \<noteq> oj \<and>
           data_chegada (fst (cruzar_e_atualizar_transportes ts ds) ! i) = Some (d_data mi) \<and>
           data_chegada (fst (cruzar_e_atualizar_transportes ts ds) ! j) = Some (d_data mj)"
proof -
  from run_marcada_etapa1 [OF i fi] obtain oi mi where
    a: "mapa_chaves ds (chave_primaria (ts ! i)) = Some (oi, mi)" "ds ! oi = mi"
       "d_chave_primaria mi = chave_primaria (ts ! i)"
       "data_chegada (fst (cruzar_e_atualizar_transportes ts ds) ! i) = Some (d_data mi)"
    by blast
  from run_marcada_etapa1 [OF j fj] obtain oj mj where
    b: "mapa_chaves ds (chave_primaria (ts ! j)) = Some (oj, mj)" "ds ! oj = mj"
       "d_chave_primaria mj = chave_primaria (ts ! j)"
       "data_chegada (fst (cruzar_e_atualizar_transportes ts ds) ! j) = Some (d_data mj)"
    by blast
  have "oi \<noteq> oj"
  proof
    assume "oi = oj"
    with a(2) b(2) have "mi = mj" by simp
    with a(3) b(3) k show False by simp
  qed
  with a b show ?thesis by blast
qed

lemma run_chaves_diferentes_etapa2:
  assumes i: "i < length ts" and j: "j < length ts"
    and fi: "fonte_atualizacao (fst (cruzar_e_atualizar_transportes ts ds) ! i) = Etapa_2_Placa"
    and fj: "fonte_atualizacao (fst (cruzar_e_atualizar_transportes ts ds) ! j) = Etapa_2_Placa"
    and k: "chave_busca_placa (ts ! i) \<noteq> chave_busca_placa (ts ! j)"
  shows "\<exists>oi oj mi mj. mapa_placa ds (chave_busca_placa (ts ! i)) = Some (oi, mi) \<and>
           mapa_placa ds (chave_busca_placa (ts ! j)) = Some (oj, mj) \<and> oi \<noteq> oj \<and>
           data_chegada (fst (cruzar_e_atualizar_transportes ts ds) ! i) = Some (d_data mi) \<and>
           data_chegada (fst (cruzar_e_atualizar_transportes ts ds) ! j) = Some (d_data mj)"
proof -
  from run_marcada_etapa2 [OF i fi] obtain oi mi where
    a: "mapa_placa ds (chave_busca_placa (ts ! i)) = Some (oi, mi)" "ds ! oi = mi"
       "d_chave_placa_fonte_produto mi = chave_busca_placa (ts ! i)"
       "data_chegada (fst (cruzar_e_atualizar_transportes ts ds) ! i) = Some (d_data mi)"
    by blast
  from run_marcada_etapa2 [OF j fj] obtain oj mj where
    b: "mapa_placa ds (chave_busca_placa (ts ! j)) = Some (oj, mj)" "ds ! oj = mj"
       "d_chave_placa_fonte_produto mj = chave_busca_placa (ts ! j)"
       "data_chegada (fst (cruzar_e_atualizar_transportes ts ds) ! j) = Some (d_data mj)"
    by blast
  have "oi \<noteq> oj"
  proof
    assume "oi = oj"
    with a(2) b(2) have "mi = mj" by simp
    with a(3) b(3) k show False by simp
  qed
  with a b show ?thesis by blast
qed

section \<open>Evaluating the examples\<close>

lemma ex_chaves:
  "montar_chave (PyStr (lit ''123'')) (PyStr (lit ''HIDRATADO'')) (PyStr (lit ''Aruja'')) =
     lit ''123_hidratado_aruja''"
  "montar_chave (PyStr (lit ''123'')) (PyStr (lit ''Hidratado '')) (PyStr (lit ''Aruja'')) =
     lit ''123_hidratado_aruja''"
  "montar_chave (PyStr (lit ''ABC1234'')) (PyStr (lit ''Hidratado '')) (PyStr (lit ''Aruja'')) =
     lit ''abc1234_hidratado_aruja''"
  "montar_chave (PyStr (lit ''ABC1234'')) (PyStr (lit ''HIDRATADO'')) (PyStr (lit ''Aruja'')) =
     lit ''abc1234_hidratado_aruja''"
  "montar_chave (PyStr []) (PyStr (lit ''HIDRATADO'')) (PyStr (lit ''Aruja'')) =
     lit ''_hidratado_aruja''"
  by (simp_all add: montar_chave_def normalizar_eval)

lemma so_values:
  "py_lower em_transito = lit ''em tr'' @ [226] @ lit ''nsito''"
  "py_lower (lit ''Programado'') = lit ''programado''"
  "py_lower (lit ''Aguardando By Pass'') = lit ''aguardando by pass''"
  "py_lower (lit ''Aguardando Descarga'') = lit ''aguardando descarga''"
  by (simp_all add: em_transito_def py_lower_def py_lower_cp_def lit_def)

lemma ex_chaves_b:
  "montar_chave (PyStr (lit ''456'')) (PyStr (lit ''HIDRATADO'')) (PyStr (lit ''Aruja'')) =
     lit ''456_hidratado_aruja''"
  "montar_chave (PyStr (lit ''456'')) (PyStr (lit ''Hidratado '')) (PyStr (lit ''Aruja'')) =
     lit ''456_hidratado_aruja''"
  "montar_chave (PyStr (lit ''XYZ9876'')) (PyStr (lit ''Hidratado '')) (PyStr (lit ''Aruja'')) =
     lit ''xyz9876_hidratado_aruja''"
  "montar_chave (PyStr (lit ''XYZ9876'')) (PyStr (lit ''HIDRATADO'')) (PyStr (lit ''Aruja'')) =
     lit ''xyz9876_hidratado_aruja''"
  by (simp_all add: montar_chave_def normalizar_eval)

lemmas run_eval =
  cruzar_e_atualizar_transportes_def etapa1_linha_def etapa2_linha_def
  mapa_chaves_def mapa_placa_def to_dict_index_def descargas_com_indice_def
  ex_transporte_def ex_descarga_def ex_sem_nfe_def ex_chaves chave_busca_placa_def
  status_original_def novo_status_def so_values Let_def contadores_zero_def

lemma ex_reset:
  "(ex_transporte s)\<lparr>fonte_atualizacao := Nao_Atualizado\<rparr> = ex_transporte s"
  "(ex_sem_nfe s dc)\<lparr>fonte_atualizacao := Nao_Atualizado\<rparr> = ex_sem_nfe s dc"
  by (simp_all add: ex_transporte_def ex_sem_nfe_def)

lemma ex_fonte:
  "fonte_atualizacao (ex_transporte s) = Nao_Atualizado"
  "fonte_atualizacao (ex_sem_nfe s dc) = Nao_Atualizado"
  by (simp_all add: ex_transporte_def ex_sem_nfe_def)

lemma passo1_transito_descarregado:
  "etapa1_linha (mapa_chaves [ex_descarga (Some 12)]) (ex_transporte (PyStr em_transito)) (c, u) =
     ((ex_transporte (PyStr em_transito))
         \<lparr>status := PyStr (lit ''DESCARREGADO''), data_chegada := Some 10,
          data_descarga := Some 12, fonte_atualizacao := Etapa_1_Chave_Primaria\<rparr>,
      c\<lparr>etapa1_transito_para_descarregado := etapa1_transito_para_descarregado c + 1\<rparr>,
      insert 0 u)"
  by (simp add: run_eval; simp add: lit_def transito_def)

lemma passo1_aguardando_descarregado:
  "etapa1_linha (mapa_chaves [ex_descarga (Some 12)])
     (ex_transporte (PyStr (lit ''Aguardando Descarga''))) (c, u) =
     ((ex_transporte (PyStr (lit ''Aguardando Descarga'')))
         \<lparr>status := PyStr (lit ''DESCARREGADO''), data_chegada := Some 10,
          data_descarga := Some 12, fonte_atualizacao := Etapa_1_Chave_Primaria\<rparr>,
      c\<lparr>etapa1_aguardando_para_descarregado := etapa1_aguardando_para_descarregado c + 1\<rparr>,
      insert 0 u)"
  by (simp add: run_eval; simp add: lit_def transito_def)

lemma passo1_sem_nfe:
  "etapa1_linha (mapa_chaves [ex_descarga ud]) (ex_sem_nfe s dc) st = (ex_sem_nfe s dc, st)"
  by (simp add: run_eval; simp add: lit_def)

lemma passo2_transito_descarregado:
  "etapa2_linha (mapa_placa [ex_descarga (Some 12)]) (ex_sem_nfe (PyStr em_transito) (Some 5)) (c, u) =
     ((ex_sem_nfe (PyStr em_transito) (Some 5))
         \<lparr>status := PyStr (lit ''DESCARREGADO''), data_chegada := Some 10,
          data_descarga := Some 12, fonte_atualizacao := Etapa_2_Placa\<rparr>,
      c\<lparr>etapa2_transito_para_descarregado := etapa2_transito_para_descarregado c + 1\<rparr>,
      insert 0 u)"
  by (simp add: run_eval; simp add: lit_def transito_def)

lemma run_tres:
  "cruzar_e_atualizar_transportes
     [ex_transporte (PyStr em_transito), ex_transporte (PyStr (lit ''Aguardando Descarga'')),
      ex_sem_nfe (PyStr em_transito) (Some 5)]
     [ex_descarga (Some 12)] =
     ([(ex_transporte (PyStr em_transito))
         \<lparr>status := PyStr (lit ''DESCARREGADO''), data_chegada := Some 10,
          data_descarga := Some 12, fonte_atualizacao := Etapa_1_Chave_Primaria\<rparr>,
       (ex_transporte (PyStr (lit ''Aguardando Descarga'')))
         \<lparr>status := PyStr (lit ''DESCARREGADO''), data_chegada := Some 10,
          data_descarga := Some 12, fonte_atualizacao := Etapa_1_Chave_Primaria\<rparr>,
       (ex_sem_nfe (PyStr em_transito) (Some 5))
         \<lparr>status := PyStr (lit ''DESCARREGADO''), data_chegada := Some 10,
          data_descarga := Some 12, fonte_atualizacao := Etapa_2_Placa\<rparr>],
      Some (contadores_zero\<lparr>etapa1_transito_para_descarregado := 1,
              etapa1_aguardando_para_descarregado := 1,
              etapa2_transito_para_descarregado := 1\<rparr>), {0})"
  by (simp add: cruzar_e_atualizar_transportes_def ex_reset ex_fonte
      passo1_transito_descarregado passo1_aguardando_descarregado passo1_sem_nfe
      passo2_transito_descarregado contadores_zero_def)

section \<open>Properties of the Bsoft update loop\<close>

lemma main_atualizacao_inv:
  "main_atualizacao b rows (u, cs, n) = (u', cs', n') \<Longrightarrow>
   \<exists>new. cs' = cs @ new \<and> distinct (map (\<lambda>c. u_nfe (c_updates c)) new) \<and>
     (\<forall>c\<in>set new. u_nfe (c_updates c) \<notin> u) \<and>
     u' = u \<union> set (map (\<lambda>c. u_nfe (c_updates c)) new) \<and> n' = n + length new"
proof (induction rows arbitrary: u cs n)
  case Nil
  then show ?case by simp
next
  case (Cons row rows)
  show ?case
  proof (cases "ms_file_id_transp row = b \<or> numero row \<in> u")
    case True
    with Cons.prems have "main_atualizacao b rows (u, cs, n) = (u', cs', n')" by simp
    from Cons.IH [OF this] show ?thesis .
  next
    case False
    let ?c = "\<lparr>c_file_id = ms_file_id_transp row, c_sheet_name = ms_sheet_name_transp row,
                  c_row_num = excel_row_num_transp row,
                  c_updates =
                    \<lparr>u_nfe = numero row, u_volume_l = bsoft_vol row,
                     u_data_de_carregamento = bsoft_data row,
                     u_horario_de_carregamento = bsoft_hora row, u_status = EM_TRANSITO\<rparr>\<rparr>"
    from False Cons.prems
    have "main_atualizacao b rows (insert (numero row) u, cs @ [?c], n + 1) = (u', cs', n')"
      by (simp add: Let_def)
    from Cons.IH [OF this] obtain new where
      a: "cs' = (cs @ [?c]) @ new" and
      d: "distinct (map (\<lambda>c. u_nfe (c_updates c)) new)" and
      f: "\<forall>c\<in>set new. u_nfe (c_updates c) \<notin> insert (numero row) u" and
      g: "u' = insert (numero row) u \<union> set (map (\<lambda>c. u_nfe (c_updates c)) new)" and
      h: "n' = n + 1 + length new"
      by blast
    have "cs' = cs @ (?c # new)" using a by simp
    moreover have "distinct (map (\<lambda>c. u_nfe (c_updates c)) (?c # new))"
      using d f by auto
    moreover have "\<forall>c\<in>set (?c # new). u_nfe (c_updates c) \<notin> u"
      using f False by auto
    moreover have "u' = u \<union> set (map (\<lambda>c. u_nfe (c_updates c)) (?c # new))"
      using g by auto
    moreover have "n' = n + length (?c # new)" using h by simp
    ultimately show ?thesis by blast
  qed
qed

lemma main_atualizacao_distinct:
  assumes "main_atualizacao b rows (u, [], 0) = (u', cs', n')"
  shows "distinct (map (\<lambda>c. u_nfe (c_updates c)) cs') \<and>
         (\<forall>c\<in>set cs'. u_nfe (c_updates c) \<notin> u) \<and> n' = length cs'"
  using main_atualizacao_inv [OF assms] by auto

lemma run_bsoft:
  "main_atualizacao (lit ''B0'') [ex_linha_match 2, ex_linha_match 3] ({}, [], 0) =
     ({lit ''123''},
      [\<lparr>c_file_id = lit ''F1'', c_sheet_name = lit ''Base'', c_row_num = 2,
        c_updates =
          \<lparr>u_nfe = lit ''123'', u_volume_l = PyStr (lit ''45000''),
           u_data_de_carregamento = lit ''04/11/2026'',
           u_horario_de_carregamento = PyStr (lit ''08:00''), u_status = EM_TRANSITO\<rparr>\<rparr>],
      1)"
  by (simp add: ex_linha_match_def Let_def lit_def)

section \<open>The claims about the matcher\<close>

text \<open>
  C6. When several invoice rows have the same key, primary or plate, the index keeps
  exactly the last of them in input order: a lookup of the key returns that last row, with
  its \<open>original_index\<close>, and it is the only row with the key left after
  \<open>drop_duplicates\<close>.
\<close>

theorem indice_keep_last:
  "mapa_chaves ds k =
     (case filter (\<lambda>r. d_chave_primaria (snd r) = k) (descargas_com_indice ds) of
        [] \<Rightarrow> None | c # cs \<Rightarrow> Some (last (c # cs)))
   \<and> mapa_placa ds k =
     (case filter (\<lambda>r. d_chave_placa_fonte_produto (snd r) = k) (descargas_com_indice ds) of
        [] \<Rightarrow> None | c # cs \<Rightarrow> Some (last (c # cs)))
   \<and> filter (\<lambda>r. d_chave_primaria (snd r) = k)
        (drop_duplicates_last (\<lambda>r. d_chave_primaria (snd r)) (descargas_com_indice ds)) =
     (case filter (\<lambda>r. d_chave_primaria (snd r) = k) (descargas_com_indice ds) of
        [] \<Rightarrow> [] | c # cs \<Rightarrow> [last (c # cs)])
   \<and> filter (\<lambda>r. d_chave_placa_fonte_produto (snd r) = k)
        (drop_duplicates_last (\<lambda>r. d_chave_placa_fonte_produto (snd r)) (descargas_com_indice ds)) =
     (case filter (\<lambda>r. d_chave_placa_fonte_produto (snd r) = k) (descargas_com_indice ds) of
        [] \<Rightarrow> [] | c # cs \<Rightarrow> [last (c # cs)])"
  by (simp add: mapa_chaves_def mapa_placa_def to_dict_index_last drop_duplicates_last_filter)

theorem indice_keep_last_witness:
  "mapa_chaves [ex_descarga None, ex_descarga (Some 12)] (lit ''123_hidratado_aruja'') =
     Some (1, ex_descarga (Some 12))
   \<and> mapa_placa [ex_descarga None, ex_descarga (Some 12)] (lit ''abc1234_hidratado_aruja'') =
     Some (1, ex_descarga (Some 12))
   \<and> drop_duplicates_last (\<lambda>r. d_chave_primaria (snd r))
        (descargas_com_indice [ex_descarga None, ex_descarga (Some 12)]) =
      [(1, ex_descarga (Some 12))]"
proof -
  let ?ds = "[ex_descarga None, ex_descarga (Some 12)]"
  have f: "filter (\<lambda>r. d_chave_primaria (snd r) = lit ''123_hidratado_aruja'')
             (descargas_com_indice ?ds) = [(0, ex_descarga None), (1, ex_descarga (Some 12))]"
    by (simp add: descargas_com_indice_def ex_descarga_def ex_chaves)
  have g: "filter (\<lambda>r. d_chave_placa_fonte_produto (snd r) = lit ''abc1234_hidratado_aruja'')
             (descargas_com_indice ?ds) = [(0, ex_descarga None), (1, ex_descarga (Some 12))]"
    by (simp add: descargas_com_indice_def ex_descarga_def ex_chaves)
  have h: "drop_duplicates_last (\<lambda>r. d_chave_primaria (snd r)) (descargas_com_indice ?ds) =
           [(1, ex_descarga (Some 12))]"
    by (simp add: descargas_com_indice_def ex_descarga_def ex_chaves)
  from indice_keep_last [of ?ds "lit ''123_hidratado_aruja''"] f
  have a: "mapa_chaves ?ds (lit ''123_hidratado_aruja'') = Some (1, ex_descarga (Some 12))"
    by simp
  from indice_keep_last [of ?ds "lit ''abc1234_hidratado_aruja''"] g
  have b: "mapa_placa ?ds (lit ''abc1234_hidratado_aruja'') = Some (1, ex_descarga (Some 12))"
    by simp
  from a b h show ?thesis by simp
qed

text \<open>
  C10. When the lookup of a stage finds an invoice row and the new status computed from it
  equals the current status of the shipment (in the second stage the new status is only
  computed once the loading date has passed the date test), the shipment row is left as
  it is, every field of it, the counters are left as they are, and the
  \<open>original_index\<close> of the invoice row is added to the used indices. This holds of the
  body of each loop and of a run of \<open>cruzar_e_atualizar_transportes\<close>: for a row in that
  case in the first stage, the index is in the set the run returns, the frame after the
  first loop holds the row as it came in (marker reset), and the row the run returns is
  what the body of the second loop makes of it; for a row in that case in the second stage
  (which the first stage left alone), the index is in the set the run returns and the row
  the run returns is the row as it came in.
\<close>

theorem sem_mudanca_consome:
  "(mapa (chave_primaria t) = Some (oi, m) \<and> novo_status m = status_original t \<longrightarrow>
      etapa1_linha mapa t (c, u) = (t, c, insert oi u))
   \<and> (mapa (chave_busca_placa t) = Some (oi, m) \<and> data_de_carregamento t = Some dc \<and>
       dc \<le> d_data m \<and> novo_status m = status_original t \<longrightarrow>
      etapa2_linha mapa t (c, u) = (t, c, insert oi u))
   \<and> (i < length ts \<and> mapa_chaves ds (chave_primaria (ts ! i)) = Some (oi, m) \<and>
       novo_status m = status_original (ts ! i) \<longrightarrow>
      oi \<in> snd (snd (cruzar_e_atualizar_transportes ts ds)) \<and>
      fst (etapa1 (mapa_chaves ds) (map (\<lambda>t. t\<lparr>fonte_atualizacao := Nao_Atualizado\<rparr>) ts)
             (contadores_zero, {})) ! i = (ts ! i)\<lparr>fonte_atualizacao := Nao_Atualizado\<rparr> \<and>
      fst (cruzar_e_atualizar_transportes ts ds) ! i =
        fst (etapa2_linha (mapa_placa ds) ((ts ! i)\<lparr>fonte_atualizacao := Nao_Atualizado\<rparr>)
               (contadores_zero, {})))
   \<and> (i < length ts \<and>
       (case mapa_chaves ds (chave_primaria (ts ! i)) of None \<Rightarrow> True
        | Some (oi', m') \<Rightarrow> novo_status m' = status_original (ts ! i)) \<and>
       mapa_placa ds (chave_busca_placa (ts ! i)) = Some (oi, m) \<and>
       data_de_carregamento (ts ! i) = Some dc \<and> dc \<le> d_data m \<and>
       novo_status m = status_original (ts ! i) \<longrightarrow>
      oi \<in> snd (snd (cruzar_e_atualizar_transportes ts ds)) \<and>
      fst (cruzar_e_atualizar_transportes ts ds) ! i =
        (ts ! i)\<lparr>fonte_atualizacao := Nao_Atualizado\<rparr>)"
proof -
  have a: "mapa (chave_primaria t) = Some (oi, m) \<and> novo_status m = status_original t \<longrightarrow>
      etapa1_linha mapa t (c, u) = (t, c, insert oi u)"
    by (simp add: etapa1_linha_same)
  have b: "mapa (chave_busca_placa t) = Some (oi, m) \<and> data_de_carregamento t = Some dc \<and>
       dc \<le> d_data m \<and> novo_status m = status_original t \<longrightarrow>
      etapa2_linha mapa t (c, u) = (t, c, insert oi u)"
    by (simp add: etapa2_linha_same)
  have r1: "i < length ts \<and> mapa_chaves ds (chave_primaria (ts ! i)) = Some (oi, m) \<and>
       novo_status m = status_original (ts ! i) \<longrightarrow>
      oi \<in> snd (snd (cruzar_e_atualizar_transportes ts ds)) \<and>
      fst (etapa1 (mapa_chaves ds) (map (\<lambda>t. t\<lparr>fonte_atualizacao := Nao_Atualizado\<rparr>) ts)
             (contadores_zero, {})) ! i = (ts ! i)\<lparr>fonte_atualizacao := Nao_Atualizado\<rparr> \<and>
      fst (cruzar_e_atualizar_transportes ts ds) ! i =
        fst (etapa2_linha (mapa_placa ds) ((ts ! i)\<lparr>fonte_atualizacao := Nao_Atualizado\<rparr>)
               (contadores_zero, {}))"
    using run_mesmo_status_etapa1 [of i ts ds oi m] by blast
  have r2: "i < length ts \<and>
       (case mapa_chaves ds (chave_primaria (ts ! i)) of None \<Rightarrow> True
        | Some (oi', m') \<Rightarrow> novo_status m' = status_original (ts ! i)) \<and>
       mapa_placa ds (chave_busca_placa (ts ! i)) = Some (oi, m) \<and>
       data_de_carregamento (ts ! i) = Some dc \<and> dc \<le> d_data m \<and>
       novo_status m = status_original (ts ! i) \<longrightarrow>
      oi \<in> snd (snd (cruzar_e_atualizar_transportes ts ds)) \<and>
      fst (cruzar_e_atualizar_transportes ts ds) ! i =
        (ts ! i)\<lparr>fonte_atualizacao := Nao_Atualizado\<rparr>"
    using run_mesmo_status_etapa2 [of i ts ds oi m dc] by blast
  from a b r1 r2 show ?thesis by (intro conjI)
qed


theorem sem_mudanca_consome_witness:
  "mapa_chaves [ex_descarga None] (chave_primaria (ex_transporte (PyStr (lit ''Aguardando Descarga''))))
     = Some (0, ex_descarga None)
   \<and> novo_status (ex_descarga None) = status_original (ex_transporte (PyStr (lit ''Aguardando Descarga'')))
   \<and> etapa1_linha (mapa_chaves [ex_descarga None]) (ex_transporte (PyStr (lit ''Aguardando Descarga'')))
        (contadores_zero, {}) =
      (ex_transporte (PyStr (lit ''Aguardando Descarga'')), contadores_zero, {0})
   \<and> mapa_placa [ex_descarga None] (chave_busca_placa (ex_transporte (PyStr (lit ''Aguardando Descarga''))))
     = Some (0, ex_descarga None)
   \<and> data_de_carregamento (ex_transporte (PyStr (lit ''Aguardando Descarga''))) = Some 5
   \<and> 5 \<le> d_data (ex_descarga None)
   \<and> etapa2_linha (mapa_placa [ex_descarga None]) (ex_transporte (PyStr (lit ''Aguardando Descarga'')))
        (contadores_zero, {}) =
      (ex_transporte (PyStr (lit ''Aguardando Descarga'')), contadores_zero, {0})
   \<and> 0 \<in> snd (snd (cruzar_e_atualizar_transportes
         [ex_transporte (PyStr (lit ''Aguardando Descarga''))] [ex_descarga None]))
   \<and> fst (etapa1 (mapa_chaves [ex_descarga None])
         (map (\<lambda>t. t\<lparr>fonte_atualizacao := Nao_Atualizado\<rparr>)
            [ex_transporte (PyStr (lit ''Aguardando Descarga''))]) (contadores_zero, {})) ! 0 =
       ex_transporte (PyStr (lit ''Aguardando Descarga''))
   \<and> mapa_chaves [ex_descarga None]
        (chave_primaria (ex_sem_nfe (PyStr (lit ''Aguardando Descarga'')) (Some 5))) = None
   \<and> mapa_placa [ex_descarga None]
        (chave_busca_placa (ex_sem_nfe (PyStr (lit ''Aguardando Descarga'')) (Some 5))) =
       Some (0, ex_descarga None)
   \<and> novo_status (ex_descarga None) =
       status_original (ex_sem_nfe (PyStr (lit ''Aguardando Descarga'')) (Some 5))
   \<and> 0 \<in> snd (snd (cruzar_e_atualizar_transportes
         [ex_sem_nfe (PyStr (lit ''Aguardando Descarga'')) (Some 5)] [ex_descarga None]))
   \<and> fst (cruzar_e_atualizar_transportes
         [ex_sem_nfe (PyStr (lit ''Aguardando Descarga'')) (Some 5)] [ex_descarga None]) ! 0 =
       ex_sem_nfe (PyStr (lit ''Aguardando Descarga'')) (Some 5)"
proof -
  let ?t = "ex_transporte (PyStr (lit ''Aguardando Descarga''))"
  let ?t' = "ex_sem_nfe (PyStr (lit ''Aguardando Descarga'')) (Some 5)"
  let ?d = "ex_descarga None"
  have a: "mapa_chaves [?d] (chave_primaria ?t) = Some (0, ?d)"
    by (simp add: mapa_chaves_def to_dict_index_def descargas_com_indice_def
        ex_transporte_def ex_descarga_def ex_chaves)
  have b: "mapa_placa [?d] (chave_busca_placa ?t) = Some (0, ?d)"
    by (simp add: mapa_placa_def to_dict_index_def descargas_com_indice_def
        ex_transporte_def ex_descarga_def ex_chaves chave_busca_placa_def)
  have n: "novo_status ?d = status_original ?t"
    by (simp add: novo_status_def status_original_def ex_transporte_def ex_descarga_def so_values)
  have d: "data_de_carregamento ?t = Some 5 \<and> 5 \<le> d_data ?d"
    by (simp add: ex_transporte_def ex_descarga_def)
  have a': "mapa_chaves [?d] (chave_primaria ?t') = None"
    by (simp add: mapa_chaves_def to_dict_index_def descargas_com_indice_def
        ex_sem_nfe_def ex_transporte_def ex_descarga_def ex_chaves; simp add: lit_def)
  have b': "mapa_placa [?d] (chave_busca_placa ?t') = Some (0, ?d)"
    by (simp add: mapa_placa_def to_dict_index_def descargas_com_indice_def
        ex_sem_nfe_def ex_transporte_def ex_descarga_def ex_chaves chave_busca_placa_def)
  have n': "novo_status ?d = status_original ?t'"
    by (simp add: novo_status_def status_original_def ex_sem_nfe_def ex_transporte_def
        ex_descarga_def so_values)
  have d': "data_de_carregamento ?t' = Some 5" by (simp add: ex_sem_nfe_def)
  have l: "(0::nat) < length [?t] \<and> [?t] ! 0 = ?t \<and> (0::nat) < length [?t'] \<and> [?t'] ! 0 = ?t'"
    by simp
  have r: "?t\<lparr>fonte_atualizacao := Nao_Atualizado\<rparr> = ?t \<and>
           ?t'\<lparr>fonte_atualizacao := Nao_Atualizado\<rparr> = ?t'"
    by (simp add: ex_reset)
  note T1 = sem_mudanca_consome [where mapa = "mapa_chaves [?d]" and t = ?t and oi = 0 and m = ?d
      and c = contadores_zero and u = "{}" and dc = 5 and i = 0 and ts = "[?t]" and ds = "[?d]"]
  note T2 = sem_mudanca_consome [where mapa = "mapa_placa [?d]" and t = ?t and oi = 0 and m = ?d
      and c = contadores_zero and u = "{}" and dc = 5 and i = 0 and ts = "[?t']" and ds = "[?d]"]
  have h1: "mapa_chaves [?d] (chave_primaria ?t) = Some (0, ?d) \<and>
            novo_status ?d = status_original ?t"
    using a n by simp
  have h2: "mapa_placa [?d] (chave_busca_placa ?t) = Some (0, ?d) \<and>
            data_de_carregamento ?t = Some 5 \<and> 5 \<le> d_data ?d \<and>
            novo_status ?d = status_original ?t"
    using b n d by simp
  have h3: "(0::nat) < length [?t] \<and>
            mapa_chaves [?d] (chave_primaria ([?t] ! 0)) = Some (0, ?d) \<and>
            novo_status ?d = status_original ([?t] ! 0)"
    using a n by simp
  have h4: "(0::nat) < length [?t'] \<and>
       (case mapa_chaves [?d] (chave_primaria ([?t'] ! 0)) of None \<Rightarrow> True
        | Some (oi', m') \<Rightarrow> novo_status m' = status_original ([?t'] ! 0)) \<and>
       mapa_placa [?d] (chave_busca_placa ([?t'] ! 0)) = Some (0, ?d) \<and>
       data_de_carregamento ([?t'] ! 0) = Some 5 \<and> 5 \<le> d_data ?d \<and>
       novo_status ?d = status_original ([?t'] ! 0)"
    using a' b' n' d' d by simp
  note s1 = T1 [THEN conjunct1, THEN mp, OF h1]
  note s2 = T2 [THEN conjunct2, THEN conjunct1, THEN mp, OF h2]
  note s3 = T1 [THEN conjunct2, THEN conjunct2, THEN conjunct1, THEN mp, OF h3]
  note s4 = T2 [THEN conjunct2, THEN conjunct2, THEN conjunct2, THEN mp, OF h4]
  have e1: "etapa1_linha (mapa_chaves [?d]) ?t (contadores_zero, {}) = (?t, contadores_zero, {0})"
    using s1 by simp
  have e2: "etapa2_linha (mapa_placa [?d]) ?t (contadores_zero, {}) = (?t, contadores_zero, {0})"
    using s2 by simp
  have e3: "0 \<in> snd (snd (cruzar_e_atualizar_transportes [?t] [?d]))"
    using s3 by simp
  have e4: "fst (etapa1 (mapa_chaves [?d]) (map (\<lambda>t. t\<lparr>fonte_atualizacao := Nao_Atualizado\<rparr>) [?t])
           (contadores_zero, {})) ! 0 = ?t"
    using s3 [THEN conjunct2, THEN conjunct1] r by simp
  have e5: "0 \<in> snd (snd (cruzar_e_atualizar_transportes [?t'] [?d]))"
    using s4 by simp
  have e6: "fst (cruzar_e_atualizar_transportes [?t'] [?d]) ! 0 = ?t'"
    using s4 [THEN conjunct2] r by simp
  from a b n d a' b' n' e1 e2 e3 e4 e5 e6 show ?thesis by (intro conjI) simp_all
qed

text \<open>
  C9. A shipment whose loading date is missing, or did not parse and was coerced to NaT,
  is never matched by the plate stage: the body of the second loop leaves the row, the
  counters and the used indices as they are, whatever the index holds under its plate key,
  and no row with a missing loading date comes out of a run marked by the plate stage.
\<close>

theorem sem_data_sem_etapa2:
  "(data_de_carregamento t = None \<longrightarrow> etapa2_linha mapa t st = (t, st))
   \<and> (i < length ts \<and> data_de_carregamento (ts ! i) = None \<longrightarrow>
        fonte_atualizacao (fst (cruzar_e_atualizar_transportes ts ds) ! i) \<noteq> Etapa_2_Placa)"
  by (simp add: etapa2_linha_NaT cruzar_nth linha_final_NaT)

theorem sem_data_sem_etapa2_witness:
  "data_de_carregamento (ex_sem_nfe (PyStr em_transito) None) = None
   \<and> mapa_placa [ex_descarga None] (chave_busca_placa (ex_sem_nfe (PyStr em_transito) None)) =
       Some (0, ex_descarga None)
   \<and> etapa2_linha (mapa_placa [ex_descarga None]) (ex_sem_nfe (PyStr em_transito) None)
       (contadores_zero, {}) = (ex_sem_nfe (PyStr em_transito) None, contadores_zero, {})
   \<and> fonte_atualizacao
       (fst (cruzar_e_atualizar_transportes [ex_sem_nfe (PyStr em_transito) None] [ex_descarga None]) ! 0)
       \<noteq> Etapa_2_Placa"
proof -
  let ?t = "ex_sem_nfe (PyStr em_transito) None"
  let ?d = "ex_descarga None"
  have a: "data_de_carregamento ?t = None" by (simp add: ex_sem_nfe_def)
  have b: "mapa_placa [?d] (chave_busca_placa ?t) = Some (0, ?d)"
    by (simp add: mapa_placa_def to_dict_index_def descargas_com_indice_def
        ex_sem_nfe_def ex_transporte_def ex_descarga_def ex_chaves chave_busca_placa_def)
  have c: "(0::nat) < length [?t] \<and> [?t] ! 0 = ?t" by simp
  from a b c
    sem_data_sem_etapa2 [of ?t "mapa_placa [?d]" "(contadores_zero, {})" 0 "[?t]" "[?d]"]
  show ?thesis by simp
qed

text \<open>
  C5. In the plate stage a found invoice row is taken only when its issue date is not
  before the loading date of the shipment. A candidate issued before the loading date is
  rejected: row, counters and used indices stay as they are. Whenever the body of the
  second loop changes anything, and whenever a row leaves a run marked by the plate stage,
  the row's plate key was found in the index, the loading date was there, and the issue
  date of the found invoice was on or after it.
\<close>

theorem etapa2_data_minima:
  "(mapa (chave_busca_placa t) = Some (oi, m) \<and> data_de_carregamento t = Some dc \<and>
      d_data m < dc \<longrightarrow> etapa2_linha mapa t st = (t, st))
   \<and> (etapa2_linha mapa t st \<noteq> (t, st) \<longrightarrow>
        (\<exists>oi' m' dc'. mapa (chave_busca_placa t) = Some (oi', m') \<and>
           data_de_carregamento t = Some dc' \<and> dc' \<le> d_data m'))
   \<and> (i < length ts \<and>
       fonte_atualizacao (fst (cruzar_e_atualizar_transportes ts ds) ! i) = Etapa_2_Placa \<longrightarrow>
        (\<exists>oi' m' dc'. mapa_placa ds (chave_busca_placa (ts ! i)) = Some (oi', m') \<and>
           data_de_carregamento (ts ! i) = Some dc' \<and> dc' \<le> d_data m'))"
proof (intro conjI impI)
  assume "mapa (chave_busca_placa t) = Some (oi, m) \<and> data_de_carregamento t = Some dc \<and>
      d_data m < dc"
  then show "etapa2_linha mapa t st = (t, st)"
    by (simp add: etapa2_linha_early)
next
  assume "etapa2_linha mapa t st \<noteq> (t, st)"
  then show "\<exists>oi' m' dc'. mapa (chave_busca_placa t) = Some (oi', m') \<and>
           data_de_carregamento t = Some dc' \<and> dc' \<le> d_data m'"
    by (rule etapa2_linha_changed)
next
  assume a: "i < length ts \<and>
       fonte_atualizacao (fst (cruzar_e_atualizar_transportes ts ds) ! i) = Etapa_2_Placa"
  then have i: "i < length ts"
    and f: "fonte_atualizacao (fst (cruzar_e_atualizar_transportes ts ds) ! i) = Etapa_2_Placa"
    by simp_all
  from f have "fonte_atualizacao (linha_final ds (ts ! i)) = Etapa_2_Placa"
    by (simp add: cruzar_nth [OF i])
  then show "\<exists>oi' m' dc'. mapa_placa ds (chave_busca_placa (ts ! i)) = Some (oi', m') \<and>
           data_de_carregamento (ts ! i) = Some dc' \<and> dc' \<le> d_data m'"
    by (rule linha_final_etapa2)
qed

lemma run_tarde:
  "cruzar_e_atualizar_transportes [ex_sem_nfe (PyStr em_transito) (Some 11)] [ex_descarga None] =
     ([ex_sem_nfe (PyStr em_transito) (Some 11)], Some contadores_zero, {})"
  by (simp add: run_eval) (simp add: lit_def transito_def)

lemma run_cedo:
  "cruzar_e_atualizar_transportes [ex_sem_nfe (PyStr em_transito) (Some 10)] [ex_descarga None] =
     ([(ex_sem_nfe (PyStr em_transito) (Some 10))
         \<lparr>status := PyStr (lit ''AGUARDANDO DESCARGA''), data_chegada := Some 10,
          fonte_atualizacao := Etapa_2_Placa\<rparr>],
      Some (contadores_zero\<lparr>etapa2_transito_para_aguardando := 1\<rparr>), {0})"
  by (simp add: run_eval) (simp add: lit_def transito_def)

theorem etapa2_data_minima_witness:
  "mapa_placa [ex_descarga None] (chave_busca_placa (ex_sem_nfe (PyStr em_transito) (Some 11))) =
     Some (0, ex_descarga None)
   \<and> d_data (ex_descarga None) < 11
   \<and> etapa2_linha (mapa_placa [ex_descarga None]) (ex_sem_nfe (PyStr em_transito) (Some 11))
        (contadores_zero, {}) = (ex_sem_nfe (PyStr em_transito) (Some 11), contadores_zero, {})
   \<and> fonte_atualizacao (fst (cruzar_e_atualizar_transportes
         [ex_sem_nfe (PyStr em_transito) (Some 10)] [ex_descarga None]) ! 0) = Etapa_2_Placa
   \<and> (\<exists>oi' m' dc'. mapa_placa [ex_descarga None]
          (chave_busca_placa (ex_sem_nfe (PyStr em_transito) (Some 10))) = Some (oi', m') \<and>
        data_de_carregamento (ex_sem_nfe (PyStr em_transito) (Some 10)) = Some dc' \<and>
        dc' \<le> d_data m')"
proof -
  let ?t = "ex_sem_nfe (PyStr em_transito) (Some 11)"
  let ?t' = "ex_sem_nfe (PyStr em_transito) (Some 10)"
  let ?d = "ex_descarga None"
  have a: "mapa_placa [?d] (chave_busca_placa ?t) = Some (0, ?d)"
    by (simp add: mapa_placa_def to_dict_index_def descargas_com_indice_def
        ex_sem_nfe_def ex_transporte_def ex_descarga_def ex_chaves chave_busca_placa_def)
  have b: "data_de_carregamento ?t = Some 11 \<and> d_data ?d < 11"
    by (simp add: ex_sem_nfe_def ex_descarga_def)
  have c: "fonte_atualizacao (fst (cruzar_e_atualizar_transportes [?t'] [?d]) ! 0) = Etapa_2_Placa"
    by (simp add: run_cedo)
  have l: "(0::nat) < length [?t'] \<and> [?t'] ! 0 = ?t'" by simp
  from a b c l
    etapa2_data_minima [of "mapa_placa [?d]" ?t 0 ?d 11 "(contadores_zero, {})" 0 "[?t']" "[?d]"]
  show ?thesis by simp
qed

lemma run_dois:
  "cruzar_e_atualizar_transportes [ex_transporte (PyStr em_transito)]
     [ex_descarga None, ex_descarga (Some 12)] =
     ([(ex_transporte (PyStr em_transito))
         \<lparr>status := PyStr (lit ''DESCARREGADO''), data_chegada := Some 10,
          data_descarga := Some 12, fonte_atualizacao := Etapa_1_Chave_Primaria\<rparr>],
      Some (contadores_zero\<lparr>etapa1_transito_para_descarregado := 1\<rparr>), {1})"
  by (simp add: run_eval) (simp add: lit_def transito_def)

text \<open>
  C4, as the code has it. Take a shipment \<open>S\<close> of the input and an invoice \<open>I\<close> of
  the input whose document number, product and counterparty normalize to the same three
  strings, the primary keys built from them. Then the primary stage finds an invoice for
  \<open>S\<close>: the last invoice row of the input with the key of \<open>I\<close>, and the
  \<open>original_index\<close> of that last row is among the used indices the run returns.
  \<open>I\<close> itself is marked used when it is that last row.
\<close>

theorem etapa1_consome_ultimo:
  "S \<in> set ts \<and> I \<in> set ds
   \<and> chave_primaria S = montar_chave (nfe S) (produto S) (recebedor S)
   \<and> d_chave_primaria I = montar_chave nota prod_d fonte_padronizada
   \<and> normalizar_texto_para_chave (nfe S) = normalizar_texto_para_chave nota
   \<and> normalizar_texto_para_chave (produto S) = normalizar_texto_para_chave prod_d
   \<and> normalizar_texto_para_chave (recebedor S) = normalizar_texto_para_chave fonte_padronizada
   \<longrightarrow>
   (\<exists>oi m. mapa_chaves ds (chave_primaria S) = Some (oi, m)
      \<and> filter (\<lambda>r. d_chave_primaria (snd r) = d_chave_primaria I) (descargas_com_indice ds) \<noteq> []
      \<and> (oi, m) = last (filter (\<lambda>r. d_chave_primaria (snd r) = d_chave_primaria I)
                         (descargas_com_indice ds))
      \<and> oi < length ds \<and> ds ! oi = m \<and> d_chave_primaria m = d_chave_primaria I
      \<and> oi \<in> snd (snd (cruzar_e_atualizar_transportes ts ds)))"
proof
  assume h: "S \<in> set ts \<and> I \<in> set ds
   \<and> chave_primaria S = montar_chave (nfe S) (produto S) (recebedor S)
   \<and> d_chave_primaria I = montar_chave nota prod_d fonte_padronizada
   \<and> normalizar_texto_para_chave (nfe S) = normalizar_texto_para_chave nota
   \<and> normalizar_texto_para_chave (produto S) = normalizar_texto_para_chave prod_d
   \<and> normalizar_texto_para_chave (recebedor S) = normalizar_texto_para_chave fonte_padronizada"
  then have k: "chave_primaria S = d_chave_primaria I"
    by (simp add: montar_chave_def)
  from h have I: "I \<in> set ds" and S: "S \<in> set ts" by simp_all
  from I have ne: "ds \<noteq> []" by auto
  from mapa_chaves_hit [OF I] obtain oi m where
    m: "mapa_chaves ds (d_chave_primaria I) = Some (oi, m)" and
    f: "filter (\<lambda>r. d_chave_primaria (snd r) = d_chave_primaria I) (descargas_com_indice ds) \<noteq> []" and
    l: "(oi, m) = last (filter (\<lambda>r. d_chave_primaria (snd r) = d_chave_primaria I)
                         (descargas_com_indice ds))"
    by blast
  from m k have m': "mapa_chaves ds (chave_primaria S) = Some (oi, m)" by simp
  have d: "oi < length ds \<and> ds ! oi = m \<and> d_chave_primaria m = d_chave_primaria I"
    using mapa_chaves_Some_D [OF m] .
  have u: "oi \<in> snd (snd (cruzar_e_atualizar_transportes ts ds))"
    using S ne m' by (rule cruzar_usados)
  from m' f l d u show "\<exists>oi m. mapa_chaves ds (chave_primaria S) = Some (oi, m)
      \<and> filter (\<lambda>r. d_chave_primaria (snd r) = d_chave_primaria I) (descargas_com_indice ds) \<noteq> []
      \<and> (oi, m) = last (filter (\<lambda>r. d_chave_primaria (snd r) = d_chave_primaria I)
                         (descargas_com_indice ds))
      \<and> oi < length ds \<and> ds ! oi = m \<and> d_chave_primaria m = d_chave_primaria I
      \<and> oi \<in> snd (snd (cruzar_e_atualizar_transportes ts ds))"
    by blast
qed

theorem etapa1_consome_ultimo_witness:
  "ex_transporte (PyStr em_transito) \<in> set [ex_transporte (PyStr em_transito)]
   \<and> ex_descarga None \<in> set [ex_descarga None, ex_descarga (Some 12)]
   \<and> mapa_chaves [ex_descarga None, ex_descarga (Some 12)]
       (chave_primaria (ex_transporte (PyStr em_transito))) = Some (1, ex_descarga (Some 12))
   \<and> 1 \<in> snd (snd (cruzar_e_atualizar_transportes [ex_transporte (PyStr em_transito)]
        [ex_descarga None, ex_descarga (Some 12)]))"
proof -
  let ?S = "ex_transporte (PyStr em_transito)"
  let ?ds = "[ex_descarga None, ex_descarga (Some 12)]"
  have h: "?S \<in> set [?S] \<and> ex_descarga None \<in> set ?ds
   \<and> chave_primaria ?S = montar_chave (nfe ?S) (produto ?S) (recebedor ?S)
   \<and> d_chave_primaria (ex_descarga None) =
       montar_chave (PyStr (lit ''123'')) (PyStr (lit ''Hidratado '')) (PyStr (lit ''Aruja''))
   \<and> normalizar_texto_para_chave (nfe ?S) = normalizar_texto_para_chave (PyStr (lit ''123''))
   \<and> normalizar_texto_para_chave (produto ?S) = normalizar_texto_para_chave (PyStr (lit ''Hidratado ''))
   \<and> normalizar_texto_para_chave (recebedor ?S) = normalizar_texto_para_chave (PyStr (lit ''Aruja''))"
    by (simp add: ex_transporte_def ex_descarga_def normalizar_eval montar_chave_def)
  have l: "last (filter (\<lambda>r. d_chave_primaria (snd r) = d_chave_primaria (ex_descarga None))
             (descargas_com_indice ?ds)) = (1, ex_descarga (Some 12))"
    by (simp add: descargas_com_indice_def ex_descarga_def)
  from etapa1_consome_ultimo [of ?S "[?S]" "ex_descarga None" ?ds "PyStr (lit ''123'')"
      "PyStr (lit ''Hidratado '')" "PyStr (lit ''Aruja'')"] h
  obtain oi m where
    a: "mapa_chaves ?ds (chave_primaria ?S) = Some (oi, m)" and
    b: "(oi, m) = last (filter (\<lambda>r. d_chave_primaria (snd r) = d_chave_primaria (ex_descarga None))
             (descargas_com_indice ?ds))" and
    c: "oi \<in> snd (snd (cruzar_e_atualizar_transportes [?S] ?ds))"
    by blast
  from b l have "oi = 1" "m = ex_descarga (Some 12)" by simp_all
  with a c show ?thesis by simp
qed

text \<open>
  C4 as stated fails when a later invoice row has the key of \<open>I\<close>: with the invoice of
  the example at position 0 and a second invoice with the same key at position 1, the run
  over the shipment of the example uses index 1 only; index 0 is not marked used.
\<close>

theorem etapa1_consome_ultimo_counterexample:
  "normalizar_texto_para_chave (nfe (ex_transporte (PyStr em_transito))) =
     normalizar_texto_para_chave (PyStr (lit ''123''))
   \<and> normalizar_texto_para_chave (produto (ex_transporte (PyStr em_transito))) =
     normalizar_texto_para_chave (PyStr (lit ''Hidratado ''))
   \<and> normalizar_texto_para_chave (recebedor (ex_transporte (PyStr em_transito))) =
     normalizar_texto_para_chave (PyStr (lit ''Aruja''))
   \<and> chave_primaria (ex_transporte (PyStr em_transito)) = d_chave_primaria (ex_descarga None)
   \<and> [ex_descarga None, ex_descarga (Some 12)] ! 0 = ex_descarga None
   \<and> snd (snd (cruzar_e_atualizar_transportes [ex_transporte (PyStr em_transito)]
        [ex_descarga None, ex_descarga (Some 12)])) = {1}
   \<and> 0 \<notin> snd (snd (cruzar_e_atualizar_transportes [ex_transporte (PyStr em_transito)]
        [ex_descarga None, ex_descarga (Some 12)]))"
proof -
  let ?S = "ex_transporte (PyStr em_transito)"
  have a: "normalizar_texto_para_chave (nfe ?S) = normalizar_texto_para_chave (PyStr (lit ''123''))
     \<and> normalizar_texto_para_chave (produto ?S) =
         normalizar_texto_para_chave (PyStr (lit ''Hidratado ''))
     \<and> normalizar_texto_para_chave (recebedor ?S) =
         normalizar_texto_para_chave (PyStr (lit ''Aruja''))"
    by (simp add: ex_transporte_def normalizar_eval)
  have b: "chave_primaria ?S = d_chave_primaria (ex_descarga None)"
    by (simp add: ex_transporte_def ex_descarga_def ex_chaves)
  have c: "snd (snd (cruzar_e_atualizar_transportes [?S]
        [ex_descarga None, ex_descarga (Some 12)])) = {1}"
    by (simp add: run_dois)
  from a b c show ?thesis by simp
qed

text \<open>
  C1, as the code has it. The claim is about \<open>cruzar_e_atualizar_transportes\<close> of
  \<open>Drive_Sheets.py\<close>, where the index of the invoice frame is reset before the keys are
  built, so that \<open>original_index\<close> is the position of an invoice row. Both loops look a
  row up in a dict and never consult the used indices, so one invoice row can update
  several shipment rows. What a run guarantees is this. A shipment row that the run marks
  \<open>Etapa_1_Chave_Primaria\<close> took its arrival date from the invoice row that the
  dict of primary keys returns for its own primary key, that invoice row has this primary
  key, and its index is in the set of used indices. A shipment row that the run marks
  \<open>Etapa_2_Placa\<close> took its arrival date from the invoice row that the dict of plate
  keys returns for its own plate key, that invoice row has this plate key and is not
  earlier than the loading date, and its index is in the set of used indices. Every used
  index is the index some shipment row of the run finds with its primary key, or with its
  plate key under the date gate. The index a shipment row finds with its primary key is
  used, whether or not the row changes; so is the index a row finds with its plate key
  under the date gate, if the first stage left the row alone. Two rows marked by the
  first stage with different primary keys were updated from different invoice rows, and
  so were two rows marked by the second stage with different plate keys. Within a stage,
  two lookups that return the same index were made with the same key and return the same
  invoice row. The update loop of the Bsoft reconciliation does guard against reuse: in
  one run it writes an invoice number to one shipment at most, and never a number that
  was in \<open>nfs_ja_usadas\<close> when the loop began.
\<close>

theorem mesma_descarga_mesma_chave:
  "(i < length ts \<and>
       fonte_atualizacao (fst (cruzar_e_atualizar_transportes ts ds) ! i) = Etapa_1_Chave_Primaria \<longrightarrow>
      (\<exists>oi m. mapa_chaves ds (chave_primaria (ts ! i)) = Some (oi, m) \<and>
           oi < length ds \<and> ds ! oi = m \<and> d_chave_primaria m = chave_primaria (ts ! i) \<and>
           data_chegada (fst (cruzar_e_atualizar_transportes ts ds) ! i) = Some (d_data m) \<and>
           oi \<in> snd (snd (cruzar_e_atualizar_transportes ts ds))))
   \<and> (i < length ts \<and>
       fonte_atualizacao (fst (cruzar_e_atualizar_transportes ts ds) ! i) = Etapa_2_Placa \<longrightarrow>
      (\<exists>oi m dc. mapa_placa ds (chave_busca_placa (ts ! i)) = Some (oi, m) \<and>
           oi < length ds \<and> ds ! oi = m \<and>
           d_chave_placa_fonte_produto m = chave_busca_placa (ts ! i) \<and>
           data_de_carregamento (ts ! i) = Some dc \<and> dc \<le> d_data m \<and>
           data_chegada (fst (cruzar_e_atualizar_transportes ts ds) ! i) = Some (d_data m) \<and>
           oi \<in> snd (snd (cruzar_e_atualizar_transportes ts ds))))
   \<and> (oi \<in> snd (snd (cruzar_e_atualizar_transportes ts ds)) \<longrightarrow>
      (\<exists>t\<in>set ts. (\<exists>m. mapa_chaves ds (chave_primaria t) = Some (oi, m)) \<or>
           (\<exists>m dc. mapa_placa ds (chave_busca_placa t) = Some (oi, m) \<and>
              data_de_carregamento t = Some dc \<and> dc \<le> d_data m)))
   \<and> (i < length ts \<and> mapa_chaves ds (chave_primaria (ts ! i)) = Some (oi, m1) \<longrightarrow>
      oi \<in> snd (snd (cruzar_e_atualizar_transportes ts ds)))
   \<and> (i < length ts \<and>
       (case mapa_chaves ds (chave_primaria (ts ! i)) of None \<Rightarrow> True
        | Some (oi', m') \<Rightarrow> novo_status m' = status_original (ts ! i)) \<and>
       mapa_placa ds (chave_busca_placa (ts ! i)) = Some (oi, m1) \<and>
       data_de_carregamento (ts ! i) = Some dc \<and> dc \<le> d_data m1 \<longrightarrow>
      oi \<in> snd (snd (cruzar_e_atualizar_transportes ts ds)))
   \<and> (i < length ts \<and> j < length ts \<and>
       fonte_atualizacao (fst (cruzar_e_atualizar_transportes ts ds) ! i) = Etapa_1_Chave_Primaria \<and>
       fonte_atualizacao (fst (cruzar_e_atualizar_transportes ts ds) ! j) = Etapa_1_Chave_Primaria \<and>
       chave_primaria (ts ! i) \<noteq> chave_primaria (ts ! j) \<longrightarrow>
      (\<exists>oi oj mi mj. mapa_chaves ds (chave_primaria (ts ! i)) = Some (oi, mi) \<and>
           mapa_chaves ds (chave_primaria (ts ! j)) = Some (oj, mj) \<and> oi \<noteq> oj \<and>
           data_chegada (fst (cruzar_e_atualizar_transportes ts ds) ! i) = Some (d_data mi) \<and>
           data_chegada (fst (cruzar_e_atualizar_transportes ts ds) ! j) = Some (d_data mj)))
   \<and> (i < length ts \<and> j < length ts \<and>
       fonte_atualizacao (fst (cruzar_e_atualizar_transportes ts ds) ! i) = Etapa_2_Placa \<and>
       fonte_atualizacao (fst (cruzar_e_atualizar_transportes ts ds) ! j) = Etapa_2_Placa \<and>
       chave_busca_placa (ts ! i) \<noteq> chave_busca_placa (ts ! j) \<longrightarrow>
      (\<exists>oi oj mi mj. mapa_placa ds (chave_busca_placa (ts ! i)) = Some (oi, mi) \<and>
           mapa_placa ds (chave_busca_placa (ts ! j)) = Some (oj, mj) \<and> oi \<noteq> oj \<and>
           data_chegada (fst (cruzar_e_atualizar_transportes ts ds) ! i) = Some (d_data mi) \<and>
           data_chegada (fst (cruzar_e_atualizar_transportes ts ds) ! j) = Some (d_data mj)))
   \<and> (mapa_chaves ds (chave_primaria t1) = Some (oi, m1) \<and>
    mapa_chaves ds (chave_primaria t2) = Some (oi, m2) \<longrightarrow>
      chave_primaria t1 = chave_primaria t2 \<and> m1 = m2)
   \<and> (mapa_placa ds (chave_busca_placa t1) = Some (oi, m1) \<and>
       mapa_placa ds (chave_busca_placa t2) = Some (oi, m2) \<longrightarrow>
      chave_busca_placa t1 = chave_busca_placa t2 \<and> m1 = m2)
   \<and> (main_atualizacao bsoft_id rows (usadas, [], 0) = (usadas', chamadas, n) \<longrightarrow>
      distinct (map (\<lambda>c. u_nfe (c_updates c)) chamadas) \<and>
      (\<forall>c\<in>set chamadas. u_nfe (c_updates c) \<notin> usadas))"
proof -
  have a: "i < length ts \<and>
       fonte_atualizacao (fst (cruzar_e_atualizar_transportes ts ds) ! i) = Etapa_1_Chave_Primaria \<longrightarrow>
      (\<exists>oi m. mapa_chaves ds (chave_primaria (ts ! i)) = Some (oi, m) \<and>
           oi < length ds \<and> ds ! oi = m \<and> d_chave_primaria m = chave_primaria (ts ! i) \<and>
           data_chegada (fst (cruzar_e_atualizar_transportes ts ds) ! i) = Some (d_data m) \<and>
           oi \<in> snd (snd (cruzar_e_atualizar_transportes ts ds)))"
  proof
    assume "i < length ts \<and>
       fonte_atualizacao (fst (cruzar_e_atualizar_transportes ts ds) ! i) = Etapa_1_Chave_Primaria"
    then have i: "i < length ts"
      and f: "fonte_atualizacao (fst (cruzar_e_atualizar_transportes ts ds) ! i) = Etapa_1_Chave_Primaria"
      by simp_all
    show "(\<exists>oi m. mapa_chaves ds (chave_primaria (ts ! i)) = Some (oi, m) \<and>
           oi < length ds \<and> ds ! oi = m \<and> d_chave_primaria m = chave_primaria (ts ! i) \<and>
           data_chegada (fst (cruzar_e_atualizar_transportes ts ds) ! i) = Some (d_data m) \<and>
           oi \<in> snd (snd (cruzar_e_atualizar_transportes ts ds)))"
      by (rule run_marcada_etapa1 [OF i f])
  qed
  have b: "i < length ts \<and>
       fonte_atualizacao (fst (cruzar_e_atualizar_transportes ts ds) ! i) = Etapa_2_Placa \<longrightarrow>
      (\<exists>oi m dc. mapa_placa ds (chave_busca_placa (ts ! i)) = Some (oi, m) \<and>
           oi < length ds \<and> ds ! oi = m \<and>
           d_chave_placa_fonte_produto m = chave_busca_placa (ts ! i) \<and>
           data_de_carregamento (ts ! i) = Some dc \<and> dc \<le> d_data m \<and>
           data_chegada (fst (cruzar_e_atualizar_transportes ts ds) ! i) = Some (d_data m) \<and>
           oi \<in> snd (snd (cruzar_e_atualizar_transportes ts ds)))"
  proof
    assume "i < length ts \<and>
       fonte_atualizacao (fst (cruzar_e_atualizar_transportes ts ds) ! i) = Etapa_2_Placa"
    then have i: "i < length ts"
      and f: "fonte_atualizacao (fst (cruzar_e_atualizar_transportes ts ds) ! i) = Etapa_2_Placa"
      by simp_all
    show "(\<exists>oi m dc. mapa_placa ds (chave_busca_placa (ts ! i)) = Some (oi, m) \<and>
           oi < length ds \<and> ds ! oi = m \<and>
           d_chave_placa_fonte_produto m = chave_busca_placa (ts ! i) \<and>
           data_de_carregamento (ts ! i) = Some dc \<and> dc \<le> d_data m \<and>
           data_chegada (fst (cruzar_e_atualizar_transportes ts ds) ! i) = Some (d_data m) \<and>
           oi \<in> snd (snd (cruzar_e_atualizar_transportes ts ds)))"
      by (rule run_marcada_etapa2 [OF i f])
  qed
  have c: "oi \<in> snd (snd (cruzar_e_atualizar_transportes ts ds)) \<longrightarrow>
      (\<exists>t\<in>set ts. (\<exists>m. mapa_chaves ds (chave_primaria t) = Some (oi, m)) \<or>
           (\<exists>m dc. mapa_placa ds (chave_busca_placa t) = Some (oi, m) \<and>
              data_de_carregamento t = Some dc \<and> dc \<le> d_data m))"
  proof
    assume "oi \<in> snd (snd (cruzar_e_atualizar_transportes ts ds))"
    then show "(\<exists>t\<in>set ts. (\<exists>m. mapa_chaves ds (chave_primaria t) = Some (oi, m)) \<or>
           (\<exists>m dc. mapa_placa ds (chave_busca_placa t) = Some (oi, m) \<and>
              data_de_carregamento t = Some dc \<and> dc \<le> d_data m))"
      by (rule cruzar_origem)
  qed
  have d: "i < length ts \<and> mapa_chaves ds (chave_primaria (ts ! i)) = Some (oi, m1) \<longrightarrow>
      oi \<in> snd (snd (cruzar_e_atualizar_transportes ts ds))"
  proof
    assume "i < length ts \<and> mapa_chaves ds (chave_primaria (ts ! i)) = Some (oi, m1)"
    then have i: "i < length ts"
      and m: "mapa_chaves ds (chave_primaria (ts ! i)) = Some (oi, m1)"
      by simp_all
    have ne: "ds \<noteq> []" using m by (auto simp: mapa_chaves_Nil)
    have "ts ! i \<in> set ts" using i by simp
    then show "oi \<in> snd (snd (cruzar_e_atualizar_transportes ts ds))"
      using ne m by (rule cruzar_usados)
  qed
  have d2: "i < length ts \<and>
       (case mapa_chaves ds (chave_primaria (ts ! i)) of None \<Rightarrow> True
        | Some (oi', m') \<Rightarrow> novo_status m' = status_original (ts ! i)) \<and>
       mapa_placa ds (chave_busca_placa (ts ! i)) = Some (oi, m1) \<and>
       data_de_carregamento (ts ! i) = Some dc \<and> dc \<le> d_data m1 \<longrightarrow>
      oi \<in> snd (snd (cruzar_e_atualizar_transportes ts ds))"
  proof
    assume "i < length ts \<and>
       (case mapa_chaves ds (chave_primaria (ts ! i)) of None \<Rightarrow> True
        | Some (oi', m') \<Rightarrow> novo_status m' = status_original (ts ! i)) \<and>
       mapa_placa ds (chave_busca_placa (ts ! i)) = Some (oi, m1) \<and>
       data_de_carregamento (ts ! i) = Some dc \<and> dc \<le> d_data m1"
    then have i: "i < length ts"
      and s1: "case mapa_chaves ds (chave_primaria (ts ! i)) of None \<Rightarrow> True
        | Some (oi', m') \<Rightarrow> novo_status m' = status_original (ts ! i)"
      and m: "mapa_placa ds (chave_busca_placa (ts ! i)) = Some (oi, m1)"
      and c: "data_de_carregamento (ts ! i) = Some dc"
      and g: "dc \<le> d_data m1"
      by simp_all
    show "oi \<in> snd (snd (cruzar_e_atualizar_transportes ts ds))"
      by (rule cruzar_usados_etapa2 [OF i s1 m c g])
  qed
  have e: "i < length ts \<and> j < length ts \<and>
       fonte_atualizacao (fst (cruzar_e_atualizar_transportes ts ds) ! i) = Etapa_1_Chave_Primaria \<and>
       fonte_atualizacao (fst (cruzar_e_atualizar_transportes ts ds) ! j) = Etapa_1_Chave_Primaria \<and>
       chave_primaria (ts ! i) \<noteq> chave_primaria (ts ! j) \<longrightarrow>
      (\<exists>oi oj mi mj. mapa_chaves ds (chave_primaria (ts ! i)) = Some (oi, mi) \<and>
           mapa_chaves ds (chave_primaria (ts ! j)) = Some (oj, mj) \<and> oi \<noteq> oj \<and>
           data_chegada (fst (cruzar_e_atualizar_transportes ts ds) ! i) = Some (d_data mi) \<and>
           data_chegada (fst (cruzar_e_atualizar_transportes ts ds) ! j) = Some (d_data mj))"
  proof
    assume "i < length ts \<and> j < length ts \<and>
       fonte_atualizacao (fst (cruzar_e_atualizar_transportes ts ds) ! i) = Etapa_1_Chave_Primaria \<and>
       fonte_atualizacao (fst (cruzar_e_atualizar_transportes ts ds) ! j) = Etapa_1_Chave_Primaria \<and>
       chave_primaria (ts ! i) \<noteq> chave_primaria (ts ! j)"
    then have i: "i < length ts"
      and j: "j < length ts"
      and fi: "fonte_atualizacao (fst (cruzar_e_atualizar_transportes ts ds) ! i) = Etapa_1_Chave_Primaria"
      and fj: "fonte_atualizacao (fst (cruzar_e_atualizar_transportes ts ds) ! j) = Etapa_1_Chave_Primaria"
      and k: "chave_primaria (ts ! i) \<noteq> chave_primaria (ts ! j)"
      by simp_all
    show "(\<exists>oi oj mi mj. mapa_chaves ds (chave_primaria (ts ! i)) = Some (oi, mi) \<and>
           mapa_chaves ds (chave_primaria (ts ! j)) = Some (oj, mj) \<and> oi \<noteq> oj \<and>
           data_chegada (fst (cruzar_e_atualizar_transportes ts ds) ! i) = Some (d_data mi) \<and>
           data_chegada (fst (cruzar_e_atualizar_transportes ts ds) ! j) = Some (d_data mj))"
      by (rule run_chaves_diferentes_etapa1 [OF i j fi fj k])
  qed
  have f: "i < length ts \<and> j < length ts \<and>
       fonte_atualizacao (fst (cruzar_e_atualizar_transportes ts ds) ! i) = Etapa_2_Placa \<and>
       fonte_atualizacao (fst (cruzar_e_atualizar_transportes ts ds) ! j) = Etapa_2_Placa \<and>
       chave_busca_placa (ts ! i) \<noteq> chave_busca_placa (ts ! j) \<longrightarrow>
      (\<exists>oi oj mi mj. mapa_placa ds (chave_busca_placa (ts ! i)) = Some (oi, mi) \<and>
           mapa_placa ds (chave_busca_placa (ts ! j)) = Some (oj, mj) \<and> oi \<noteq> oj \<and>
           data_chegada (fst (cruzar_e_atualizar_transportes ts ds) ! i) = Some (d_data mi) \<and>
           data_chegada (fst (cruzar_e_atualizar_transportes ts ds) ! j) = Some (d_data mj))"
  proof
    assume "i < length ts \<and> j < length ts \<and>
       fonte_atualizacao (fst (cruzar_e_atualizar_transportes ts ds) ! i) = Etapa_2_Placa \<and>
       fonte_atualizacao (fst (cruzar_e_atualizar_transportes ts ds) ! j) = Etapa_2_Placa \<and>
       chave_busca_placa (ts ! i) \<noteq> chave_busca_placa (ts ! j)"
    then have i: "i < length ts"
      and j: "j < length ts"
      and fi: "fonte_atualizacao (fst (cruzar_e_atualizar_transportes ts ds) ! i) = Etapa_2_Placa"
      and fj: "fonte_atualizacao (fst (cruzar_e_atualizar_transportes ts ds) ! j) = Etapa_2_Placa"
      and k: "chave_busca_placa (ts ! i) \<noteq> chave_busca_placa (ts ! j)"
      by simp_all
    show "(\<exists>oi oj mi mj. mapa_placa ds (chave_busca_placa (ts ! i)) = Some (oi, mi) \<and>
           mapa_placa ds (chave_busca_placa (ts ! j)) = Some (oj, mj) \<and> oi \<noteq> oj \<and>
           data_chegada (fst (cruzar_e_atualizar_transportes ts ds) ! i) = Some (d_data mi) \<and>
           data_chegada (fst (cruzar_e_atualizar_transportes ts ds) ! j) = Some (d_data mj))"
      by (rule run_chaves_diferentes_etapa2 [OF i j fi fj k])
  qed
  have g: "mapa_chaves ds (chave_primaria t1) = Some (oi, m1) \<and>
    mapa_chaves ds (chave_primaria t2) = Some (oi, m2) \<longrightarrow>
      chave_primaria t1 = chave_primaria t2 \<and> m1 = m2"
  proof (intro impI)
    assume h: "mapa_chaves ds (chave_primaria t1) = Some (oi, m1) \<and>
    mapa_chaves ds (chave_primaria t2) = Some (oi, m2)"
    then have x: "ds ! oi = m1 \<and> d_chave_primaria m1 = chave_primaria t1"
      using mapa_chaves_Some_D [of ds "chave_primaria t1" oi m1] by simp
    from h have y: "ds ! oi = m2 \<and> d_chave_primaria m2 = chave_primaria t2"
      using mapa_chaves_Some_D [of ds "chave_primaria t2" oi m2] by simp
    from x y show "chave_primaria t1 = chave_primaria t2 \<and> m1 = m2" by auto
  qed
  have h: "mapa_placa ds (chave_busca_placa t1) = Some (oi, m1) \<and>
       mapa_placa ds (chave_busca_placa t2) = Some (oi, m2) \<longrightarrow>
      chave_busca_placa t1 = chave_busca_placa t2 \<and> m1 = m2"
  proof (intro impI)
    assume h: "mapa_placa ds (chave_busca_placa t1) = Some (oi, m1) \<and>
       mapa_placa ds (chave_busca_placa t2) = Some (oi, m2)"
    then have x: "ds ! oi = m1 \<and> d_chave_placa_fonte_produto m1 = chave_busca_placa t1"
      using mapa_placa_Some_D [of ds "chave_busca_placa t1" oi m1] by simp
    from h have y: "ds ! oi = m2 \<and> d_chave_placa_fonte_produto m2 = chave_busca_placa t2"
      using mapa_placa_Some_D [of ds "chave_busca_placa t2" oi m2] by simp
    from x y show "chave_busca_placa t1 = chave_busca_placa t2 \<and> m1 = m2" by auto
  qed
  have k: "main_atualizacao bsoft_id rows (usadas, [], 0) = (usadas', chamadas, n) \<longrightarrow>
      distinct (map (\<lambda>c. u_nfe (c_updates c)) chamadas) \<and>
      (\<forall>c\<in>set chamadas. u_nfe (c_updates c) \<notin> usadas)"
  proof (intro impI)
    assume h: "main_atualizacao bsoft_id rows (usadas, [], 0) = (usadas', chamadas, n)"
    from main_atualizacao_distinct [OF h]
    show "distinct (map (\<lambda>c. u_nfe (c_updates c)) chamadas) \<and>
      (\<forall>c\<in>set chamadas. u_nfe (c_updates c) \<notin> usadas)" by simp
  qed
  from a b c d d2 e f g h k show ?thesis by (intro conjI)
qed


theorem mesma_descarga_mesma_chave_witness:
  "mapa_chaves [ex_descarga (Some 12), ex_descarga_b None]
     (chave_primaria (ex_transporte (PyStr em_transito))) = Some (0, ex_descarga (Some 12))
   \<and> mapa_chaves [ex_descarga (Some 12), ex_descarga_b None]
     (chave_primaria (ex_transporte_b (PyStr em_transito))) = Some (1, ex_descarga_b None)
   \<and> chave_primaria (ex_transporte (PyStr em_transito)) \<noteq>
       chave_primaria (ex_transporte_b (PyStr em_transito))
   \<and> fonte_atualizacao (fst (cruzar_e_atualizar_transportes
         [ex_transporte (PyStr em_transito), ex_transporte_b (PyStr em_transito)]
         [ex_descarga (Some 12), ex_descarga_b None]) ! 0) = Etapa_1_Chave_Primaria
   \<and> fonte_atualizacao (fst (cruzar_e_atualizar_transportes
         [ex_transporte (PyStr em_transito), ex_transporte_b (PyStr em_transito)]
         [ex_descarga (Some 12), ex_descarga_b None]) ! 1) = Etapa_1_Chave_Primaria
   \<and> data_chegada (fst (cruzar_e_atualizar_transportes
         [ex_transporte (PyStr em_transito), ex_transporte_b (PyStr em_transito)]
         [ex_descarga (Some 12), ex_descarga_b None]) ! 0) = Some (d_data (ex_descarga (Some 12)))
   \<and> data_chegada (fst (cruzar_e_atualizar_transportes
         [ex_transporte (PyStr em_transito), ex_transporte_b (PyStr em_transito)]
         [ex_descarga (Some 12), ex_descarga_b None]) ! 1) = Some (d_data (ex_descarga_b None))
   \<and> 0 \<in> snd (snd (cruzar_e_atualizar_transportes
         [ex_transporte (PyStr em_transito), ex_transporte_b (PyStr em_transito)]
         [ex_descarga (Some 12), ex_descarga_b None]))
   \<and> (\<exists>t\<in>set [ex_transporte (PyStr em_transito), ex_transporte_b (PyStr em_transito)].
        (\<exists>m. mapa_chaves [ex_descarga (Some 12), ex_descarga_b None] (chave_primaria t) =
              Some (0, m)) \<or>
        (\<exists>m dc. mapa_placa [ex_descarga (Some 12), ex_descarga_b None] (chave_busca_placa t) =
              Some (0, m) \<and> data_de_carregamento t = Some dc \<and> dc \<le> d_data m))
   \<and> mapa_placa [ex_descarga (Some 12), ex_descarga_b None]
     (chave_busca_placa (ex_sem_nfe (PyStr em_transito) (Some 5))) = Some (0, ex_descarga (Some 12))
   \<and> mapa_placa [ex_descarga (Some 12), ex_descarga_b None]
     (chave_busca_placa (ex_sem_nfe_b (PyStr em_transito) (Some 5))) = Some (1, ex_descarga_b None)
   \<and> chave_busca_placa (ex_sem_nfe (PyStr em_transito) (Some 5)) \<noteq>
       chave_busca_placa (ex_sem_nfe_b (PyStr em_transito) (Some 5))
   \<and> fonte_atualizacao (fst (cruzar_e_atualizar_transportes
         [ex_sem_nfe (PyStr em_transito) (Some 5), ex_sem_nfe_b (PyStr em_transito) (Some 5)]
         [ex_descarga (Some 12), ex_descarga_b None]) ! 0) = Etapa_2_Placa
   \<and> fonte_atualizacao (fst (cruzar_e_atualizar_transportes
         [ex_sem_nfe (PyStr em_transito) (Some 5), ex_sem_nfe_b (PyStr em_transito) (Some 5)]
         [ex_descarga (Some 12), ex_descarga_b None]) ! 1) = Etapa_2_Placa
   \<and> data_chegada (fst (cruzar_e_atualizar_transportes
         [ex_sem_nfe (PyStr em_transito) (Some 5), ex_sem_nfe_b (PyStr em_transito) (Some 5)]
         [ex_descarga (Some 12), ex_descarga_b None]) ! 0) = Some (d_data (ex_descarga (Some 12)))
   \<and> data_chegada (fst (cruzar_e_atualizar_transportes
         [ex_sem_nfe (PyStr em_transito) (Some 5), ex_sem_nfe_b (PyStr em_transito) (Some 5)]
         [ex_descarga (Some 12), ex_descarga_b None]) ! 1) = Some (d_data (ex_descarga_b None))
   \<and> 0 \<in> snd (snd (cruzar_e_atualizar_transportes
         [ex_sem_nfe (PyStr em_transito) (Some 5), ex_sem_nfe_b (PyStr em_transito) (Some 5)]
         [ex_descarga (Some 12), ex_descarga_b None]))
   \<and> mapa_chaves [ex_descarga (Some 12), ex_descarga_b None]
        (chave_primaria (ex_transporte (PyStr (lit ''Aguardando Descarga'')))) =
       Some (0, ex_descarga (Some 12))
   \<and> chave_primaria (ex_transporte (PyStr em_transito)) =
       chave_primaria (ex_transporte (PyStr (lit ''Aguardando Descarga'')))
   \<and> mapa_placa [ex_descarga (Some 12), ex_descarga_b None]
        (chave_busca_placa (ex_transporte (PyStr em_transito))) = Some (0, ex_descarga (Some 12))
   \<and> chave_busca_placa (ex_transporte (PyStr em_transito)) =
       chave_busca_placa (ex_sem_nfe (PyStr em_transito) (Some 5))
   \<and> length (fst (snd (main_atualizacao (lit ''B0'') [ex_linha_match 2, ex_linha_match 3]
         ({}, [], 0)))) = 1
   \<and> distinct (map (\<lambda>c. u_nfe (c_updates c))
         (fst (snd (main_atualizacao (lit ''B0'') [ex_linha_match 2, ex_linha_match 3]
            ({}, [], 0)))))"
proof -
  let ?d = "ex_descarga (Some 12)"
  let ?e = "ex_descarga_b None"
  let ?ds = "[?d, ?e]"
  let ?r = "ex_transporte (PyStr em_transito)"
  let ?q = "ex_transporte_b (PyStr em_transito)"
  let ?a = "ex_transporte (PyStr (lit ''Aguardando Descarga''))"
  let ?s = "ex_sem_nfe (PyStr em_transito) (Some 5)"
  let ?v = "ex_sem_nfe_b (PyStr em_transito) (Some 5)"
  let ?o1 = "cruzar_e_atualizar_transportes [?r, ?q] ?ds"
  let ?o2 = "cruzar_e_atualizar_transportes [?s, ?v] ?ds"
  note mapas = mapa_chaves_def mapa_placa_def to_dict_index_def descargas_com_indice_def
    ex_transporte_def ex_transporte_b_def ex_sem_nfe_def ex_sem_nfe_b_def ex_descarga_def
    ex_descarga_b_def ex_chaves ex_chaves_b chave_busca_placa_def
  have k1: "mapa_chaves ?ds (chave_primaria ?r) = Some (0, ?d)"
    by (simp add: mapas; simp add: lit_def)
  have k2: "mapa_chaves ?ds (chave_primaria ?q) = Some (1, ?e)"
    by (simp add: mapas; simp add: lit_def)
  have k3: "mapa_chaves ?ds (chave_primaria ?a) = Some (0, ?d)"
    by (simp add: mapas; simp add: lit_def)
  have p0: "mapa_placa ?ds (chave_busca_placa ?r) = Some (0, ?d)"
    by (simp add: mapas; simp add: lit_def)
  have p1: "mapa_placa ?ds (chave_busca_placa ?s) = Some (0, ?d)"
    by (simp add: mapas; simp add: lit_def)
  have p2: "mapa_placa ?ds (chave_busca_placa ?v) = Some (1, ?e)"
    by (simp add: mapas; simp add: lit_def)
  have n1: "mapa_chaves ?ds (chave_primaria ?s) = None"
    by (simp add: mapas; simp add: lit_def)
  have n2: "mapa_chaves ?ds (chave_primaria ?v) = None"
    by (simp add: mapas; simp add: lit_def)
  have kd: "chave_primaria ?r \<noteq> chave_primaria ?q"
    by (simp add: ex_transporte_def ex_transporte_b_def ex_chaves ex_chaves_b; simp add: lit_def)
  have pd: "chave_busca_placa ?s \<noteq> chave_busca_placa ?v"
    by (simp add: ex_transporte_def ex_sem_nfe_def ex_sem_nfe_b_def ex_chaves ex_chaves_b
        chave_busca_placa_def; simp add: lit_def)
  have ke: "chave_primaria ?r = chave_primaria ?a" by (simp add: ex_transporte_def)
  have pe: "chave_busca_placa ?r = chave_busca_placa ?s"
    by (simp add: ex_transporte_def ex_sem_nfe_def chave_busca_placa_def)
  have tr: "py_in transito (status_original ?r) \<and> py_in transito (status_original ?q) \<and>
            py_in transito (status_original ?s) \<and> py_in transito (status_original ?v)"
    by (simp add: status_original_def ex_transporte_def ex_transporte_b_def ex_sem_nfe_def
        ex_sem_nfe_b_def so_values; simp add: lit_def transito_def)
  have ud: "d_data_de_descarga ?d = Some 12 \<and> d_data_de_descarga ?e = None \<and>
            d_data ?d = 10 \<and> d_data ?e = 20"
    by (simp add: ex_descarga_def ex_descarga_b_def)
  have dc: "data_de_carregamento ?s = Some 5 \<and> data_de_carregamento ?v = Some 5"
    by (simp add: ex_sem_nfe_def ex_sem_nfe_b_def)
  have f10: "fonte_atualizacao (fst ?o1 ! 0) = Etapa_1_Chave_Primaria"
    using run_status_etapa1 [of 0 "[?r, ?q]" ?ds 0 ?d 12, THEN conjunct2, THEN conjunct1] k1 tr ud
    by simp
  have f11: "fonte_atualizacao (fst ?o1 ! 1) = Etapa_1_Chave_Primaria"
    using run_status_etapa1 [of 1 "[?r, ?q]" ?ds 1 ?e 12, THEN conjunct1] k2 tr ud
    by simp
  have f20: "fonte_atualizacao (fst ?o2 ! 0) = Etapa_2_Placa"
    using run_status_etapa2 [of 0 "[?s, ?v]" ?ds 0 ?d 5 12, THEN conjunct2, THEN conjunct1]
      n1 p1 dc tr ud
    by simp
  have f21: "fonte_atualizacao (fst ?o2 ! 1) = Etapa_2_Placa"
    using run_status_etapa2 [of 1 "[?s, ?v]" ?ds 1 ?e 5 12, THEN conjunct1] n2 p2 dc tr ud
    by simp
  note T1 = mesma_descarga_mesma_chave [where i = 0 and j = 1 and ts = "[?r, ?q]"
      and ds = ?ds and oi = 0 and ?m1.0 = ?d and dc = 5 and ?t1.0 = ?r and ?t2.0 = ?a
      and ?m2.0 = ?d and bsoft_id = "lit ''B0''" and rows = "[ex_linha_match 2, ex_linha_match 3]"
      and usadas = "{}"
      and usadas' = "fst (main_atualizacao (lit ''B0'') [ex_linha_match 2, ex_linha_match 3]
            ({}, [], 0))"
      and chamadas = "fst (snd (main_atualizacao (lit ''B0'') [ex_linha_match 2, ex_linha_match 3]
            ({}, [], 0)))"
      and n = "snd (snd (main_atualizacao (lit ''B0'') [ex_linha_match 2, ex_linha_match 3]
            ({}, [], 0)))"]
  note T2 = mesma_descarga_mesma_chave [where i = 0 and j = 1 and ts = "[?s, ?v]"
      and ds = ?ds and oi = 0 and ?m1.0 = ?d and dc = 5 and ?t1.0 = ?r and ?t2.0 = ?s
      and ?m2.0 = ?d]
  have hA: "(0::nat) < length [?r, ?q] \<and>
       fonte_atualizacao (fst ?o1 ! 0) = Etapa_1_Chave_Primaria"
    using f10 by simp
  have hB: "(0::nat) < length [?s, ?v] \<and> fonte_atualizacao (fst ?o2 ! 0) = Etapa_2_Placa"
    using f20 by simp
  have hD: "(0::nat) < length [?r, ?q] \<and>
       mapa_chaves ?ds (chave_primaria ([?r, ?q] ! 0)) = Some (0, ?d)"
    using k1 by simp
  have hD2: "(0::nat) < length [?s, ?v] \<and>
       (case mapa_chaves ?ds (chave_primaria ([?s, ?v] ! 0)) of None \<Rightarrow> True
        | Some (oi', m') \<Rightarrow> novo_status m' = status_original ([?s, ?v] ! 0)) \<and>
       mapa_placa ?ds (chave_busca_placa ([?s, ?v] ! 0)) = Some (0, ?d) \<and>
       data_de_carregamento ([?s, ?v] ! 0) = Some 5 \<and> 5 \<le> d_data ?d"
    using n1 p1 dc ud by simp
  have hE: "(0::nat) < length [?r, ?q] \<and> (1::nat) < length [?r, ?q] \<and>
       fonte_atualizacao (fst ?o1 ! 0) = Etapa_1_Chave_Primaria \<and>
       fonte_atualizacao (fst ?o1 ! 1) = Etapa_1_Chave_Primaria \<and>
       chave_primaria ([?r, ?q] ! 0) \<noteq> chave_primaria ([?r, ?q] ! 1)"
    using f10 f11 kd by simp
  have hF: "(0::nat) < length [?s, ?v] \<and> (1::nat) < length [?s, ?v] \<and>
       fonte_atualizacao (fst ?o2 ! 0) = Etapa_2_Placa \<and>
       fonte_atualizacao (fst ?o2 ! 1) = Etapa_2_Placa \<and>
       chave_busca_placa ([?s, ?v] ! 0) \<noteq> chave_busca_placa ([?s, ?v] ! 1)"
    using f20 f21 pd by simp
  have hG: "mapa_chaves ?ds (chave_primaria ?r) = Some (0, ?d) \<and>
            mapa_chaves ?ds (chave_primaria ?a) = Some (0, ?d)"
    using k1 k3 by simp
  have hH: "mapa_placa ?ds (chave_busca_placa ?r) = Some (0, ?d) \<and>
            mapa_placa ?ds (chave_busca_placa ?s) = Some (0, ?d)"
    using p0 p1 by simp
  have hI: "main_atualizacao (lit ''B0'') [ex_linha_match 2, ex_linha_match 3] ({}, [], 0) =
      (fst (main_atualizacao (lit ''B0'') [ex_linha_match 2, ex_linha_match 3] ({}, [], 0)),
       fst (snd (main_atualizacao (lit ''B0'') [ex_linha_match 2, ex_linha_match 3] ({}, [], 0))),
       snd (snd (main_atualizacao (lit ''B0'') [ex_linha_match 2, ex_linha_match 3] ({}, [], 0))))"
    by simp
  note c2 = conjunct2
  note sA = T1 [THEN conjunct1, THEN mp, OF hA]
  note sB = T2 [THEN c2, THEN conjunct1, THEN mp, OF hB]
  note sD = T1 [THEN c2, THEN c2, THEN c2, THEN conjunct1, THEN mp, OF hD]
  note sC = T1 [THEN c2, THEN c2, THEN conjunct1, THEN mp, OF sD]
  note sD2 = T2 [THEN c2, THEN c2, THEN c2, THEN c2, THEN conjunct1, THEN mp, OF hD2]
  note sE = T1 [THEN c2, THEN c2, THEN c2, THEN c2, THEN c2, THEN conjunct1, THEN mp, OF hE]
  note sF = T2 [THEN c2, THEN c2, THEN c2, THEN c2, THEN c2, THEN c2, THEN conjunct1,
      THEN mp, OF hF]
  note sG = T1 [THEN c2, THEN c2, THEN c2, THEN c2, THEN c2, THEN c2, THEN c2, THEN conjunct1,
      THEN mp, OF hG]
  note sH = T2 [THEN c2, THEN c2, THEN c2, THEN c2, THEN c2, THEN c2, THEN c2, THEN c2,
      THEN conjunct1, THEN mp, OF hH]
  note sI = T1 [THEN c2, THEN c2, THEN c2, THEN c2, THEN c2, THEN c2, THEN c2, THEN c2, THEN c2,
      THEN mp, OF hI]
  have e10: "data_chegada (fst ?o1 ! 0) = Some (d_data ?d)"
    using sA k1 by auto
  have e11: "data_chegada (fst ?o1 ! 1) = Some (d_data ?e)"
    using sE k1 k2 by auto
  have e20: "data_chegada (fst ?o2 ! 0) = Some (d_data ?d)"
    using sB p1 by auto
  have e21: "data_chegada (fst ?o2 ! 1) = Some (d_data ?e)"
    using sF p1 p2 by auto
  have l: "length (fst (snd (main_atualizacao (lit ''B0'') [ex_linha_match 2, ex_linha_match 3]
         ({}, [], 0)))) = 1"
    unfolding run_bsoft by simp
  from k1 k2 kd f10 f11 e10 e11 sD sC p1 p2 pd f20 f21 e20 e21 sD2 k3 ke p0 pe l
    sI [THEN conjunct1]
  show ?thesis by (intro conjI)
qed

text \<open>
  C1 as stated fails. With one invoice row only, three different shipment rows are updated
  from it in one run: two rows with its primary key in the first stage, and a row without
  invoice number, through the plate key, in the second. The only index used is 0.
\<close>

theorem uma_descarga_tres_transportes_counterexample:
  "cruzar_e_atualizar_transportes
     [ex_transporte (PyStr em_transito), ex_transporte (PyStr (lit ''Aguardando Descarga'')),
      ex_sem_nfe (PyStr em_transito) (Some 5)]
     [ex_descarga (Some 12)] =
     ([(ex_transporte (PyStr em_transito))
         \<lparr>status := PyStr (lit ''DESCARREGADO''), data_chegada := Some 10,
          data_descarga := Some 12, fonte_atualizacao := Etapa_1_Chave_Primaria\<rparr>,
       (ex_transporte (PyStr (lit ''Aguardando Descarga'')))
         \<lparr>status := PyStr (lit ''DESCARREGADO''), data_chegada := Some 10,
          data_descarga := Some 12, fonte_atualizacao := Etapa_1_Chave_Primaria\<rparr>,
       (ex_sem_nfe (PyStr em_transito) (Some 5))
         \<lparr>status := PyStr (lit ''DESCARREGADO''), data_chegada := Some 10,
          data_descarga := Some 12, fonte_atualizacao := Etapa_2_Placa\<rparr>],
      Some (contadores_zero\<lparr>etapa1_transito_para_descarregado := 1,
              etapa1_aguardando_para_descarregado := 1,
              etapa2_transito_para_descarregado := 1\<rparr>), {0})
   \<and> length [ex_descarga (Some 12)] = 1
   \<and> ex_transporte (PyStr em_transito) \<noteq> ex_transporte (PyStr (lit ''Aguardando Descarga''))
   \<and> ex_transporte (PyStr em_transito) \<noteq> ex_sem_nfe (PyStr em_transito) (Some 5)"
proof -
  have "ex_transporte (PyStr em_transito) \<noteq> ex_transporte (PyStr (lit ''Aguardando Descarga''))"
    by (simp add: ex_transporte_def em_transito_def lit_def)
  moreover have "ex_transporte (PyStr em_transito) \<noteq> ex_sem_nfe (PyStr em_transito) (Some 5)"
    by (simp add: ex_transporte_def ex_sem_nfe_def lit_def)
  ultimately show ?thesis by (simp add: run_tres)
qed

text \<open>
  C3, as the code has it. For a shipment matched in either stage, with \<open>so\<close> the
  lower-cased status of the shipment: when \<open>so\<close> contains the word \<open>transito\<close> (spelt
  with U+00E2) and the invoice has no unload date, the status becomes
  \<open>AGUARDANDO DESCARGA\<close> and the arrival date is set from the invoice date; when \<open>so\<close>
  contains that word or \<open>aguardando\<close> and the invoice has an unload date, the status
  becomes \<open>DESCARREGADO\<close>, the unload date is copied and the arrival date is set from
  the invoice date; in every other case the status and the unload date of the shipment
  stay as they were. The first two conjuncts say this of the bodies of the two loops, the
  last three of the frame a run of \<open>cruzar_e_atualizar_transportes\<close> returns: for a row
  whose primary key is in the index; for a row that the first stage leaves alone (no
  invoice under its primary key, or one whose new status is the current status) and whose
  plate key is in the index with the date test passed; and for a row that neither stage
  takes, which comes back as it went in.
\<close>

theorem status_conforme_descarga:
  "(mapa (chave_primaria t) = Some (oi, m) \<longrightarrow>
      (py_in transito (status_original t) \<and> d_data_de_descarga m = None \<longrightarrow>
         fst (etapa1_linha mapa t st) =
           t\<lparr>data_chegada := Some (d_data m), fonte_atualizacao := Etapa_1_Chave_Primaria,
             status := PyStr (lit ''AGUARDANDO DESCARGA'')\<rparr>)
    \<and> ((py_in transito (status_original t) \<or> py_in (lit ''aguardando'') (status_original t)) \<and>
        d_data_de_descarga m = Some ud \<longrightarrow>
         fst (etapa1_linha mapa t st) =
           t\<lparr>data_chegada := Some (d_data m), fonte_atualizacao := Etapa_1_Chave_Primaria,
             status := PyStr (lit ''DESCARREGADO''), data_descarga := Some ud\<rparr>)
    \<and> (\<not> py_in transito (status_original t) \<and>
        (d_data_de_descarga m = None \<or> \<not> py_in (lit ''aguardando'') (status_original t)) \<longrightarrow>
         status (fst (etapa1_linha mapa t st)) = status t \<and>
         data_descarga (fst (etapa1_linha mapa t st)) = data_descarga t))
   \<and> (mapa (chave_busca_placa t) = Some (oi, m) \<and> data_de_carregamento t = Some dc \<and>
       dc \<le> d_data m \<longrightarrow>
      (py_in transito (status_original t) \<and> d_data_de_descarga m = None \<longrightarrow>
         fst (etapa2_linha mapa t st) =
           t\<lparr>data_chegada := Some (d_data m), fonte_atualizacao := Etapa_2_Placa,
             status := PyStr (lit ''AGUARDANDO DESCARGA'')\<rparr>)
    \<and> ((py_in transito (status_original t) \<or> py_in (lit ''aguardando'') (status_original t)) \<and>
        d_data_de_descarga m = Some ud \<longrightarrow>
         fst (etapa2_linha mapa t st) =
           t\<lparr>data_chegada := Some (d_data m), fonte_atualizacao := Etapa_2_Placa,
             status := PyStr (lit ''DESCARREGADO''), data_descarga := Some ud\<rparr>)
    \<and> (\<not> py_in transito (status_original t) \<and>
        (d_data_de_descarga m = None \<or> \<not> py_in (lit ''aguardando'') (status_original t)) \<longrightarrow>
         status (fst (etapa2_linha mapa t st)) = status t \<and>
         data_descarga (fst (etapa2_linha mapa t st)) = data_descarga t))
   \<and> (i < length ts \<and> mapa_chaves ds (chave_primaria (ts ! i)) = Some (oi, m) \<longrightarrow>
      (py_in transito (status_original (ts ! i)) \<and> d_data_de_descarga m = None \<longrightarrow>
       fst (cruzar_e_atualizar_transportes ts ds) ! i =
         (ts ! i)\<lparr>data_chegada := Some (d_data m), fonte_atualizacao := Etapa_1_Chave_Primaria,
                  status := PyStr (lit ''AGUARDANDO DESCARGA'')\<rparr>)
    \<and> ((py_in transito (status_original (ts ! i)) \<or>
         py_in (lit ''aguardando'') (status_original (ts ! i))) \<and>
        d_data_de_descarga m = Some ud \<longrightarrow>
       fst (cruzar_e_atualizar_transportes ts ds) ! i =
         (ts ! i)\<lparr>data_chegada := Some (d_data m), fonte_atualizacao := Etapa_1_Chave_Primaria,
                  status := PyStr (lit ''DESCARREGADO''), data_descarga := Some ud\<rparr>)
    \<and> (\<not> py_in transito (status_original (ts ! i)) \<and>
        (d_data_de_descarga m = None \<or> \<not> py_in (lit ''aguardando'') (status_original (ts ! i))) \<and>
        novo_status m \<noteq> status_original (ts ! i) \<longrightarrow>
       fst (cruzar_e_atualizar_transportes ts ds) ! i =
         (ts ! i)\<lparr>data_chegada := Some (d_data m),
                  fonte_atualizacao := Etapa_1_Chave_Primaria\<rparr>))
   \<and> (i < length ts \<and>
       (case mapa_chaves ds (chave_primaria (ts ! i)) of None \<Rightarrow> True
        | Some (oi', m') \<Rightarrow> novo_status m' = status_original (ts ! i)) \<and>
       mapa_placa ds (chave_busca_placa (ts ! i)) = Some (oi, m) \<and>
       data_de_carregamento (ts ! i) = Some dc \<and> dc \<le> d_data m \<longrightarrow>
      (py_in transito (status_original (ts ! i)) \<and> d_data_de_descarga m = None \<longrightarrow>
       fst (cruzar_e_atualizar_transportes ts ds) ! i =
         (ts ! i)\<lparr>data_chegada := Some (d_data m), fonte_atualizacao := Etapa_2_Placa,
                  status := PyStr (lit ''AGUARDANDO DESCARGA'')\<rparr>)
    \<and> ((py_in transito (status_original (ts ! i)) \<or>
         py_in (lit ''aguardando'') (status_original (ts ! i))) \<and>
        d_data_de_descarga m = Some ud \<longrightarrow>
       fst (cruzar_e_atualizar_transportes ts ds) ! i =
         (ts ! i)\<lparr>data_chegada := Some (d_data m), fonte_atualizacao := Etapa_2_Placa,
                  status := PyStr (lit ''DESCARREGADO''), data_descarga := Some ud\<rparr>)
    \<and> (\<not> py_in transito (status_original (ts ! i)) \<and>
        (d_data_de_descarga m = None \<or> \<not> py_in (lit ''aguardando'') (status_original (ts ! i))) \<and>
        novo_status m \<noteq> status_original (ts ! i) \<longrightarrow>
       fst (cruzar_e_atualizar_transportes ts ds) ! i =
         (ts ! i)\<lparr>data_chegada := Some (d_data m), fonte_atualizacao := Etapa_2_Placa\<rparr>))
   \<and> (i < length ts \<and>
       (case mapa_chaves ds (chave_primaria (ts ! i)) of None \<Rightarrow> True
        | Some (oi', m') \<Rightarrow> novo_status m' = status_original (ts ! i)) \<and>
       (case mapa_placa ds (chave_busca_placa (ts ! i)) of None \<Rightarrow> True
        | Some (oi', m') \<Rightarrow>
            (case data_de_carregamento (ts ! i) of None \<Rightarrow> True
             | Some dc' \<Rightarrow> d_data m' < dc') \<or>
            novo_status m' = status_original (ts ! i)) \<longrightarrow>
      fst (cruzar_e_atualizar_transportes ts ds) ! i =
         (ts ! i)\<lparr>fonte_atualizacao := Nao_Atualizado\<rparr>)"
proof -
  note b = status_conforme_descarga_corpo [of mapa t oi m st ud dc]
  have r1: "i < length ts \<and> mapa_chaves ds (chave_primaria (ts ! i)) = Some (oi, m) \<longrightarrow>
      (py_in transito (status_original (ts ! i)) \<and> d_data_de_descarga m = None \<longrightarrow>
       fst (cruzar_e_atualizar_transportes ts ds) ! i =
         (ts ! i)\<lparr>data_chegada := Some (d_data m), fonte_atualizacao := Etapa_1_Chave_Primaria,
                  status := PyStr (lit ''AGUARDANDO DESCARGA'')\<rparr>)
    \<and> ((py_in transito (status_original (ts ! i)) \<or>
         py_in (lit ''aguardando'') (status_original (ts ! i))) \<and>
        d_data_de_descarga m = Some ud \<longrightarrow>
       fst (cruzar_e_atualizar_transportes ts ds) ! i =
         (ts ! i)\<lparr>data_chegada := Some (d_data m), fonte_atualizacao := Etapa_1_Chave_Primaria,
                  status := PyStr (lit ''DESCARREGADO''), data_descarga := Some ud\<rparr>)
    \<and> (\<not> py_in transito (status_original (ts ! i)) \<and>
        (d_data_de_descarga m = None \<or> \<not> py_in (lit ''aguardando'') (status_original (ts ! i))) \<and>
        novo_status m \<noteq> status_original (ts ! i) \<longrightarrow>
       fst (cruzar_e_atualizar_transportes ts ds) ! i =
         (ts ! i)\<lparr>data_chegada := Some (d_data m),
                  fonte_atualizacao := Etapa_1_Chave_Primaria\<rparr>)"
  proof
    assume "i < length ts \<and> mapa_chaves ds (chave_primaria (ts ! i)) = Some (oi, m)"
    then have i: "i < length ts"
      and m: "mapa_chaves ds (chave_primaria (ts ! i)) = Some (oi, m)"
      by simp_all
    show "(py_in transito (status_original (ts ! i)) \<and> d_data_de_descarga m = None \<longrightarrow>
       fst (cruzar_e_atualizar_transportes ts ds) ! i =
         (ts ! i)\<lparr>data_chegada := Some (d_data m), fonte_atualizacao := Etapa_1_Chave_Primaria,
                  status := PyStr (lit ''AGUARDANDO DESCARGA'')\<rparr>)
    \<and> ((py_in transito (status_original (ts ! i)) \<or>
         py_in (lit ''aguardando'') (status_original (ts ! i))) \<and>
        d_data_de_descarga m = Some ud \<longrightarrow>
       fst (cruzar_e_atualizar_transportes ts ds) ! i =
         (ts ! i)\<lparr>data_chegada := Some (d_data m), fonte_atualizacao := Etapa_1_Chave_Primaria,
                  status := PyStr (lit ''DESCARREGADO''), data_descarga := Some ud\<rparr>)
    \<and> (\<not> py_in transito (status_original (ts ! i)) \<and>
        (d_data_de_descarga m = None \<or> \<not> py_in (lit ''aguardando'') (status_original (ts ! i))) \<and>
        novo_status m \<noteq> status_original (ts ! i) \<longrightarrow>
       fst (cruzar_e_atualizar_transportes ts ds) ! i =
         (ts ! i)\<lparr>data_chegada := Some (d_data m),
                  fonte_atualizacao := Etapa_1_Chave_Primaria\<rparr>)"
      by (rule run_status_etapa1 [OF i m])
  qed
  have r2: "i < length ts \<and>
       (case mapa_chaves ds (chave_primaria (ts ! i)) of None \<Rightarrow> True
        | Some (oi', m') \<Rightarrow> novo_status m' = status_original (ts ! i)) \<and>
       mapa_placa ds (chave_busca_placa (ts ! i)) = Some (oi, m) \<and>
       data_de_carregamento (ts ! i) = Some dc \<and> dc \<le> d_data m \<longrightarrow>
      (py_in transito (status_original (ts ! i)) \<and> d_data_de_descarga m = None \<longrightarrow>
       fst (cruzar_e_atualizar_transportes ts ds) ! i =
         (ts ! i)\<lparr>data_chegada := Some (d_data m), fonte_atualizacao := Etapa_2_Placa,
                  status := PyStr (lit ''AGUARDANDO DESCARGA'')\<rparr>)
    \<and> ((py_in transito (status_original (ts ! i)) \<or>
         py_in (lit ''aguardando'') (status_original (ts ! i))) \<and>
        d_data_de_descarga m = Some ud \<longrightarrow>
       fst (cruzar_e_atualizar_transportes ts ds) ! i =
         (ts ! i)\<lparr>data_chegada := Some (d_data m), fonte_atualizacao := Etapa_2_Placa,
                  status := PyStr (lit ''DESCARREGADO''), data_descarga := Some ud\<rparr>)
    \<and> (\<not> py_in transito (status_original (ts ! i)) \<and>
        (d_data_de_descarga m = None \<or> \<not> py_in (lit ''aguardando'') (status_original (ts ! i))) \<and>
        novo_status m \<noteq> status_original (ts ! i) \<longrightarrow>
       fst (cruzar_e_atualizar_transportes ts ds) ! i =
         (ts ! i)\<lparr>data_chegada := Some (d_data m), fonte_atualizacao := Etapa_2_Placa\<rparr>)"
  proof
    assume "i < length ts \<and>
       (case mapa_chaves ds (chave_primaria (ts ! i)) of None \<Rightarrow> True
        | Some (oi', m') \<Rightarrow> novo_status m' = status_original (ts ! i)) \<and>
       mapa_placa ds (chave_busca_placa (ts ! i)) = Some (oi, m) \<and>
       data_de_carregamento (ts ! i) = Some dc \<and> dc \<le> d_data m"
    then have i: "i < length ts"
      and c: "case mapa_chaves ds (chave_primaria (ts ! i)) of None \<Rightarrow> True
        | Some (oi', m') \<Rightarrow> novo_status m' = status_original (ts ! i)"
      and m: "mapa_placa ds (chave_busca_placa (ts ! i)) = Some (oi, m)"
      and d: "data_de_carregamento (ts ! i) = Some dc" and g: "dc \<le> d_data m"
      by simp_all
    show "(py_in transito (status_original (ts ! i)) \<and> d_data_de_descarga m = None \<longrightarrow>
       fst (cruzar_e_atualizar_transportes ts ds) ! i =
         (ts ! i)\<lparr>data_chegada := Some (d_data m), fonte_atualizacao := Etapa_2_Placa,
                  status := PyStr (lit ''AGUARDANDO DESCARGA'')\<rparr>)
    \<and> ((py_in transito (status_original (ts ! i)) \<or>
         py_in (lit ''aguardando'') (status_original (ts ! i))) \<and>
        d_data_de_descarga m = Some ud \<longrightarrow>
       fst (cruzar_e_atualizar_transportes ts ds) ! i =
         (ts ! i)\<lparr>data_chegada := Some (d_data m), fonte_atualizacao := Etapa_2_Placa,
                  status := PyStr (lit ''DESCARREGADO''), data_descarga := Some ud\<rparr>)
    \<and> (\<not> py_in transito (status_original (ts ! i)) \<and>
        (d_data_de_descarga m = None \<or> \<not> py_in (lit ''aguardando'') (status_original (ts ! i))) \<and>
        novo_status m \<noteq> status_original (ts ! i) \<longrightarrow>
       fst (cruzar_e_atualizar_transportes ts ds) ! i =
         (ts ! i)\<lparr>data_chegada := Some (d_data m), fonte_atualizacao := Etapa_2_Placa\<rparr>)"
      by (rule run_status_etapa2 [OF i c m d g])
  qed
  have r3: "i < length ts \<and>
       (case mapa_chaves ds (chave_primaria (ts ! i)) of None \<Rightarrow> True
        | Some (oi', m') \<Rightarrow> novo_status m' = status_original (ts ! i)) \<and>
       (case mapa_placa ds (chave_busca_placa (ts ! i)) of None \<Rightarrow> True
        | Some (oi', m') \<Rightarrow>
            (case data_de_carregamento (ts ! i) of None \<Rightarrow> True
             | Some dc' \<Rightarrow> d_data m' < dc') \<or>
            novo_status m' = status_original (ts ! i)) \<longrightarrow>
      fst (cruzar_e_atualizar_transportes ts ds) ! i =
         (ts ! i)\<lparr>fonte_atualizacao := Nao_Atualizado\<rparr>"
  proof
    assume "i < length ts \<and>
       (case mapa_chaves ds (chave_primaria (ts ! i)) of None \<Rightarrow> True
        | Some (oi', m') \<Rightarrow> novo_status m' = status_original (ts ! i)) \<and>
       (case mapa_placa ds (chave_busca_placa (ts ! i)) of None \<Rightarrow> True
        | Some (oi', m') \<Rightarrow>
            (case data_de_carregamento (ts ! i) of None \<Rightarrow> True
             | Some dc' \<Rightarrow> d_data m' < dc') \<or>
            novo_status m' = status_original (ts ! i))"
    then have i: "i < length ts"
      and c: "case mapa_chaves ds (chave_primaria (ts ! i)) of None \<Rightarrow> True
        | Some (oi', m') \<Rightarrow> novo_status m' = status_original (ts ! i)"
      and n: "case mapa_placa ds (chave_busca_placa (ts ! i)) of None \<Rightarrow> True
        | Some (oi', m') \<Rightarrow>
            (case data_de_carregamento (ts ! i) of None \<Rightarrow> True
             | Some dc' \<Rightarrow> d_data m' < dc') \<or>
            novo_status m' = status_original (ts ! i)"
      by simp_all
    show "fst (cruzar_e_atualizar_transportes ts ds) ! i =
         (ts ! i)\<lparr>fonte_atualizacao := Nao_Atualizado\<rparr>"
      by (rule run_sem_match [OF i c n])
  qed
  from b [THEN conjunct1] b [THEN conjunct2] r1 r2 r3 show ?thesis by (intro conjI)
qed

theorem status_conforme_descarga_witness:
  "mapa_chaves [ex_descarga None] (chave_primaria (ex_transporte (PyStr em_transito))) =
     Some (0, ex_descarga None)
   \<and> py_in transito (status_original (ex_transporte (PyStr em_transito)))
   \<and> d_data_de_descarga (ex_descarga None) = None
   \<and> fst (etapa1_linha (mapa_chaves [ex_descarga None]) (ex_transporte (PyStr em_transito))
        (contadores_zero, {})) =
       (ex_transporte (PyStr em_transito))
         \<lparr>data_chegada := Some (d_data (ex_descarga None)),
          fonte_atualizacao := Etapa_1_Chave_Primaria,
          status := PyStr (lit ''AGUARDANDO DESCARGA'')\<rparr>
   \<and> fst (cruzar_e_atualizar_transportes [ex_transporte (PyStr em_transito)]
        [ex_descarga None]) ! 0 =
       (ex_transporte (PyStr em_transito))
         \<lparr>data_chegada := Some (d_data (ex_descarga None)),
          fonte_atualizacao := Etapa_1_Chave_Primaria,
          status := PyStr (lit ''AGUARDANDO DESCARGA'')\<rparr>
   \<and> mapa_chaves [ex_descarga (Some 12)]
        (chave_primaria (ex_sem_nfe (PyStr em_transito) (Some 5))) = None
   \<and> mapa_placa [ex_descarga (Some 12)]
        (chave_busca_placa (ex_sem_nfe (PyStr em_transito) (Some 5))) =
       Some (0, ex_descarga (Some 12))
   \<and> data_de_carregamento (ex_sem_nfe (PyStr em_transito) (Some 5)) = Some 5
   \<and> 5 \<le> d_data (ex_descarga (Some 12))
   \<and> py_in transito (status_original (ex_sem_nfe (PyStr em_transito) (Some 5)))
   \<and> d_data_de_descarga (ex_descarga (Some 12)) = Some 12
   \<and> fst (etapa2_linha (mapa_placa [ex_descarga (Some 12)])
        (ex_sem_nfe (PyStr em_transito) (Some 5)) (contadores_zero, {})) =
       (ex_sem_nfe (PyStr em_transito) (Some 5))
         \<lparr>data_chegada := Some (d_data (ex_descarga (Some 12))),
          fonte_atualizacao := Etapa_2_Placa,
          status := PyStr (lit ''DESCARREGADO''), data_descarga := Some 12\<rparr>
   \<and> fst (cruzar_e_atualizar_transportes [ex_sem_nfe (PyStr em_transito) (Some 5)]
        [ex_descarga (Some 12)]) ! 0 =
       (ex_sem_nfe (PyStr em_transito) (Some 5))
         \<lparr>data_chegada := Some (d_data (ex_descarga (Some 12))),
          fonte_atualizacao := Etapa_2_Placa,
          status := PyStr (lit ''DESCARREGADO''), data_descarga := Some 12\<rparr>
   \<and> mapa_placa [ex_descarga None]
        (chave_busca_placa (ex_sem_nfe (PyStr em_transito) None)) = Some (0, ex_descarga None)
   \<and> data_de_carregamento (ex_sem_nfe (PyStr em_transito) None) = None
   \<and> fst (cruzar_e_atualizar_transportes [ex_sem_nfe (PyStr em_transito) None]
        [ex_descarga None]) ! 0 = ex_sem_nfe (PyStr em_transito) None"
proof -
  let ?r = "ex_transporte (PyStr em_transito)"
  let ?s = "ex_sem_nfe (PyStr em_transito) (Some 5)"
  let ?n = "ex_sem_nfe (PyStr em_transito) None"
  let ?d = "ex_descarga None"
  let ?e = "ex_descarga (Some 12)"
  let ?z = "(contadores_zero, {}) :: contadores \<times> nat set"
  have a: "mapa_chaves [?d] (chave_primaria ?r) = Some (0, ?d)"
    by (simp add: mapa_chaves_def to_dict_index_def descargas_com_indice_def
        ex_transporte_def ex_descarga_def ex_chaves)
  have p: "py_in transito (status_original ?r)"
    by (simp add: status_original_def ex_transporte_def so_values) (simp add: lit_def transito_def)
  have u: "d_data_de_descarga ?d = None \<and> d_data_de_descarga ?e = Some 12 \<and> 5 \<le> d_data ?e"
    by (simp add: ex_descarga_def)
  have a': "mapa_chaves [?e] (chave_primaria ?s) = None"
    by (simp add: mapa_chaves_def to_dict_index_def descargas_com_indice_def
        ex_sem_nfe_def ex_transporte_def ex_descarga_def ex_chaves; simp add: lit_def)
  have b': "mapa_placa [?e] (chave_busca_placa ?s) = Some (0, ?e)"
    by (simp add: mapa_placa_def to_dict_index_def descargas_com_indice_def
        ex_sem_nfe_def ex_transporte_def ex_descarga_def ex_chaves chave_busca_placa_def)
  have p': "py_in transito (status_original ?s)"
    by (simp add: status_original_def ex_sem_nfe_def ex_transporte_def so_values)
       (simp add: lit_def transito_def)
  have d': "data_de_carregamento ?s = Some 5" by (simp add: ex_sem_nfe_def)
  have a'': "mapa_chaves [?d] (chave_primaria ?n) = None"
    by (simp add: mapa_chaves_def to_dict_index_def descargas_com_indice_def
        ex_sem_nfe_def ex_transporte_def ex_descarga_def ex_chaves; simp add: lit_def)
  have b'': "mapa_placa [?d] (chave_busca_placa ?n) = Some (0, ?d)"
    by (simp add: mapa_placa_def to_dict_index_def descargas_com_indice_def
        ex_sem_nfe_def ex_transporte_def ex_descarga_def ex_chaves chave_busca_placa_def)
  have d'': "data_de_carregamento ?n = None" by (simp add: ex_sem_nfe_def)
  note T1 = status_conforme_descarga [where mapa = "mapa_chaves [?d]" and t = ?r and oi = 0
      and m = ?d and st = ?z and ud = 12 and dc = 5 and i = 0 and ts = "[?r]" and ds = "[?d]"]
  note T2 = status_conforme_descarga [where mapa = "mapa_placa [?e]" and t = ?s and oi = 0
      and m = ?e and st = ?z and ud = 12 and dc = 5 and i = 0 and ts = "[?s]" and ds = "[?e]"]
  note T3 = status_conforme_descarga [where mapa = "mapa_placa [?d]" and t = ?n and oi = 0
      and m = ?d and st = ?z and ud = 12 and dc = 5 and i = 0 and ts = "[?n]" and ds = "[?d]"]
  have h1: "py_in transito (status_original ?r) \<and> d_data_de_descarga ?d = None"
    using p u by simp
  have h2: "mapa_placa [?e] (chave_busca_placa ?s) = Some (0, ?e) \<and>
            data_de_carregamento ?s = Some 5 \<and> 5 \<le> d_data ?e"
    using b' d' u by simp
  have h2': "(py_in transito (status_original ?s) \<or>
              py_in (lit ''aguardando'') (status_original ?s)) \<and>
             d_data_de_descarga ?e = Some 12"
    using p' u by simp
  have h3: "(0::nat) < length [?r] \<and>
            mapa_chaves [?d] (chave_primaria ([?r] ! 0)) = Some (0, ?d)"
    using a by simp
  have h3': "py_in transito (status_original ([?r] ! 0)) \<and> d_data_de_descarga ?d = None"
    using p u by simp
  have h4: "(0::nat) < length [?s] \<and>
       (case mapa_chaves [?e] (chave_primaria ([?s] ! 0)) of None \<Rightarrow> True
        | Some (oi', m') \<Rightarrow> novo_status m' = status_original ([?s] ! 0)) \<and>
       mapa_placa [?e] (chave_busca_placa ([?s] ! 0)) = Some (0, ?e) \<and>
       data_de_carregamento ([?s] ! 0) = Some 5 \<and> 5 \<le> d_data ?e"
    using a' b' d' u by simp
  have h4': "(py_in transito (status_original ([?s] ! 0)) \<or>
              py_in (lit ''aguardando'') (status_original ([?s] ! 0))) \<and>
             d_data_de_descarga ?e = Some 12"
    using p' u by simp
  have h5: "(0::nat) < length [?n] \<and>
       (case mapa_chaves [?d] (chave_primaria ([?n] ! 0)) of None \<Rightarrow> True
        | Some (oi', m') \<Rightarrow> novo_status m' = status_original ([?n] ! 0)) \<and>
       (case mapa_placa [?d] (chave_busca_placa ([?n] ! 0)) of None \<Rightarrow> True
        | Some (oi', m') \<Rightarrow>
            (case data_de_carregamento ([?n] ! 0) of None \<Rightarrow> True
             | Some dc' \<Rightarrow> d_data m' < dc') \<or>
            novo_status m' = status_original ([?n] ! 0))"
    using a'' b'' d'' by simp
  note s1 = T1 [THEN conjunct1, THEN mp, OF a, THEN conjunct1, THEN mp, OF h1]
  note s2 = T2 [THEN conjunct2, THEN conjunct1, THEN mp, OF h2,
      THEN conjunct2, THEN conjunct1, THEN mp, OF h2']
  note s3 = T1 [THEN conjunct2, THEN conjunct2, THEN conjunct1, THEN mp, OF h3,
      THEN conjunct1, THEN mp, OF h3']
  note s4 = T2 [THEN conjunct2, THEN conjunct2, THEN conjunct2, THEN conjunct1, THEN mp, OF h4,
      THEN conjunct2, THEN conjunct1, THEN mp, OF h4']
  note s5 = T3 [THEN conjunct2, THEN conjunct2, THEN conjunct2, THEN conjunct2, THEN mp, OF h5]
  have e3: "fst (cruzar_e_atualizar_transportes [?r] [?d]) ! 0 =
       ?r\<lparr>data_chegada := Some (d_data ?d), fonte_atualizacao := Etapa_1_Chave_Primaria,
          status := PyStr (lit ''AGUARDANDO DESCARGA'')\<rparr>"
    using s3 by simp
  have e4: "fst (cruzar_e_atualizar_transportes [?s] [?e]) ! 0 =
       ?s\<lparr>data_chegada := Some (d_data ?e), fonte_atualizacao := Etapa_2_Placa,
          status := PyStr (lit ''DESCARREGADO''), data_descarga := Some 12\<rparr>"
    using s4 by simp
  have e5: "fst (cruzar_e_atualizar_transportes [?n] [?d]) ! 0 = ?n"
    using s5 by (simp add: ex_reset)
  from a p u a' b' d' p' b'' d'' s1 s2 e3 e4 e5 show ?thesis by (intro conjI) simp_all
qed

lemma passo1_programado_sem_descarga:
  "etapa1_linha (mapa_chaves [ex_descarga None]) (ex_transporte (PyStr (lit ''Programado''))) (c, u) =
     ((ex_transporte (PyStr (lit ''Programado'')))
         \<lparr>data_chegada := Some 10, fonte_atualizacao := Etapa_1_Chave_Primaria\<rparr>,
      c, insert 0 u)"
  by (simp add: run_eval; simp add: lit_def transito_def)

lemma passo1_programado_com_descarga:
  "etapa1_linha (mapa_chaves [ex_descarga (Some 12)]) (ex_transporte (PyStr (lit ''Programado'')))
     (c, u) =
     ((ex_transporte (PyStr (lit ''Programado'')))
         \<lparr>data_chegada := Some 10, fonte_atualizacao := Etapa_1_Chave_Primaria\<rparr>,
      c, insert 0 u)"
  by (simp add: run_eval; simp add: lit_def transito_def)

lemma passo1_by_pass_sem_descarga:
  "etapa1_linha (mapa_chaves [ex_descarga None])
     (ex_transporte (PyStr (lit ''Aguardando By Pass''))) (c, u) =
     ((ex_transporte (PyStr (lit ''Aguardando By Pass'')))
         \<lparr>data_chegada := Some 10, fonte_atualizacao := Etapa_1_Chave_Primaria\<rparr>,
      c, insert 0 u)"
  by (simp add: run_eval; simp add: lit_def transito_def)

lemma run_programado_sem_descarga:
  "cruzar_e_atualizar_transportes [ex_transporte (PyStr (lit ''Programado''))] [ex_descarga None] =
     ([(ex_transporte (PyStr (lit ''Programado'')))
         \<lparr>data_chegada := Some 10, fonte_atualizacao := Etapa_1_Chave_Primaria\<rparr>],
      Some contadores_zero, {0})"
  by (simp add: cruzar_e_atualizar_transportes_def ex_reset passo1_programado_sem_descarga)

lemma run_programado_com_descarga:
  "cruzar_e_atualizar_transportes [ex_transporte (PyStr (lit ''Programado''))]
     [ex_descarga (Some 12)] =
     ([(ex_transporte (PyStr (lit ''Programado'')))
         \<lparr>data_chegada := Some 10, fonte_atualizacao := Etapa_1_Chave_Primaria\<rparr>],
      Some contadores_zero, {0})"
  by (simp add: cruzar_e_atualizar_transportes_def ex_reset passo1_programado_com_descarga)

lemma run_by_pass_sem_descarga:
  "cruzar_e_atualizar_transportes [ex_transporte (PyStr (lit ''Aguardando By Pass''))]
     [ex_descarga None] =
     ([(ex_transporte (PyStr (lit ''Aguardando By Pass'')))
         \<lparr>data_chegada := Some 10, fonte_atualizacao := Etapa_1_Chave_Primaria\<rparr>],
      Some contadores_zero, {0})"
  by (simp add: cruzar_e_atualizar_transportes_def ex_reset passo1_by_pass_sem_descarga)

text \<open>
  C3 as stated fails for a shipment whose status is not one of transit. The shipment of the
  example with status \<open>Programado\<close> keeps that status, with or without an unload date on
  the invoice, and the unload date is not copied; only the arrival date and the marker are
  written. A shipment at \<open>Aguardando By Pass\<close>, a status the matcher does receive, keeps
  its status too when the invoice has no unload date.
\<close>

theorem status_programado_counterexample:
  "cruzar_e_atualizar_transportes [ex_transporte (PyStr (lit ''Programado''))] [ex_descarga None] =
     ([(ex_transporte (PyStr (lit ''Programado'')))
         \<lparr>data_chegada := Some 10, fonte_atualizacao := Etapa_1_Chave_Primaria\<rparr>],
      Some contadores_zero, {0})
   \<and> status (fst (cruzar_e_atualizar_transportes [ex_transporte (PyStr (lit ''Programado''))]
        [ex_descarga None]) ! 0) = PyStr (lit ''Programado'')
   \<and> status (fst (cruzar_e_atualizar_transportes [ex_transporte (PyStr (lit ''Programado''))]
        [ex_descarga None]) ! 0) \<noteq> PyStr (lit ''AGUARDANDO DESCARGA'')
   \<and> status (fst (cruzar_e_atualizar_transportes [ex_transporte (PyStr (lit ''Programado''))]
        [ex_descarga (Some 12)]) ! 0) = PyStr (lit ''Programado'')
   \<and> status (fst (cruzar_e_atualizar_transportes [ex_transporte (PyStr (lit ''Programado''))]
        [ex_descarga (Some 12)]) ! 0) \<noteq> PyStr (lit ''DESCARREGADO'')
   \<and> data_descarga (fst (cruzar_e_atualizar_transportes
        [ex_transporte (PyStr (lit ''Programado''))] [ex_descarga (Some 12)]) ! 0) = None
   \<and> status (fst (cruzar_e_atualizar_transportes
        [ex_transporte (PyStr (lit ''Aguardando By Pass''))] [ex_descarga None]) ! 0) =
       PyStr (lit ''Aguardando By Pass'')
   \<and> status (fst (cruzar_e_atualizar_transportes
        [ex_transporte (PyStr (lit ''Aguardando By Pass''))] [ex_descarga None]) ! 0) \<noteq>
       PyStr (lit ''AGUARDANDO DESCARGA'')"
  unfolding run_programado_sem_descarga run_programado_com_descarga run_by_pass_sem_descarga
  by (simp add: ex_transporte_def lit_def)

lemma run_transito_descarregado:
  "cruzar_e_atualizar_transportes [ex_transporte (PyStr em_transito)] [ex_descarga (Some 12)] =
     ([(ex_transporte (PyStr em_transito))
         \<lparr>status := PyStr (lit ''DESCARREGADO''), data_chegada := Some 10,
          data_descarga := Some 12, fonte_atualizacao := Etapa_1_Chave_Primaria\<rparr>],
      Some (contadores_zero\<lparr>etapa1_transito_para_descarregado := 1\<rparr>), {0})"
  by (simp add: cruzar_e_atualizar_transportes_def ex_reset passo1_transito_descarregado
      contadores_zero_def)

text \<open>
  C7, as the code has it. Whenever the body of either loop, or a whole run, changes the
  status of a shipment, the new status is \<open>AGUARDANDO DESCARGA\<close> and the old one was a
  status of transit, or the new status is \<open>DESCARREGADO\<close> and the old one was a status of
  transit or of awaiting: a status only moves forward along the chain, and the step from
  transit to unloaded is one of the three the code takes.
\<close>

theorem transicoes_de_status:
  "(status (fst (etapa1_linha mapa t st)) \<noteq> status t \<longrightarrow>
      (status (fst (etapa1_linha mapa t st)) = PyStr (lit ''AGUARDANDO DESCARGA'') \<and>
         py_in transito (status_original t)) \<or>
      (status (fst (etapa1_linha mapa t st)) = PyStr (lit ''DESCARREGADO'') \<and>
         (py_in transito (status_original t) \<or> py_in (lit ''aguardando'') (status_original t))))
   \<and> (status (fst (etapa2_linha mapa t st)) \<noteq> status t \<longrightarrow>
      (status (fst (etapa2_linha mapa t st)) = PyStr (lit ''AGUARDANDO DESCARGA'') \<and>
         py_in transito (status_original t)) \<or>
      (status (fst (etapa2_linha mapa t st)) = PyStr (lit ''DESCARREGADO'') \<and>
         (py_in transito (status_original t) \<or> py_in (lit ''aguardando'') (status_original t))))
   \<and> (i < length ts \<and>
       status (fst (cruzar_e_atualizar_transportes ts ds) ! i) \<noteq> status (ts ! i) \<longrightarrow>
      (status (fst (cruzar_e_atualizar_transportes ts ds) ! i) = PyStr (lit ''AGUARDANDO DESCARGA'') \<and>
         py_in transito (status_original (ts ! i))) \<or>
      (status (fst (cruzar_e_atualizar_transportes ts ds) ! i) = PyStr (lit ''DESCARREGADO'') \<and>
         (py_in transito (status_original (ts ! i)) \<or>
          py_in (lit ''aguardando'') (status_original (ts ! i)))))"
proof (intro conjI impI)
  assume "status (fst (etapa1_linha mapa t st)) \<noteq> status t"
  then show "(status (fst (etapa1_linha mapa t st)) = PyStr (lit ''AGUARDANDO DESCARGA'') \<and>
         py_in transito (status_original t)) \<or>
      (status (fst (etapa1_linha mapa t st)) = PyStr (lit ''DESCARREGADO'') \<and>
         (py_in transito (status_original t) \<or> py_in (lit ''aguardando'') (status_original t)))"
    by (rule etapa1_linha_status)
next
  assume "status (fst (etapa2_linha mapa t st)) \<noteq> status t"
  then show "(status (fst (etapa2_linha mapa t st)) = PyStr (lit ''AGUARDANDO DESCARGA'') \<and>
         py_in transito (status_original t)) \<or>
      (status (fst (etapa2_linha mapa t st)) = PyStr (lit ''DESCARREGADO'') \<and>
         (py_in transito (status_original t) \<or> py_in (lit ''aguardando'') (status_original t)))"
    by (rule etapa2_linha_status)
next
  assume a: "i < length ts \<and>
       status (fst (cruzar_e_atualizar_transportes ts ds) ! i) \<noteq> status (ts ! i)"
  then have i: "i < length ts" by simp
  from a have "status (linha_final ds (ts ! i)) \<noteq> status (ts ! i)"
    by (simp add: cruzar_nth [OF i])
  from linha_final_status [OF this]
  show "(status (fst (cruzar_e_atualizar_transportes ts ds) ! i) = PyStr (lit ''AGUARDANDO DESCARGA'') \<and>
         py_in transito (status_original (ts ! i))) \<or>
      (status (fst (cruzar_e_atualizar_transportes ts ds) ! i) = PyStr (lit ''DESCARREGADO'') \<and>
         (py_in transito (status_original (ts ! i)) \<or>
          py_in (lit ''aguardando'') (status_original (ts ! i))))"
    by (simp add: cruzar_nth [OF i])
qed

theorem transicoes_de_status_witness:
  "status (fst (cruzar_e_atualizar_transportes [ex_transporte (PyStr em_transito)]
        [ex_descarga (Some 12)]) ! 0) \<noteq> status ([ex_transporte (PyStr em_transito)] ! 0)
   \<and> status (fst (cruzar_e_atualizar_transportes [ex_transporte (PyStr em_transito)]
        [ex_descarga (Some 12)]) ! 0) = PyStr (lit ''DESCARREGADO'')
   \<and> (py_in transito (status_original ([ex_transporte (PyStr em_transito)] ! 0)) \<or>
      py_in (lit ''aguardando'') (status_original ([ex_transporte (PyStr em_transito)] ! 0)))"
proof -
  let ?t = "ex_transporte (PyStr em_transito)"
  let ?out = "fst (cruzar_e_atualizar_transportes [?t] [ex_descarga (Some 12)])"
  have s: "status (?out ! 0) = PyStr (lit ''DESCARREGADO'')"
    unfolding run_transito_descarregado by simp
  have n: "status (?out ! 0) \<noteq> status ([?t] ! 0)"
    unfolding s by (simp add: ex_transporte_def em_transito_def lit_def)
  have d: "PyStr (lit ''DESCARREGADO'') \<noteq> PyStr (lit ''AGUARDANDO DESCARGA'')"
    by (simp add: lit_def)
  have l: "(0::nat) < length [?t]" by simp
  from transicoes_de_status [of "mapa_chaves []" ?t "(contadores_zero, {})" 0 "[?t]"
      "[ex_descarga (Some 12)]"] n l s d
  have "py_in transito (status_original ([?t] ! 0)) \<or>
        py_in (lit ''aguardando'') (status_original ([?t] ! 0))"
    by metis
  with n s show ?thesis by simp
qed

text \<open>
  C7 as stated fails: a shipment \<open>Em Tr\<dots>nsito\<close> whose invoice carries an unload date
  goes to \<open>DESCARREGADO\<close> in one step, past \<open>AGUARDANDO DESCARGA\<close>, and the counter
  \<open>etapa1_transito_para_descarregado\<close> counts it.
\<close>

theorem transito_para_descarregado_counterexample:
  "status (ex_transporte (PyStr em_transito)) = PyStr em_transito
   \<and> d_data_de_descarga (ex_descarga (Some 12)) = Some 12
   \<and> cruzar_e_atualizar_transportes [ex_transporte (PyStr em_transito)] [ex_descarga (Some 12)] =
     ([(ex_transporte (PyStr em_transito))
         \<lparr>status := PyStr (lit ''DESCARREGADO''), data_chegada := Some 10,
          data_descarga := Some 12, fonte_atualizacao := Etapa_1_Chave_Primaria\<rparr>],
      Some (contadores_zero\<lparr>etapa1_transito_para_descarregado := 1\<rparr>), {0})
   \<and> status (fst (cruzar_e_atualizar_transportes [ex_transporte (PyStr em_transito)]
        [ex_descarga (Some 12)]) ! 0) = PyStr (lit ''DESCARREGADO'')"
  unfolding run_transito_descarregado
  by (simp add: ex_transporte_def ex_descarga_def)

end
